theory Spec2Isabelle
  imports Complex_Main "HOL-Library.AList"
begin

section \<open>Python values\<close>

text \<open>
  The module \<^verbatim>\<open>app/services/openai_service.py\<close> works on JSON-like Python values.
  A Python \<^verbatim>\<open>str\<close> is a sequence of Unicode code points, so it is modelled as a list of
  naturals (\<^verbatim>\<open>len\<close> and slicing count code points); \<open>ascii\<close> embeds an ASCII literal.
  A \<^verbatim>\<open>dict\<close> keeps insertion order and has unique keys: it is an association list,
  read with \<open>map_of\<close>, written with \<open>AList.update\<close> (which overwrites in place or appends,
  as Python does) and \<open>AList.delete\<close>.
  A \<^verbatim>\<open>float\<close> is a real number or NaN; rounding and infinities are not represented.
\<close>

type_synonym pystr = "nat list"

definition ascii :: "string \<Rightarrow> pystr" where
  "ascii s = map of_char s"

datatype pyfloat = Fin real | NaN

datatype pyval =
    PNone
  | PBool bool
  | PInt int
  | PFloat pyfloat
  | PStr pystr
  | PList "pyval list"
  | PDict "(pystr \<times> pyval) list"

type_synonym pydict = "(pystr \<times> pyval) list"

text \<open>Python truthiness (\<^verbatim>\<open>if x\<close>, \<^verbatim>\<open>not x\<close>).\<close>

fun truthy :: "pyval \<Rightarrow> bool" where
  "truthy PNone = False"
| "truthy (PBool b) = b"
| "truthy (PInt i) = (i \<noteq> 0)"
| "truthy (PFloat (Fin r)) = (r \<noteq> 0)"
| "truthy (PFloat NaN) = True"
| "truthy (PStr s) = (s \<noteq> [])"
| "truthy (PList xs) = (xs \<noteq> [])"
| "truthy (PDict d) = (d \<noteq> [])"

text \<open>\<^verbatim>\<open>k in d\<close>, \<^verbatim>\<open>d.get(k)\<close>, \<^verbatim>\<open>d[k] = v\<close> and \<^verbatim>\<open>del d[k]\<close>.\<close>

definition has_key :: "pydict \<Rightarrow> pystr \<Rightarrow> bool" where
  "has_key d k = (map_of d k \<noteq> None)"

definition dict_get :: "pydict \<Rightarrow> pystr \<Rightarrow> pyval option" where
  "dict_get d k = map_of d k"

definition dict_set :: "pydict \<Rightarrow> pystr \<Rightarrow> pyval \<Rightarrow> pydict" where
  "dict_set d k v = AList.update k v d"

definition dict_del :: "pydict \<Rightarrow> pystr \<Rightarrow> pydict" where
  "dict_del d k = AList.delete k d"

text \<open>
  Exceptions. \<open>pyerror\<close> are the exceptions that the libraries and the operations of Python
  raise in this module; they all derive from \<^verbatim>\<open>Exception\<close>, so an \<^verbatim>\<open>except Exception\<close>
  clause catches each of them. \<open>JSONDecodeError\<close>, \<open>ValueError\<close> and \<open>RecursionError\<close> carry
  their message (\<^verbatim>\<open>str(e)\<close>); \<^verbatim>\<open>JSONDecodeError\<close> is the only one that
  \<^verbatim>\<open>except json.JSONDecodeError\<close> catches.
  \<open>pyexc\<close> is what an awaited operation may raise: an error, an error of the provider
  (tagged, so that different failures can be told apart), or \<open>Cancelled\<close>, which stands for
  the exceptions that derive from \<^verbatim>\<open>BaseException\<close> only (\<^verbatim>\<open>asyncio.CancelledError\<close>,
  \<^verbatim>\<open>KeyboardInterrupt\<close>) and pass through \<^verbatim>\<open>except Exception\<close>.
\<close>

datatype pyerror =
    JSONDecodeError pystr
  | ValueError pystr
  | RecursionError pystr
  | TypeError
  | AttributeError
  | IndexError
  | ZeroDivisionError

datatype pyexc =
    Error pyerror
  | ProviderError nat
  | Cancelled

fun is_Exception :: "pyexc \<Rightarrow> bool" where
  "is_Exception Cancelled = False"
| "is_Exception _ = True"

fun is_JSONDecodeError :: "pyerror \<Rightarrow> bool" where
  "is_JSONDecodeError (JSONDecodeError msg) = True"
| "is_JSONDecodeError _ = False"

section \<open>EmptyResponseHandler.generate_default_response\<close>

text \<open>
  The literals of the default responses, as code points. In the order of the definitions:
  "Analysis of trends", "The analysis of trends could not be carried out because of an API
  error. Please try later or contact support.", the same two for competitors and for data,
  "Information on missing values is not available", "Information on categorical data is not
  available", "Not enough data for the analysis", "Attempt of an analysis of
  trends/competitors/data", "Repeat the analysis later", "Check the quality of the source
  data", "Contact support if the error repeats".
\<close>

definition title_trends :: pystr where
  "title_trends =
    [1040, 1085, 1072, 1083, 1080, 1079, 32, 1090, 1088, 1077, 1085, 1076, 1086, 1074]"

definition summary_trends :: pystr where
  "summary_trends =
    [1040, 1085, 1072, 1083, 1080, 1079, 32, 1090, 1088, 1077, 1085, 1076, 1086, 1074, 32, 1085,
     1077, 32, 1091, 1076, 1072, 1083, 1086, 1089, 1100, 32, 1074, 1099, 1087, 1086, 1083,
     1085, 1080, 1090, 1100, 32, 1080, 1079, 45, 1079, 1072, 32, 1086, 1096, 1080, 1073,
     1082, 1080, 32, 65, 80, 73, 46, 32, 1055, 1086, 1078, 1072, 1083, 1091, 1081, 1089,
     1090, 1072, 44, 32, 1087, 1086, 1087, 1088, 1086, 1073, 1091, 1081, 1090, 1077, 32,
     1087, 1086, 1079, 1078, 1077, 32, 1080, 1083, 1080, 32, 1086, 1073, 1088, 1072, 1090,
     1080, 1090, 1077, 1089, 1100, 32, 1074, 32, 1089, 1083, 1091, 1078, 1073, 1091, 32,
     1087, 1086, 1076, 1076, 1077, 1088, 1078, 1082, 1080, 46]"

definition title_competitors :: pystr where
  "title_competitors =
    [1040, 1085, 1072, 1083, 1080, 1079, 32, 1082, 1086, 1085, 1082, 1091, 1088, 1077, 1085,
     1090, 1086, 1074]"

definition summary_competitors :: pystr where
  "summary_competitors =
    [1040, 1085, 1072, 1083, 1080, 1079, 32, 1082, 1086, 1085, 1082, 1091, 1088, 1077, 1085,
     1090, 1086, 1074, 32, 1085, 1077, 32, 1091, 1076, 1072, 1083, 1086, 1089, 1100, 32,
     1074, 1099, 1087, 1086, 1083, 1085, 1080, 1090, 1100, 32, 1080, 1079, 45, 1079, 1072,
     32, 1086, 1096, 1080, 1073, 1082, 1080, 32, 65, 80, 73, 46, 32, 1055, 1086, 1078, 1072,
     1083, 1091, 1081, 1089, 1090, 1072, 44, 32, 1087, 1086, 1087, 1088, 1086, 1073, 1091,
     1081, 1090, 1077, 32, 1087, 1086, 1079, 1078, 1077, 32, 1080, 1083, 1080, 32, 1086,
     1073, 1088, 1072, 1090, 1080, 1090, 1077, 1089, 1100, 32, 1074, 32, 1089, 1083, 1091,
     1078, 1073, 1091, 32, 1087, 1086, 1076, 1076, 1077, 1088, 1078, 1082, 1080, 46]"

definition title_metrics :: pystr where
  "title_metrics =
    [1040, 1085, 1072, 1083, 1080, 1079, 32, 1076, 1072, 1085, 1085, 1099, 1093]"

definition summary_metrics :: pystr where
  "summary_metrics =
    [1040, 1085, 1072, 1083, 1080, 1079, 32, 1076, 1072, 1085, 1085, 1099, 1093, 32, 1085, 1077,
     32, 1091, 1076, 1072, 1083, 1086, 1089, 1100, 32, 1074, 1099, 1087, 1086, 1083, 1085,
     1080, 1090, 1100, 32, 1080, 1079, 45, 1079, 1072, 32, 1086, 1096, 1080, 1073, 1082,
     1080, 32, 65, 80, 73, 46, 32, 1055, 1086, 1078, 1072, 1083, 1091, 1081, 1089, 1090,
     1072, 44, 32, 1087, 1086, 1087, 1088, 1086, 1073, 1091, 1081, 1090, 1077, 32, 1087,
     1086, 1079, 1078, 1077, 32, 1080, 1083, 1080, 32, 1086, 1073, 1088, 1072, 1090, 1080,
     1090, 1077, 1089, 1100, 32, 1074, 32, 1089, 1083, 1091, 1078, 1073, 1091, 32, 1087,
     1086, 1076, 1076, 1077, 1088, 1078, 1082, 1080, 46]"

definition missing_values_unavailable :: pystr where
  "missing_values_unavailable =
    [1048, 1085, 1092, 1086, 1088, 1084, 1072, 1094, 1080, 1103, 32, 1086, 32, 1087, 1088, 1086,
     1087, 1091, 1097, 1077, 1085, 1085, 1099, 1093, 32, 1079, 1085, 1072, 1095, 1077, 1085,
     1080, 1103, 1093, 32, 1085, 1077, 1076, 1086, 1089, 1090, 1091, 1087, 1085, 1072]"

definition categorical_data_unavailable :: pystr where
  "categorical_data_unavailable =
    [1048, 1085, 1092, 1086, 1088, 1084, 1072, 1094, 1080, 1103, 32, 1086, 32, 1082, 1072, 1090,
     1077, 1075, 1086, 1088, 1080, 1072, 1083, 1100, 1085, 1099, 1093, 32, 1076, 1072, 1085,
     1085, 1099, 1093, 32, 1085, 1077, 1076, 1086, 1089, 1090, 1091, 1087, 1085, 1072]"

definition not_enough_data :: pystr where
  "not_enough_data =
    [1053, 1077, 1076, 1086, 1089, 1090, 1072, 1090, 1086, 1095, 1085, 1086, 32, 1076, 1072,
     1085, 1085, 1099, 1093, 32, 1076, 1083, 1103, 32, 1072, 1085, 1072, 1083, 1080, 1079,
     1072]"

definition attempt_trends :: pystr where
  "attempt_trends =
    [1055, 1086, 1087, 1099, 1090, 1082, 1072, 32, 1072, 1085, 1072, 1083, 1080, 1079, 1072, 32,
     1090, 1088, 1077, 1085, 1076, 1086, 1074]"

definition attempt_competitors :: pystr where
  "attempt_competitors =
    [1055, 1086, 1087, 1099, 1090, 1082, 1072, 32, 1072, 1085, 1072, 1083, 1080, 1079, 1072, 32,
     1082, 1086, 1085, 1082, 1091, 1088, 1077, 1085, 1090, 1086, 1074]"

definition attempt_metrics :: pystr where
  "attempt_metrics =
    [1055, 1086, 1087, 1099, 1090, 1082, 1072, 32, 1072, 1085, 1072, 1083, 1080, 1079, 1072, 32,
     1076, 1072, 1085, 1085, 1099, 1093]"

definition retry_later :: pystr where
  "retry_later =
    [1055, 1086, 1074, 1090, 1086, 1088, 1080, 1090, 1100, 32, 1072, 1085, 1072, 1083, 1080,
     1079, 32, 1087, 1086, 1079, 1078, 1077]"

definition check_source_quality :: pystr where
  "check_source_quality =
    [1055, 1088, 1086, 1074, 1077, 1088, 1080, 1090, 1100, 32, 1082, 1072, 1095, 1077, 1089,
     1090, 1074, 1086, 32, 1080, 1089, 1093, 1086, 1076, 1085, 1099, 1093, 32, 1076, 1072,
     1085, 1085, 1099, 1093]"

definition contact_support :: pystr where
  "contact_support =
    [1054, 1073, 1088, 1072, 1090, 1080, 1090, 1100, 1089, 1103, 32, 1074, 32, 1089, 1083, 1091,
     1078, 1073, 1091, 32, 1087, 1086, 1076, 1076, 1077, 1088, 1078, 1082, 1080, 32, 1087,
     1088, 1080, 32, 1087, 1086, 1074, 1090, 1086, 1088, 1077, 1085, 1080, 1080, 32, 1086,
     1096, 1080, 1073, 1082, 1080]"

text \<open>
  \<open>current_date\<close> is \<^verbatim>\<open>datetime.now().strftime("%d.%m")\<close>, read once at the start of the
  method; the clock is outside the program, so the value is a parameter.
\<close>

definition default_dynamics :: pyval where
  "default_dynamics = PDict
    [(ascii ''total_rows'', PInt 0),
     (ascii ''total_columns'', PInt 0),
     (ascii ''mean'', PDict []),
     (ascii ''median'', PDict []),
     (ascii ''change_percent'', PDict []),
     (ascii ''key_metrics_change_percent'', PInt 0)]"

definition default_body :: "pystr \<Rightarrow> pystr \<Rightarrow> pystr \<Rightarrow> pystr \<Rightarrow> pydict" where
  "default_body current_date title summary attempt =
    [(ascii ''title'', PStr title),
     (ascii ''summary'', PStr summary),
     (ascii ''period_data'', PDict
        [(ascii ''start_date'', PStr current_date),
         (ascii ''end_date'', PStr current_date)]),
     (ascii ''dynamics'', default_dynamics),
     (ascii ''factors'', PDict
        [(ascii ''missing_values'', PStr missing_values_unavailable),
         (ascii ''categorical_data'', PStr categorical_data_unavailable),
         (ascii ''key_factors'', PList [PStr not_enough_data])]),
     (ascii ''links'', PDict [(ascii ''internal'', PList []), (ascii ''external'', PList [])]),
     (ascii ''completed_tasks'', PList [PStr attempt]),
     (ascii ''pending_tasks'',
        PList [PStr retry_later, PStr check_source_quality, PStr contact_support])]"

definition generate_default_response :: "pystr \<Rightarrow> pystr \<Rightarrow> pydict" where
  "generate_default_response current_date analysis_type =
    (if analysis_type = ascii ''trends'' then
       default_body current_date title_trends summary_trends attempt_trends
     else if analysis_type = ascii ''competitors'' then
       default_body current_date title_competitors summary_competitors attempt_competitors
     else
       default_body current_date title_metrics summary_metrics attempt_metrics)"

section \<open>APIRetryStrategy.execute_with_retry\<close>

text \<open>
  The awaited operation is modelled by its outcomes: \<open>func n\<close> is what the \<open>n\<close>-th
  invocation (counted from 0 over the whole run) does, \<open>Inl e\<close> when it raises \<open>e\<close> and
  \<open>Inr v\<close> when it returns \<open>v\<close>. The loop threads the number of invocations made so far and
  the delays slept so far. \<^verbatim>\<open>except Exception\<close> does not catch \<open>Cancelled\<close>, which
  propagates at once. After the loop \<^verbatim>\<open>raise last_error\<close> raises \<^verbatim>\<open>TypeError\<close> when
  \<open>last_error\<close> is still \<^verbatim>\<open>None\<close>.
\<close>

type_synonym 'a attempt_result = "(pyexc + 'a) \<times> nat \<times> real list"

function retry_loop ::
  "int \<Rightarrow> real \<Rightarrow> (nat \<Rightarrow> pyexc + 'a) \<Rightarrow> int \<Rightarrow> real \<Rightarrow> pyexc option \<Rightarrow> nat \<Rightarrow> real list
    \<Rightarrow> 'a attempt_result" where
  "retry_loop max_retries backoff_factor func retries delay last_error calls slept =
    (if retries \<le> max_retries then
       (case func calls of
          Inr v \<Rightarrow> (Inr v, calls + 1, slept)
        | Inl e \<Rightarrow>
            if \<not> is_Exception e then (Inl e, calls + 1, slept)
            else if retries + 1 > max_retries then (Inl e, calls + 1, slept)
            else retry_loop max_retries backoff_factor func (retries + 1)
                   (delay * backoff_factor) (Some e) (calls + 1) (slept @ [delay]))
     else
       (case last_error of
          None \<Rightarrow> (Inl (Error TypeError), calls, slept)
        | Some e \<Rightarrow> (Inl e, calls, slept)))"
  by pat_completeness auto
termination
  by (relation "measure (\<lambda>(m, b, f, r, d, l, c, s). nat (m + 1 - r))") auto

definition execute_with_retry ::
  "int \<Rightarrow> real \<Rightarrow> real \<Rightarrow> (nat \<Rightarrow> pyexc + 'a) \<Rightarrow> nat \<Rightarrow> real list \<Rightarrow> 'a attempt_result" where
  "execute_with_retry max_retries initial_delay backoff_factor func calls slept =
     retry_loop max_retries backoff_factor func 0 initial_delay None calls slept"

text \<open>The defaults of \<^verbatim>\<open>APIRetryStrategy()\<close>, as the analyzers construct it.\<close>

definition default_retry :: "(nat \<Rightarrow> pyexc + 'a) \<Rightarrow> nat \<Rightarrow> real list \<Rightarrow> 'a attempt_result" where
  "default_retry = execute_with_retry 3 1 2"

section \<open>EmptyResponseHandler.handle_empty_response\<close>

text \<open>
  A provider response is modelled by the list of its choices, each the \<^verbatim>\<open>content\<close> of the
  choice's message (\<^verbatim>\<open>None\<close> or a string). \<^verbatim>\<open>str.isspace\<close> is true of a non-empty string
  of white-space characters only.
\<close>

type_synonym response = "pystr option list"

definition is_whitespace :: "nat \<Rightarrow> bool" where
  "is_whitespace c =
     (c \<in> {9, 10, 11, 12, 13, 28, 29, 30, 31, 32, 133, 160, 5760, 8232, 8233, 8239, 8287, 12288}
      \<or> (8192 \<le> c \<and> c \<le> 8202))"

definition isspace :: "pystr \<Rightarrow> bool" where
  "isspace s = (s \<noteq> [] \<and> list_all is_whitespace s)"

definition nonempty_content :: "response \<Rightarrow> bool" where
  "nonempty_content response =
     (case response of
        [] \<Rightarrow> False
      | choice # _ \<Rightarrow>
          (case choice of None \<Rightarrow> False | Some content \<Rightarrow> content \<noteq> [] \<and> \<not> isspace content))"

text \<open>
  \<open>api_call_func\<close> is the guarded call: given the invocations and delays so far it returns
  its result and the new counts (the analyzers pass \<open>execute_with_retry\<close> applied to the
  provider call). The result is \<^verbatim>\<open>(success, response)\<close>; \<open>Inl\<close> is an exception that
  \<^verbatim>\<open>except Exception\<close> lets through.
\<close>

function guard_loop ::
  "int \<Rightarrow> real \<Rightarrow> (nat \<Rightarrow> real list \<Rightarrow> response attempt_result) \<Rightarrow> int \<Rightarrow> nat \<Rightarrow> real list
    \<Rightarrow> (bool \<times> response option) attempt_result" where
  "guard_loop max_retries delay_between_retries api_call_func retries calls slept =
    (if retries < max_retries then
       (case api_call_func calls slept of
          (Inr response, calls', slept') \<Rightarrow>
            if nonempty_content response then (Inr (True, Some response), calls', slept')
            else if retries + 1 \<ge> max_retries then (Inr (False, None), calls', slept')
            else guard_loop max_retries delay_between_retries api_call_func (retries + 1) calls'
                   (slept' @ [delay_between_retries])
        | (Inl e, calls', slept') \<Rightarrow>
            if \<not> is_Exception e then (Inl e, calls', slept')
            else if retries + 1 \<ge> max_retries then (Inr (False, None), calls', slept')
            else guard_loop max_retries delay_between_retries api_call_func (retries + 1) calls'
                   (slept' @ [delay_between_retries]))
     else (Inr (False, None), calls, slept))"
  by pat_completeness auto
termination
  by (relation "measure (\<lambda>(m, d, f, r, c, s). nat (m - r))") auto

definition handle_empty_response ::
  "int \<Rightarrow> real \<Rightarrow> (nat \<Rightarrow> real list \<Rightarrow> response attempt_result) \<Rightarrow> nat \<Rightarrow> real list
    \<Rightarrow> (bool \<times> response option) attempt_result" where
  "handle_empty_response max_retries delay_between_retries api_call_func calls slept =
     guard_loop max_retries delay_between_retries api_call_func 0 calls slept"

text \<open>The defaults of \<^verbatim>\<open>EmptyResponseHandler()\<close>.\<close>

definition default_guard ::
  "(nat \<Rightarrow> real list \<Rightarrow> response attempt_result) \<Rightarrow> nat \<Rightarrow> real list
    \<Rightarrow> (bool \<times> response option) attempt_result" where
  "default_guard = handle_empty_response 3 2"

declare retry_loop.simps [simp del]
declare guard_loop.simps [simp del]

section \<open>The libraries\<close>

text \<open>
  The tokenizer (tiktoken), the JSON codec, the regular-expression engine and the statistics
  of pandas are libraries, not code of this repository. What they compute is a parameter of
  the model, collected in the record \<open>lib\<close>; every theorem holds for all libraries.
  A call that may raise returns a sum, \<open>Inl\<close> the exception.
  \<^item> \<open>encode\<close>: \<^verbatim>\<open>encoding.encode(text)\<close>, the tokens of a text; tiktoken raises
    \<^verbatim>\<open>ValueError\<close> on a text that holds a special token such as \<^verbatim>\<open><|endoftext|>\<close>;
  \<^item> \<open>dumps ensure_ascii indent v\<close>: \<^verbatim>\<open>json.dumps(v, ensure_ascii=..., indent=...)\<close>, which
    may raise (\<^verbatim>\<open>RecursionError\<close> on a deeply nested value);
  \<^item> \<open>loads\<close>: \<^verbatim>\<open>json.loads\<close>, which raises \<^verbatim>\<open>JSONDecodeError\<close> on a malformed text, and
    also \<^verbatim>\<open>ValueError\<close> (the limit on the digits of an integer) and \<^verbatim>\<open>RecursionError\<close>
    (deep nesting);
  \<^item> \<open>sorted_reverse\<close>: \<^verbatim>\<open>sorted(items, key=..., reverse=True)\<close>, given the items paired
    with their keys. Python's sort is stable and descending when the keys are totally
    ordered; with a NaN among the keys its result depends on the comparisons that the
    implementation happens to make, so it is left to the library;
  \<^item> \<open>float_of_str\<close>: \<^verbatim>\<open>float(s)\<close> of a string, \<open>Inl msg\<close> when it raises \<^verbatim>\<open>ValueError\<close>;
  \<^item> \<open>re_search p s\<close>: group 1 of \<^verbatim>\<open>re.search(p, s)\<close>, \<open>None\<close> when there is no match;
    \<open>re_findall p s\<close> and \<open>re_findall2 p s\<close>: \<^verbatim>\<open>re.findall(p, s)\<close> for a pattern of one
    group and of two groups; \<open>re_sub p s\<close>: \<^verbatim>\<open>re.sub(p, repl, s)\<close> with the replacement
    the source gives for \<open>p\<close>. The patterns are named by the datatype \<open>regex\<close>;
  \<^item> \<open>number_dtype\<close>, \<open>object_dtype\<close>: whether pandas gives the column a numeric dtype,
    an object or category dtype (\<^verbatim>\<open>select_dtypes\<close>);
  \<^item> \<open>col_mean\<close>, \<open>col_median\<close>, \<open>col_min\<close>, \<open>col_max\<close>, \<open>nunique\<close>, \<open>value_counts\<close>:
    the statistics of a column;
  \<^item> \<open>nlargest_var n cols\<close>: \<^verbatim>\<open>df[cols].var().nlargest(n).index.tolist()\<close>, given the
    columns with their cells;
  \<^item> \<open>time_series_of\<close>: the body of \<^verbatim>\<open>extract_time_series\<close> on a non-empty frame (see
    there);
  \<^item> \<open>other_frame\<close>: what \<^verbatim>\<open>pd.DataFrame\<close> makes of a value that is not a list of
    records, \<open>None\<close> when the constructor raises.
\<close>

record frame =
  columns :: "pystr list"
  rows :: "pydict list"

text \<open>
  The regular expressions of \<^verbatim>\<open>JSONResponseFormatter\<close>, in the order of the source:
  the fenced code block of \<^verbatim>\<open>extract_json_from_text\<close>; the three substitutions of
  \<^verbatim>\<open>fix_json_string\<close> (a quoted key with a quoted value, a quote not preceded by a
  backslash, a key between escaped quotes); and the patterns of
  \<^verbatim>\<open>create_fallback_response\<close>: the title after \<^verbatim>\<open>#\<close>, the sections (summary, period,
  dynamics, factors, completed and pending tasks) up to a blank line, a heading or the end,
  the start and end dates, the mean, median and change lines, the change of the key
  metrics, the missing-values and categorical-data paragraphs, and a bullet line.
\<close>

datatype regex =
    FencedJson
  | QuotedPair
  | BareQuote
  | EscapedKey
  | TitleLine
  | SummarySection
  | PeriodSection
  | StartDate
  | EndDate
  | DynamicsSection
  | MeanLine
  | MedianLine
  | ChangeLine
  | KeyMetricsChange
  | FactorsSection
  | MissingValuesPart
  | CategoricalPart
  | BulletLine
  | CompletedSection
  | PendingSection

record lib =
  encode :: "pystr \<Rightarrow> pyerror + nat list"
  dumps :: "bool \<Rightarrow> nat option \<Rightarrow> pyval \<Rightarrow> pyerror + pystr"
  loads :: "pystr \<Rightarrow> pyerror + pyval"
  sorted_reverse :: "((pystr \<times> pyval) \<times> pyfloat) list \<Rightarrow> (pystr \<times> pyval) list"
  float_of_str :: "pystr \<Rightarrow> pystr + pyfloat"
  re_search :: "regex \<Rightarrow> pystr \<Rightarrow> pystr option"
  re_findall :: "regex \<Rightarrow> pystr \<Rightarrow> pystr list"
  re_findall2 :: "regex \<Rightarrow> pystr \<Rightarrow> (pystr \<times> pystr) list"
  re_sub :: "regex \<Rightarrow> pystr \<Rightarrow> pystr"
  number_dtype :: "pyval list \<Rightarrow> bool"
  object_dtype :: "pyval list \<Rightarrow> bool"
  col_mean :: "pyval list \<Rightarrow> pyfloat"
  col_median :: "pyval list \<Rightarrow> pyfloat"
  col_min :: "pyval list \<Rightarrow> pyfloat"
  col_max :: "pyval list \<Rightarrow> pyfloat"
  nunique :: "pyval list \<Rightarrow> nat"
  value_counts :: "pyval list \<Rightarrow> pydict"
  nlargest_var :: "nat \<Rightarrow> (pystr \<times> pyval list) list \<Rightarrow> pystr list"
  time_series_of :: "frame \<Rightarrow> pydict"
  other_frame :: "pyval \<Rightarrow> frame option"

section \<open>TokenCounter\<close>

definition count_tokens :: "lib \<Rightarrow> pystr \<Rightarrow> pyerror + nat" where
  "count_tokens L text =
     (if text = [] then Inr 0
      else (case encode L text of Inl e \<Rightarrow> Inl e | Inr tokens \<Rightarrow> Inr (length tokens)))"

text \<open>
  A message is a dict of strings (\<^verbatim>\<open>role\<close>, \<^verbatim>\<open>content\<close>, possibly \<^verbatim>\<open>name\<close>);
  \<^verbatim>\<open>str(value)\<close> of a string is the string. The two loops of \<^verbatim>\<open>count_messages_tokens\<close>
  thread the running total; an exception of the tokenizer ends them.
\<close>

type_synonym message = "(pystr \<times> pystr option) list"

fun count_message_tokens :: "lib \<Rightarrow> message \<Rightarrow> nat \<Rightarrow> pyerror + nat" where
  "count_message_tokens L [] total_tokens = Inr total_tokens"
| "count_message_tokens L ((key, v) # items) total_tokens =
     (case v of
        None \<Rightarrow> count_message_tokens L items total_tokens
      | Some s \<Rightarrow>
          (case count_tokens L s of
             Inl e \<Rightarrow> Inl e
           | Inr n \<Rightarrow>
               count_message_tokens L items
                 (total_tokens + n + (if key = ascii ''name'' then 1 else 0))))"

fun count_messages_loop :: "lib \<Rightarrow> message list \<Rightarrow> nat \<Rightarrow> pyerror + nat" where
  "count_messages_loop L [] total_tokens = Inr total_tokens"
| "count_messages_loop L (message # messages) total_tokens =
     (case count_message_tokens L message (total_tokens + 4) of
        Inl e \<Rightarrow> Inl e
      | Inr total_tokens' \<Rightarrow> count_messages_loop L messages total_tokens')"

definition count_messages_tokens :: "lib \<Rightarrow> message list \<Rightarrow> pyerror + nat" where
  "count_messages_tokens L messages =
     (case count_messages_loop L messages 0 of
        Inl e \<Rightarrow> Inl e
      | Inr total_tokens \<Rightarrow> Inr (total_tokens + 2))"

section \<open>Data frames\<close>

text \<open>
  \<^verbatim>\<open>pd.DataFrame(records)\<close> for a list of records: the columns are the keys in the order in
  which they first appear, every row has a cell for every column, and the cell of a key
  that a record lacks is missing. Cells are carried as the records have them (the numeric
  coercions of pandas, such as int to float in a mixed column, are not represented); a
  missing cell is \<open>PNone\<close>, and \<open>PNone\<close> and NaN both count as missing (\<^verbatim>\<open>isna\<close>).
\<close>

fun as_records :: "pyval \<Rightarrow> pydict list option" where
  "as_records (PList xs) =
     (if list_all (\<lambda>x. case x of PDict _ \<Rightarrow> True | _ \<Rightarrow> False) xs
      then Some (map (\<lambda>x. case x of PDict d \<Rightarrow> d | _ \<Rightarrow> []) xs) else None)"
| "as_records _ = None"

declare as_records.simps [simp del]

definition union_keys :: "pydict list \<Rightarrow> pystr list" where
  "union_keys records = rev (remdups (rev (concat (map (map fst) records))))"

definition fill_row :: "pystr list \<Rightarrow> pydict \<Rightarrow> pydict" where
  "fill_row cols record =
     map (\<lambda>c. (c, case map_of record c of None \<Rightarrow> PNone | Some v \<Rightarrow> v)) cols"

definition frame_of_records :: "pydict list \<Rightarrow> frame" where
  "frame_of_records records =
     \<lparr>columns = union_keys records, rows = map (fill_row (union_keys records)) records\<rparr>"

definition DataFrame :: "lib \<Rightarrow> pyval \<Rightarrow> frame option" where
  "DataFrame L v =
     (case as_records v of
        Some records \<Rightarrow> Some (frame_of_records records)
      | None \<Rightarrow> other_frame L v)"

definition df_len :: "frame \<Rightarrow> nat" where
  "df_len df = length (rows df)"

definition df_empty :: "frame \<Rightarrow> bool" where
  "df_empty df = (rows df = [] \<or> columns df = [])"

definition cell :: "pydict \<Rightarrow> pystr \<Rightarrow> pyval" where
  "cell row c = (case map_of row c of None \<Rightarrow> PNone | Some v \<Rightarrow> v)"

definition column :: "frame \<Rightarrow> pystr \<Rightarrow> pyval list" where
  "column df c = map (\<lambda>row. cell row c) (rows df)"

fun isna :: "pyval \<Rightarrow> bool" where
  "isna PNone = True"
| "isna (PFloat NaN) = True"
| "isna _ = False"

text \<open>
  \<^verbatim>\<open>float(x)\<close> of a cell of a numeric column, whose cells are numbers or missing.
\<close>

fun cell_float :: "pyval \<Rightarrow> pyfloat" where
  "cell_float (PInt i) = Fin (real_of_int i)"
| "cell_float (PFloat f) = f"
| "cell_float (PBool b) = Fin (if b then 1 else 0)"
| "cell_float _ = NaN"

text \<open>Float arithmetic: NaN propagates; \<open>x != 0\<close> is true of NaN.\<close>

fun fsub :: "pyfloat \<Rightarrow> pyfloat \<Rightarrow> pyfloat" where
  "fsub (Fin a) (Fin b) = Fin (a - b)"
| "fsub _ _ = NaN"

fun fdiv :: "pyfloat \<Rightarrow> pyfloat \<Rightarrow> pyfloat" where
  "fdiv (Fin a) (Fin b) = Fin (a / b)"
| "fdiv _ _ = NaN"

fun fmul :: "pyfloat \<Rightarrow> pyfloat \<Rightarrow> pyfloat" where
  "fmul (Fin a) (Fin b) = Fin (a * b)"
| "fmul _ _ = NaN"

text \<open>
  The guard that opens every method of \<^verbatim>\<open>DataPreprocessor\<close> and of
  \<^verbatim>\<open>ConsolidatedDataProcessor\<close>: \<^verbatim>\<open>"data" not in data or not data["data"]\<close>. \<open>data_rows\<close>
  is the value under \<^verbatim>\<open>"data"\<close> when the guard lets it through.
\<close>

definition data_rows :: "pydict \<Rightarrow> pyval option" where
  "data_rows data =
     (case dict_get data (ascii ''data'') of
        None \<Rightarrow> None
      | Some v \<Rightarrow> if truthy v then Some v else None)"

section \<open>DataPreprocessor.extract_key_metrics\<close>

definition change_percent :: "frame \<Rightarrow> pystr \<Rightarrow> pyval" where
  "change_percent df col =
     (if df_len df > 1 then
        (let first_value = cell_float (hd (column df col));
             last_value = cell_float (last (column df col))
         in if first_value \<noteq> Fin 0
            then PFloat (fmul (fdiv (fsub last_value first_value) first_value) (Fin 100))
            else PInt 0)
      else PInt 0)"

definition metric_of :: "lib \<Rightarrow> frame \<Rightarrow> pystr \<Rightarrow> pydict" where
  "metric_of L df col =
     [(ascii ''mean'', PFloat (col_mean L (column df col))),
      (ascii ''median'', PFloat (col_median L (column df col))),
      (ascii ''min'', PFloat (col_min L (column df col))),
      (ascii ''max'', PFloat (col_max L (column df col))),
      (ascii ''last_value'',
         if df_len df > 0 then PFloat (cell_float (last (column df col))) else PInt 0),
      (ascii ''first_value'',
         if df_len df > 0 then PFloat (cell_float (hd (column df col))) else PInt 0),
      (ascii ''change_percent'', change_percent df col)]"

definition numeric_cols :: "lib \<Rightarrow> frame \<Rightarrow> nat \<Rightarrow> pystr list" where
  "numeric_cols L df limit =
     (let cols = filter (\<lambda>c. number_dtype L (column df c)) (columns df)
      in if length cols > limit
         then nlargest_var L limit (map (\<lambda>c. (c, column df c)) cols)
         else cols)"

definition key_metrics_of :: "lib \<Rightarrow> frame \<Rightarrow> pydict" where
  "key_metrics_of L df =
     foldl (\<lambda>key_metrics col.
              if list_all isna (column df col) then key_metrics
              else dict_set key_metrics col (PDict (metric_of L df col)))
       [] (numeric_cols L df 5)"

definition extract_key_metrics :: "lib \<Rightarrow> pydict \<Rightarrow> pydict" where
  "extract_key_metrics L data =
     (case data_rows data of
        None \<Rightarrow> []
      | Some v \<Rightarrow>
          (case DataFrame L v of
             None \<Rightarrow> []
           | Some df \<Rightarrow> if df_empty df then [] else key_metrics_of L df))"

section \<open>DataPreprocessor.extract_time_series and extract_categorical_data\<close>

text \<open>
  After its guards \<^verbatim>\<open>extract_time_series\<close> is a chain of pandas and numpy calls (the search
  for a date column, \<^verbatim>\<open>to_datetime\<close>, \<^verbatim>\<open>sort_values\<close>, \<^verbatim>\<open>nunique\<close>, \<^verbatim>\<open>iterrows\<close>,
  \<^verbatim>\<open>linspace\<close>) inside a \<^verbatim>\<open>try\<close> whose \<^verbatim>\<open>except\<close> clause keeps what was collected: on a
  non-empty frame it yields some dict, \<open>time_series_of L df\<close>.
\<close>

definition extract_time_series :: "lib \<Rightarrow> pydict \<Rightarrow> pydict" where
  "extract_time_series L data =
     (case data_rows data of
        None \<Rightarrow> []
      | Some v \<Rightarrow>
          (case DataFrame L v of
             None \<Rightarrow> []
           | Some df \<Rightarrow> if df_empty df then [] else time_series_of L df))"

definition categorical_of :: "lib \<Rightarrow> frame \<Rightarrow> pydict" where
  "categorical_of L df =
     (let cols = filter (\<lambda>c. object_dtype L (column df c)) (columns df);
          categorical_cols = (if length cols > 5 then take 5 cols else cols)
      in foldl (\<lambda>categorical_data col.
                  if nunique L (column df col) > 10 then categorical_data
                  else dict_set categorical_data col (PDict (value_counts L (column df col))))
           [] categorical_cols)"

definition extract_categorical_data :: "lib \<Rightarrow> pydict \<Rightarrow> pydict" where
  "extract_categorical_data L data =
     (case data_rows data of
        None \<Rightarrow> []
      | Some v \<Rightarrow>
          (case DataFrame L v of
             None \<Rightarrow> []
           | Some df \<Rightarrow> if df_empty df then [] else categorical_of L df))"

section \<open>DataPreprocessor.summarize_data\<close>

definition missing_values_of :: "frame \<Rightarrow> pydict" where
  "missing_values_of df =
     (let missing_values =
            concat (map (\<lambda>col. let missing_count = length (filter isna (column df col))
                                in if missing_count > 0 then [(col, PInt (int missing_count))]
                                   else [])
                      (columns df))
      in if length missing_values > 10 then take 10 missing_values else missing_values)"

text \<open>
  The \<^verbatim>\<open>try\<close> block of \<^verbatim>\<open>summarize_data\<close> fills \<^verbatim>\<open>summary\<close> entry by entry, and its
  \<^verbatim>\<open>except Exception\<close> clause returns the summary as the exception found it. The calls
  that may raise are the two \<^verbatim>\<open>json.dumps\<close>, each made only when its dict is not empty.
\<close>

definition add_if_small :: "lib \<Rightarrow> pystr \<Rightarrow> pydict \<Rightarrow> pydict \<Rightarrow> pyerror + pydict" where
  "add_if_small L key extracted summary =
     (if extracted \<noteq> [] then
        (case dumps L True None (PDict extracted) of
           Inl e \<Rightarrow> Inl e
         | Inr text \<Rightarrow>
             Inr (if length text < 1000 then dict_set summary key (PDict extracted)
                  else summary))
      else Inr summary)"

definition summary_of :: "lib \<Rightarrow> pydict \<Rightarrow> frame \<Rightarrow> pydict" where
  "summary_of L data df =
     (let summary =
            [(ascii ''rows_count'', PInt (int (df_len df))),
             (ascii ''columns_count'', PInt (int (length (columns df)))),
             (ascii ''columns'',
                PList (map PStr (if length (columns df) > 20 then take 20 (columns df)
                                 else columns df))),
             (ascii ''missing_values'', PDict (missing_values_of df)),
             (ascii ''key_metrics'', PDict (extract_key_metrics L data))]
      in case add_if_small L (ascii ''time_series'') (extract_time_series L data) summary of
           Inl e \<Rightarrow> summary
         | Inr summary1 \<Rightarrow>
             (case add_if_small L (ascii ''categorical_data'')
                     (extract_categorical_data L data) summary1 of
                Inl e \<Rightarrow> summary1
              | Inr summary2 \<Rightarrow> summary2))"

definition summarize_data :: "lib \<Rightarrow> pydict \<Rightarrow> pydict" where
  "summarize_data L data =
     (case data_rows data of
        None \<Rightarrow> []
      | Some v \<Rightarrow>
          (case DataFrame L v of
             None \<Rightarrow> []
           | Some df \<Rightarrow> if df_empty df then [] else summary_of L data df))"

section \<open>DataPreprocessor.normalize_data\<close>

text \<open>
  \<^verbatim>\<open>sorted(items, key=lambda x: abs(x[1].get("change_percent", 0)), reverse=True)\<close>.
  \<open>abs_change\<close> is the key, \<open>None\<close> when computing it raises (the metric is not a dict, or the
  value is not a number); Python computes the keys of all items before it sorts. The sort
  itself is the library's \<open>sorted_reverse\<close>.
\<close>

fun abs_change :: "pyval \<Rightarrow> pyfloat option" where
  "abs_change (PDict metric) =
     (case dict_get metric (ascii ''change_percent'') of
        None \<Rightarrow> Some (Fin 0)
      | Some (PInt i) \<Rightarrow> Some (Fin \<bar>real_of_int i\<bar>)
      | Some (PBool b) \<Rightarrow> Some (Fin (if b then 1 else 0))
      | Some (PFloat (Fin r)) \<Rightarrow> Some (Fin \<bar>r\<bar>)
      | Some (PFloat NaN) \<Rightarrow> Some NaN
      | Some _ \<Rightarrow> None)"
| "abs_change _ = None"

definition sorted_by_abs_change :: "lib \<Rightarrow> pydict \<Rightarrow> pydict option" where
  "sorted_by_abs_change L items =
     (if list_all (\<lambda>(k, v). abs_change v \<noteq> None) items
      then Some (sorted_reverse L (map (\<lambda>(k, v). ((k, v), the (abs_change v))) items))
      else None)"

text \<open>
  The first reduction: drop \<^verbatim>\<open>time_series\<close> and \<^verbatim>\<open>categorical_data\<close>, keep the five
  metrics of largest absolute change, and delete \<^verbatim>\<open>std\<close> and \<^verbatim>\<open>sum\<close> from each.
  \<open>None\<close> is an exception of these statements (\<^verbatim>\<open>AttributeError\<close> or \<^verbatim>\<open>TypeError\<close>, when
  \<^verbatim>\<open>key_metrics\<close> is not a dict of metrics).
\<close>

fun strip_std_sum :: "pystr \<times> pyval \<Rightarrow> pystr \<times> pyval" where
  "strip_std_sum (k, PDict metric) =
     (k, PDict (dict_del (dict_del metric (ascii ''std'')) (ascii ''sum'')))"
| "strip_std_sum (k, v) = (k, v)"

definition first_reduction :: "lib \<Rightarrow> pydict \<Rightarrow> pydict option" where
  "first_reduction L summary =
     (let summary = dict_del summary (ascii ''time_series'');
          summary = dict_del summary (ascii ''categorical_data'')
      in case dict_get summary (ascii ''key_metrics'') of
           None \<Rightarrow> Some summary
         | Some (PDict key_metrics) \<Rightarrow>
             (case sorted_by_abs_change L key_metrics of
                None \<Rightarrow> None
              | Some sorted_metrics \<Rightarrow>
                  Some (dict_set summary (ascii ''key_metrics'')
                          (PDict (map strip_std_sum (take 5 sorted_metrics)))))
         | Some _ \<Rightarrow> None)"

text \<open>
  The second reduction. \<^verbatim>\<open>summary\<close> is first rebound to a new dict of three entries, and
  the test \<^verbatim>\<open>"key_metrics" in summary\<close> that follows reads that new dict, as the source
  does. \<open>get_default\<close> is \<^verbatim>\<open>d.get(k, default)\<close>, \<open>slice10\<close> is \<^verbatim>\<open>x[:10]\<close>.
\<close>

definition get_default :: "pydict \<Rightarrow> pystr \<Rightarrow> pyval \<Rightarrow> pyval" where
  "get_default d k dflt = (case dict_get d k of None \<Rightarrow> dflt | Some v \<Rightarrow> v)"

fun slice10 :: "pyval \<Rightarrow> pyval option" where
  "slice10 (PList xs) = Some (PList (take 10 xs))"
| "slice10 (PStr s) = Some (PStr (take 10 s))"
| "slice10 _ = None"

fun keep_mean_change :: "pystr \<times> pyval \<Rightarrow> pystr \<times> pyval" where
  "keep_mean_change (k, PDict metric) =
     (k, PDict (filter (\<lambda>(key, v). key \<in> set [ascii ''mean'', ascii ''change_percent''])
                  metric))"
| "keep_mean_change (k, v) = (k, v)"

definition second_reduction :: "lib \<Rightarrow> pydict \<Rightarrow> pydict option" where
  "second_reduction L old_summary =
     (case slice10 (get_default old_summary (ascii ''columns'') (PList [])) of
        None \<Rightarrow> None
      | Some cols \<Rightarrow>
          (let summary =
                 [(ascii ''rows_count'', get_default old_summary (ascii ''rows_count'') (PInt 0)),
                  (ascii ''columns_count'',
                     get_default old_summary (ascii ''columns_count'') (PInt 0)),
                  (ascii ''columns'', cols)]
           in if has_key summary (ascii ''key_metrics'')
                 \<and> truthy (get_default summary (ascii ''key_metrics'') PNone)
              then
                (case dict_get summary (ascii ''key_metrics'') of
                   Some (PDict key_metrics) \<Rightarrow>
                     (case sorted_by_abs_change L key_metrics of
                        None \<Rightarrow> None
                      | Some sorted_metrics \<Rightarrow>
                          Some (dict_set summary (ascii ''key_metrics'')
                                  (PDict (map keep_mean_change (take 3 sorted_metrics)))))
                 | _ \<Rightarrow> None)
              else Some summary))"

text \<open>
  \<open>summary_tokens\<close> is \<^verbatim>\<open>count_tokens(json.dumps(summary, ensure_ascii=False))\<close>.
  \<open>reduce_summary\<close> is the \<^verbatim>\<open>try\<close> block of \<^verbatim>\<open>normalize_data\<close>: \<open>Inl\<close> is an exception
  raised in it, by the serialiser, by the tokenizer or by a reduction. The
  \<^verbatim>\<open>except Exception\<close> clause then returns \<^verbatim>\<open>data\<close>, the input itself.
\<close>

definition summary_tokens :: "lib \<Rightarrow> pydict \<Rightarrow> pyerror + nat" where
  "summary_tokens L summary =
     (case dumps L False None (PDict summary) of
        Inl e \<Rightarrow> Inl e
      | Inr summary_json \<Rightarrow> count_tokens L summary_json)"

definition reduce_summary :: "lib \<Rightarrow> int \<Rightarrow> pydict \<Rightarrow> pyerror + pydict" where
  "reduce_summary L max_tokens summary =
     (case summary_tokens L summary of
        Inl e \<Rightarrow> Inl e
      | Inr tokens \<Rightarrow>
          if int tokens > max_tokens then
            (case first_reduction L summary of
               None \<Rightarrow> Inl AttributeError
             | Some summary1 \<Rightarrow>
                 (case summary_tokens L summary1 of
                    Inl e \<Rightarrow> Inl e
                  | Inr tokens1 \<Rightarrow>
                      if int tokens1 > max_tokens then
                        (case second_reduction L summary1 of
                           None \<Rightarrow> Inl TypeError
                         | Some summary2 \<Rightarrow> Inr summary2)
                      else Inr summary1))
          else Inr summary)"

definition normalize_data :: "lib \<Rightarrow> int \<Rightarrow> pydict \<Rightarrow> pydict" where
  "normalize_data L max_tokens data =
     (let summary = summarize_data L data
      in if summary = [] then data
         else (case reduce_summary L max_tokens summary of
                 Inl e \<Rightarrow> data
               | Inr summary' \<Rightarrow> summary'))"

section \<open>ConsolidatedDataProcessor\<close>

text \<open>
  The methods return lists of dict objects, and some of these are the caller's own dataset
  object (\<^verbatim>\<open>return [data]\<close>), which later stages mutate. Each returned batch therefore
  carries its identity: \<open>Original\<close> is the object the caller passed in, \<open>Created\<close> is an object
  made during consolidation.
\<close>

datatype origin = Original | Created

type_synonym batch = "origin \<times> pydict"

definition batch_data :: "pydict list \<Rightarrow> pystr list \<Rightarrow> nat \<Rightarrow> pydict" where
  "batch_data current_batch cols n =
     [(ascii ''data'', PList (map PDict current_batch)),
      (ascii ''columns'', PList (map PStr cols)),
      (ascii ''batch_index'', PInt (int n))]"

definition row_tokens :: "lib \<Rightarrow> pydict \<Rightarrow> pyerror + nat" where
  "row_tokens L row_dict =
     (case dumps L False None (PDict row_dict) of
        Inl e \<Rightarrow> Inl e
      | Inr row_json \<Rightarrow> count_tokens L row_json)"

text \<open>
  The loop over the rows of the frame: \<open>batches\<close> are the sealed batches, \<open>current_batch\<close> the
  rows of the batch being filled and \<open>current_batch_tokens\<close> their tokens. The last equation
  is the code after the loop. \<open>Inl\<close> is an exception raised in the loop, by the serialiser
  or the tokenizer on a row (\<open>normalize_data\<close> catches its own).
\<close>

fun token_limit_loop ::
  "lib \<Rightarrow> int \<Rightarrow> pystr list \<Rightarrow> pydict list \<Rightarrow> pydict list \<Rightarrow> pydict list \<Rightarrow> nat
    \<Rightarrow> pyerror + pydict list"
  where
  "token_limit_loop L max_tokens_per_batch cols (row_dict # remaining) batches current_batch
       current_batch_tokens =
     (case row_tokens L row_dict of
        Inl e \<Rightarrow> Inl e
      | Inr n \<Rightarrow>
          if int (current_batch_tokens + n) > max_tokens_per_batch
             \<and> current_batch \<noteq> []
          then token_limit_loop L max_tokens_per_batch cols remaining
                 (batches @ [normalize_data L max_tokens_per_batch
                               (batch_data current_batch cols (length batches))])
                 [row_dict] n
          else token_limit_loop L max_tokens_per_batch cols remaining batches
                 (current_batch @ [row_dict]) (current_batch_tokens + n))"
| "token_limit_loop L max_tokens_per_batch cols [] batches current_batch current_batch_tokens =
     Inr (if current_batch \<noteq> []
          then batches @ [normalize_data L max_tokens_per_batch
                            (batch_data current_batch cols (length batches))]
          else batches)"

text \<open>
  An exception of the \<^verbatim>\<open>try\<close> block, the constructor's or the loop's, ends in
  \<^verbatim>\<open>return [data]\<close>: the caller's dataset as the only batch.
\<close>

definition consolidate_data_by_token_limit :: "lib \<Rightarrow> int \<Rightarrow> pydict \<Rightarrow> batch list" where
  "consolidate_data_by_token_limit L max_tokens_per_batch data =
     (case data_rows data of
        None \<Rightarrow> [(Original, data)]
      | Some v \<Rightarrow>
          (case DataFrame L v of
             None \<Rightarrow> [(Original, data)]
           | Some df \<Rightarrow>
               if df_empty df then [(Original, data)]
               else
                 (case token_limit_loop L max_tokens_per_batch (columns df) (rows df) [] [] 0 of
                    Inl e \<Rightarrow> [(Original, data)]
                  | Inr batches \<Rightarrow> map (Pair Created) batches)))"

text \<open>
  The merge of \<^verbatim>\<open>consolidate_data\<close>: \<^verbatim>\<open>for i in range(0, len(batches), batch_size)\<close>. The
  batch at index \<open>i\<close> is updated in place and appended; \<open>batch_size\<close> is at least 1.
\<close>

definition mark_merged :: "batch \<Rightarrow> nat \<Rightarrow> nat \<Rightarrow> nat \<Rightarrow> nat \<Rightarrow> batch" where
  "mark_merged b merged_count i batch_size n =
     (fst b,
      dict_set (dict_set (snd b) (ascii ''batch_index'') (PInt (int merged_count)))
        (ascii ''merged_from'') (PList (map (\<lambda>j. PInt (int j)) [i ..< min (i + batch_size) n])))"

function merge_loop :: "batch list \<Rightarrow> nat \<Rightarrow> nat \<Rightarrow> batch list \<Rightarrow> batch list" where
  "merge_loop batches batch_size i merged_batches =
     (if i < length batches \<and> 0 < batch_size
      then merge_loop batches batch_size (i + batch_size)
             (merged_batches @
                [mark_merged (batches ! i) (length merged_batches) i batch_size (length batches)])
      else merged_batches)"
  by pat_completeness auto
termination
  by (relation "measure (\<lambda>(b, s, i, m). length b - i)") auto

declare merge_loop.simps [simp del]

text \<open>
  \<^verbatim>\<open>len(batches) // max_api_calls\<close> raises \<^verbatim>\<open>ZeroDivisionError\<close> when \<open>max_api_calls = 0\<close>;
  like every exception of the \<^verbatim>\<open>try\<close> block it ends in \<^verbatim>\<open>return [data]\<close>. Python's \<^verbatim>\<open>//\<close>
  on integers is the floor division, as \<open>div\<close> on \<open>int\<close> is.
\<close>

definition consolidate_data :: "lib \<Rightarrow> int \<Rightarrow> int \<Rightarrow> pydict \<Rightarrow> batch list" where
  "consolidate_data L max_api_calls max_tokens_per_batch data =
     (case data_rows data of
        None \<Rightarrow> [(Original, data)]
      | Some v \<Rightarrow>
          (case DataFrame L v of
             None \<Rightarrow> [(Original, data)]
           | Some df \<Rightarrow>
               if df_empty df then [(Original, data)]
               else if int (df_len df) \<le> max_api_calls then [(Original, data)]
               else
                 (let batches_by_token_limit =
                        consolidate_data_by_token_limit L max_tokens_per_batch data
                  in if int (length batches_by_token_limit) > max_api_calls then
                       (if max_api_calls = 0 then [(Original, data)]
                        else
                          (let batch_size =
                                 nat (max 1 (int (length batches_by_token_limit) div max_api_calls))
                           in merge_loop batches_by_token_limit batch_size 0 []))
                     else batches_by_token_limit)))"

section \<open>JSONResponseFormatter\<close>

text \<open>
  String primitives of Python: \<^verbatim>\<open>s.find(c)\<close> and \<^verbatim>\<open>s.rfind(c)\<close> for a character (\<open>None\<close> is
  the result -1), the slice \<^verbatim>\<open>s[a:b]\<close> for \<open>0 \<le> a\<close>, \<^verbatim>\<open>s.strip()\<close>, and
  \<^verbatim>\<open>s.replace(old, new)\<close> for a non-empty \<open>old\<close> (every use in the source), which replaces
  the occurrences from the left without overlap.
\<close>

fun find_char :: "nat \<Rightarrow> pystr \<Rightarrow> nat option" where
  "find_char c [] = None"
| "find_char c (x # xs) = (if x = c then Some 0 else map_option Suc (find_char c xs))"

definition rfind_char :: "nat \<Rightarrow> pystr \<Rightarrow> nat option" where
  "rfind_char c s = map_option (\<lambda>i. length s - 1 - i) (find_char c (rev s))"

definition slice :: "nat \<Rightarrow> nat \<Rightarrow> pystr \<Rightarrow> pystr" where
  "slice a b s = take (b - a) (drop a s)"

definition strip :: "pystr \<Rightarrow> pystr" where
  "strip s = rev (dropWhile is_whitespace (rev (dropWhile is_whitespace s)))"

function str_replace :: "pystr \<Rightarrow> pystr \<Rightarrow> pystr \<Rightarrow> pystr" where
  "str_replace old new s =
     (if old = [] \<or> s = [] then s
      else if take (length old) s = old then new @ str_replace old new (drop (length old) s)
      else hd s # str_replace old new (tl s))"
  by pat_completeness auto
termination
  by (relation "measure (\<lambda>(old, new, s). length s)") auto

declare str_replace.simps [simp del]

text \<open>The characters \<^verbatim>\<open>{\<close>, \<^verbatim>\<open>}\<close>, \<^verbatim>\<open>'\<close>, \<^verbatim>\<open>"\<close> and the backslash.\<close>

definition lbrace :: nat where "lbrace = 123"
definition rbrace :: nat where "rbrace = 125"
definition squote :: nat where "squote = 39"
definition dquote :: nat where "dquote = 34"
definition backslash :: nat where "backslash = 92"

definition extract_json_from_text :: "lib \<Rightarrow> pystr \<Rightarrow> pystr option" where
  "extract_json_from_text L text =
     (if text = [] then None
      else
        (case re_findall L FencedJson text of
           m # _ \<Rightarrow> Some m
         | [] \<Rightarrow>
             (case (find_char lbrace text, rfind_char rbrace text) of
                (Some start_idx, Some end_idx) \<Rightarrow>
                  if start_idx < end_idx then Some (slice start_idx (end_idx + 1) text)
                  else None
              | _ \<Rightarrow> None)))"

definition fix_json_string :: "lib \<Rightarrow> pystr \<Rightarrow> pystr" where
  "fix_json_string L json_str =
     (if json_str = [] then ascii ''{}''
      else
        (let s = str_replace [squote] [dquote] json_str;
             s = re_sub L QuotedPair s;
             s = str_replace [backslash] [backslash, backslash] s;
             s = str_replace [backslash, backslash, backslash, backslash]
                   [backslash, backslash] s;
             s = str_replace [backslash, dquote] [dquote] s;
             s = re_sub L BareQuote s;
             s = str_replace [backslash, dquote] [dquote] s;
             s = re_sub L EscapedKey s
         in s))"

text \<open>
  \<^verbatim>\<open>parse_json_safely\<close> returns what \<^verbatim>\<open>json.loads\<close> returns, which is any JSON value, or
  the empty dict. Its two clauses are \<^verbatim>\<open>except json.JSONDecodeError\<close>: any other exception
  of \<^verbatim>\<open>json.loads\<close> leaves the method.
\<close>

definition parse_json_safely :: "lib \<Rightarrow> pystr \<Rightarrow> pyerror + pyval" where
  "parse_json_safely L json_str =
     (if json_str = [] then Inr (PDict [])
      else
        (case loads L json_str of
           Inr v \<Rightarrow> Inr v
         | Inl e \<Rightarrow>
             if is_JSONDecodeError e then
               (case loads L (fix_json_string L json_str) of
                  Inr v \<Rightarrow> Inr v
                | Inl e2 \<Rightarrow> if is_JSONDecodeError e2 then Inr (PDict []) else Inl e2)
             else Inl e))"

subsection \<open>create_fallback_response\<close>

text \<open>
  The two literals are "Results of the analysis" and "The results of the analysis could
  not be obtained". \<open>current_date\<close> is \<^verbatim>\<open>datetime.now().strftime("%d.%m")\<close>.
\<close>

definition fallback_title :: pystr where
  "fallback_title =
    [1056, 1077, 1079, 1091, 1083, 1100, 1090, 1072, 1090, 1099, 32, 1072, 1085, 1072, 1083,
     1080, 1079, 1072]"

definition fallback_summary :: pystr where
  "fallback_summary =
    [1053, 1077, 32, 1091, 1076, 1072, 1083, 1086, 1089, 1100, 32, 1087, 1086, 1083, 1091, 1095,
     1080, 1090, 1100, 32, 1088, 1077, 1079, 1091, 1083, 1100, 1090, 1072, 1090, 1099, 32, 1072,
     1085, 1072, 1083, 1080, 1079, 1072]"

definition base_response :: "pystr \<Rightarrow> pystr \<Rightarrow> pystr \<Rightarrow> pydict" where
  "base_response current_date raw_content error_message =
     (let response =
            [(ascii ''title'', PStr fallback_title),
             (ascii ''summary'',
                PStr (if raw_content \<noteq> [] then take 1000 raw_content else fallback_summary)),
             (ascii ''period_data'', PDict
                [(ascii ''start_date'', PStr current_date),
                 (ascii ''end_date'', PStr current_date)]),
             (ascii ''dynamics'', default_dynamics),
             (ascii ''factors'', PDict
                [(ascii ''missing_values'', PStr []),
                 (ascii ''categorical_data'', PStr []),
                 (ascii ''key_factors'', PList [])]),
             (ascii ''links'',
                PDict [(ascii ''internal'', PList []), (ascii ''external'', PList [])]),
             (ascii ''completed_tasks'', PList []),
             (ascii ''pending_tasks'', PList [])]
      in if error_message \<noteq> [] then dict_set response (ascii ''error'') (PStr error_message)
         else response)"

text \<open>
  \<^verbatim>\<open>response[k1][k2] = v\<close> and \<^verbatim>\<open>response[k1][k2][k3] = v\<close>. The inner values are the
  dicts of \<open>base_response\<close>; the other cases do not arise and leave the response as it is.
\<close>

definition set_in :: "pydict \<Rightarrow> pystr \<Rightarrow> pystr \<Rightarrow> pyval \<Rightarrow> pydict" where
  "set_in response k1 k2 v =
     (case dict_get response k1 of
        Some (PDict inner) \<Rightarrow> dict_set response k1 (PDict (dict_set inner k2 v))
      | _ \<Rightarrow> response)"

definition set_in3 :: "pydict \<Rightarrow> pystr \<Rightarrow> pystr \<Rightarrow> pystr \<Rightarrow> pyval \<Rightarrow> pydict" where
  "set_in3 response k1 k2 k3 v =
     (case dict_get response k1 of
        Some (PDict inner) \<Rightarrow> dict_set response k1 (PDict (set_in inner k2 k3 v))
      | _ \<Rightarrow> response)"

definition with_title :: "lib \<Rightarrow> pystr \<Rightarrow> pydict \<Rightarrow> pydict" where
  "with_title L raw_content response =
     (case re_search L TitleLine raw_content of
        None \<Rightarrow> response
      | Some g \<Rightarrow> dict_set response (ascii ''title'') (PStr (strip g)))"

definition with_summary :: "lib \<Rightarrow> pystr \<Rightarrow> pydict \<Rightarrow> pydict" where
  "with_summary L raw_content response =
     (case re_search L SummarySection raw_content of
        None \<Rightarrow> response
      | Some g \<Rightarrow> dict_set response (ascii ''summary'') (PStr (strip g)))"

definition with_period :: "lib \<Rightarrow> pystr \<Rightarrow> pydict \<Rightarrow> pydict" where
  "with_period L raw_content response =
     (case re_search L PeriodSection raw_content of
        None \<Rightarrow> response
      | Some g \<Rightarrow>
          (let period_text = strip g;
               response =
                 (case re_search L StartDate period_text of
                    None \<Rightarrow> response
                  | Some d \<Rightarrow> set_in response (ascii ''period_data'') (ascii ''start_date'') (PStr d));
               response =
                 (case re_search L EndDate period_text of
                    None \<Rightarrow> response
                  | Some d \<Rightarrow> set_in response (ascii ''period_data'') (ascii ''end_date'') (PStr d))
           in response))"

text \<open>
  The dynamics section converts the matched numbers with \<^verbatim>\<open>float\<close>, which raises
  \<^verbatim>\<open>ValueError\<close> on a text such as \<^verbatim>\<open>1.2.3\<close> or \<^verbatim>\<open>.\<close> that the patterns \<^verbatim>\<open>[\d.]+\<close> and
  \<^verbatim>\<open>[-\d.]+\<close> admit. Nothing in \<^verbatim>\<open>create_fallback_response\<close> catches it.
\<close>

fun store_floats :: "lib \<Rightarrow> pystr \<Rightarrow> (pystr \<times> pystr) list \<Rightarrow> pydict \<Rightarrow> pyerror + pydict" where
  "store_floats L field [] response = Inr response"
| "store_floats L field ((metric, v) # matches) response =
     (case float_of_str L v of
        Inl msg \<Rightarrow> Inl (ValueError msg)
      | Inr f \<Rightarrow>
          store_floats L field matches
            (set_in3 response (ascii ''dynamics'') field (strip metric) (PFloat f)))"

definition with_key_metrics_change :: "lib \<Rightarrow> pystr \<Rightarrow> pydict \<Rightarrow> pyerror + pydict" where
  "with_key_metrics_change L dynamics_text response =
     (case re_search L KeyMetricsChange dynamics_text of
        None \<Rightarrow> Inr response
      | Some g \<Rightarrow>
          (case float_of_str L g of
             Inl msg \<Rightarrow> Inl (ValueError msg)
           | Inr f \<Rightarrow>
               Inr (set_in response (ascii ''dynamics'') (ascii ''key_metrics_change_percent'')
                      (PFloat f))))"

definition with_dynamics :: "lib \<Rightarrow> pystr \<Rightarrow> pydict \<Rightarrow> pyerror + pydict" where
  "with_dynamics L raw_content response =
     (case re_search L DynamicsSection raw_content of
        None \<Rightarrow> Inr response
      | Some g \<Rightarrow>
          (let dynamics_text = strip g
           in case store_floats L (ascii ''mean'') (re_findall2 L MeanLine dynamics_text)
                     response of
                Inl e \<Rightarrow> Inl e
              | Inr response \<Rightarrow>
                  (case store_floats L (ascii ''median'')
                          (re_findall2 L MedianLine dynamics_text) response of
                     Inl e \<Rightarrow> Inl e
                   | Inr response \<Rightarrow>
                       (case store_floats L (ascii ''change_percent'')
                               (re_findall2 L ChangeLine dynamics_text) response of
                          Inl e \<Rightarrow> Inl e
                        | Inr response \<Rightarrow>
                            with_key_metrics_change L dynamics_text response))))"

definition stripped_items :: "pystr list \<Rightarrow> pyval" where
  "stripped_items matches =
     PList (map PStr (filter (\<lambda>s. s \<noteq> []) (map strip matches)))"

definition with_factors :: "lib \<Rightarrow> pystr \<Rightarrow> pydict \<Rightarrow> pydict" where
  "with_factors L raw_content response =
     (case re_search L FactorsSection raw_content of
        None \<Rightarrow> response
      | Some g \<Rightarrow>
          (let factors_text = strip g;
               response =
                 (case re_search L MissingValuesPart factors_text of
                    None \<Rightarrow> response
                  | Some m \<Rightarrow>
                      set_in response (ascii ''factors'') (ascii ''missing_values'')
                        (PStr (strip m)));
               response =
                 (case re_search L CategoricalPart factors_text of
                    None \<Rightarrow> response
                  | Some m \<Rightarrow>
                      set_in response (ascii ''factors'') (ascii ''categorical_data'')
                        (PStr (strip m)));
               key_factors_matches = re_findall L BulletLine factors_text
           in if key_factors_matches \<noteq> []
              then set_in response (ascii ''factors'') (ascii ''key_factors'')
                     (stripped_items key_factors_matches)
              else response))"

definition with_tasks :: "lib \<Rightarrow> regex \<Rightarrow> pystr \<Rightarrow> pystr \<Rightarrow> pydict \<Rightarrow> pydict" where
  "with_tasks L section_pattern key raw_content response =
     (case re_search L section_pattern raw_content of
        None \<Rightarrow> response
      | Some g \<Rightarrow>
          dict_set response key (stripped_items (re_findall L BulletLine (strip g))))"

definition create_fallback_response :: "lib \<Rightarrow> pystr \<Rightarrow> pystr \<Rightarrow> pystr \<Rightarrow> pyerror + pydict" where
  "create_fallback_response L current_date raw_content error_message =
     (let response = base_response current_date raw_content error_message
      in if raw_content = [] then Inr response
         else
           (let response = with_title L raw_content response;
                response = with_summary L raw_content response;
                response = with_period L raw_content response
            in case with_dynamics L raw_content response of
                 Inl e \<Rightarrow> Inl e
               | Inr response \<Rightarrow>
                   (let response = with_factors L raw_content response;
                        response = with_tasks L CompletedSection (ascii ''completed_tasks'')
                                     raw_content response;
                        response = with_tasks L PendingSection (ascii ''pending_tasks'')
                                     raw_content response
                    in Inr response)))"

section \<open>The prompt templates\<close>

text \<open>
  The fixed fragments of the f-strings of \<^verbatim>\<open>analyze_batch\<close>, \<^verbatim>\<open>synthesize_final_analysis\<close>
  and \<^verbatim>\<open>analyze_data\<close>, as code points. They matter through their token counts only. In English:
  \<^item> \<open>prompt_data_intro\<close>: I give you data for analysis from the marketplace
  \<^item> \<open>prompt_summary_intro\<close>: I give you a summary of data for analysis from the marketplace
  \<^item> \<open>prompt_analysis_type\<close>: . Type of analysis:
  \<^item> \<open>prompt_data_block\<close>: Data: (opening of the json block)
  \<^item> \<open>prompt_summary_block\<close>: Summary of the data: (opening of the json block)
  \<^item> \<open>prompt_data_ask\<close>: (closing of the block) Analyse these data and present the results as structured JSON with the fields:
  \<^item> \<open>prompt_summary_ask\<close>: (closing of the block) Analyse this summary and present the results as structured JSON with the fields:
  \<^item> \<open>prompt_result_fields\<close>: the list of the fields title, summary, period_data, dynamics, factors, links, completed_tasks, pending_tasks, and the instruction to answer with JSON only
  \<^item> \<open>synthesis_intro\<close>: I made a preliminary analysis of the data for the marketplace
  \<^item> \<open>synthesis_count\<close>: and obtained the following results over
  \<^item> \<open>synthesis_block\<close>: batches of data: (opening of the json block)
  \<^item> \<open>synthesis_ask\<close>: (closing of the block) Now I need the final analysis that combines all these results into one report. Type of analysis:
  \<^item> \<open>synthesis_result\<close>: The result must be structured JSON with the fields:
  \<^item> \<open>system_trends_task\<close>: You are an experienced analyst of marketplace data. Your task is to analyse trends and the dynamics of indicators ...
  \<^item> \<open>system_competitors_task\<close>: ... Your task is to analyse competitors and their indicators ...
  \<^item> \<open>system_metrics_task\<close>: ... Your task is to analyse metrics and indicators ...
  \<^item> \<open>system_rules\<close>: Your analysis must be structured ...; use only facts of the data; the list of the fields; answer with JSON only
  \<^item> \<open>system_trends_end\<close>: , which holds a report as detailed as a business analyst would write.
  \<^item> \<open>system_end\<close>: .
\<close>

definition prompt_data_intro :: pystr where
  "prompt_data_intro =
    [10, 1071, 32, 1087, 1088, 1077, 1076, 1086, 1089, 1090, 1072, 1074, 1083, 1103, 1102, 32,
     1090, 1077, 1073, 1077, 32, 1076, 1072, 1085, 1085, 1099, 1077, 32, 1076, 1083, 1103,
     32, 1072, 1085, 1072, 1083, 1080, 1079, 1072, 32, 1080, 1079, 32, 1084, 1072, 1088,
     1082, 1077, 1090, 1087, 1083, 1077, 1081, 1089, 1072, 32]"

definition prompt_summary_intro :: pystr where
  "prompt_summary_intro =
    [10, 1071, 32, 1087, 1088, 1077, 1076, 1086, 1089, 1090, 1072, 1074, 1083, 1103, 1102, 32,
     1090, 1077, 1073, 1077, 32, 1089, 1074, 1086, 1076, 1082, 1091, 32, 1076, 1072, 1085,
     1085, 1099, 1093, 32, 1076, 1083, 1103, 32, 1072, 1085, 1072, 1083, 1080, 1079, 1072,
     32, 1080, 1079, 32, 1084, 1072, 1088, 1082, 1077, 1090, 1087, 1083, 1077, 1081, 1089,
     1072, 32]"

definition prompt_analysis_type :: pystr where
  "prompt_analysis_type =
    [46, 10, 1058, 1080, 1087, 32, 1072, 1085, 1072, 1083, 1080, 1079, 1072, 58, 32]"

definition prompt_data_block :: pystr where
  "prompt_data_block =
    [10, 10, 1044, 1072, 1085, 1085, 1099, 1077, 58, 10, 96, 96, 96, 106, 115, 111, 110, 10]"

definition prompt_summary_block :: pystr where
  "prompt_summary_block =
    [10, 10, 1057, 1074, 1086, 1076, 1082, 1072, 32, 1076, 1072, 1085, 1085, 1099, 1093, 58, 10,
     96, 96, 96, 106, 115, 111, 110, 10]"

definition prompt_data_ask :: pystr where
  "prompt_data_ask =
    [10, 96, 96, 96, 10, 10, 1055, 1088, 1086, 1074, 1077, 1076, 1080, 32, 1072, 1085, 1072,
     1083, 1080, 1079, 32, 1101, 1090, 1080, 1093, 32, 1076, 1072, 1085, 1085, 1099, 1093,
     32, 1080, 32, 1087, 1088, 1077, 1076, 1086, 1089, 1090, 1072, 1074, 1100, 32, 1088,
     1077, 1079, 1091, 1083, 1100, 1090, 1072, 1090, 1099, 32, 1074, 32, 1074, 1080, 1076,
     1077, 32, 1089, 1090, 1088, 1091, 1082, 1090, 1091, 1088, 1080, 1088, 1086, 1074, 1072,
     1085, 1085, 1086, 1075, 1086, 32, 74, 83, 79, 78, 32, 1089, 32, 1087, 1086, 1083, 1103,
     1084, 1080, 58]"

definition prompt_summary_ask :: pystr where
  "prompt_summary_ask =
    [10, 96, 96, 96, 10, 10, 1055, 1088, 1086, 1074, 1077, 1076, 1080, 32, 1072, 1085, 1072,
     1083, 1080, 1079, 32, 1101, 1090, 1086, 1081, 32, 1089, 1074, 1086, 1076, 1082, 1080,
     32, 1080, 32, 1087, 1088, 1077, 1076, 1086, 1089, 1090, 1072, 1074, 1100, 32, 1088,
     1077, 1079, 1091, 1083, 1100, 1090, 1072, 1090, 1099, 32, 1074, 32, 1074, 1080, 1076,
     1077, 32, 1089, 1090, 1088, 1091, 1082, 1090, 1091, 1088, 1080, 1088, 1086, 1074, 1072,
     1085, 1085, 1086, 1075, 1086, 32, 74, 83, 79, 78, 32, 1089, 32, 1087, 1086, 1083, 1103,
     1084, 1080, 58]"

definition prompt_result_fields :: pystr where
  "prompt_result_fields =
    [10, 45, 32, 116, 105, 116, 108, 101, 58, 32, 1079, 1072, 1075, 1086, 1083, 1086, 1074, 1086,
     1082, 32, 1072, 1085, 1072, 1083, 1080, 1079, 1072, 10, 45, 32, 115, 117, 109, 109, 97,
     114, 121, 58, 32, 1082, 1088, 1072, 1090, 1082, 1086, 1077, 32, 1088, 1077, 1079, 1102,
     1084, 1077, 32, 1072, 1085, 1072, 1083, 1080, 1079, 1072, 10, 45, 32, 112, 101, 114,
     105, 111, 100, 95, 100, 97, 116, 97, 58, 32, 1086, 1073, 1098, 1077, 1082, 1090, 32,
     1089, 32, 1087, 1086, 1083, 1103, 1084, 1080, 32, 115, 116, 97, 114, 116, 95, 100, 97,
     116, 101, 32, 1080, 32, 101, 110, 100, 95, 100, 97, 116, 101, 44, 32, 1089, 1086, 1076,
     1077, 1088, 1078, 1072, 1097, 1080, 1084, 1080, 32, 1076, 1072, 1090, 1099, 32, 1085,
     1072, 1095, 1072, 1083, 1072, 32, 1080, 32, 1082, 1086, 1085, 1094, 1072, 32, 1087,
     1077, 1088, 1080, 1086, 1076, 1072, 32, 1072, 1085, 1072, 1083, 1080, 1079, 1072, 32,
     1074, 32, 1092, 1086, 1088, 1084, 1072, 1090, 1077, 32, 34, 68, 68, 46, 77, 77, 34, 10,
     45, 32, 100, 121, 110, 97, 109, 105, 99, 115, 58, 32, 1086, 1073, 1098, 1077, 1082,
     1090, 32, 1089, 32, 1080, 1085, 1092, 1086, 1088, 1084, 1072, 1094, 1080, 1077, 1081,
     32, 1086, 32, 1076, 1080, 1085, 1072, 1084, 1080, 1082, 1077, 32, 1087, 1086, 1082,
     1072, 1079, 1072, 1090, 1077, 1083, 1077, 1081, 44, 32, 1074, 1082, 1083, 1102, 1095,
     1072, 1102, 1097, 1080, 1081, 32, 1087, 1086, 1083, 1103, 32, 116, 111, 116, 97, 108,
     95, 114, 111, 119, 115, 44, 32, 116, 111, 116, 97, 108, 95, 99, 111, 108, 117, 109,
     110, 115, 44, 32, 109, 101, 97, 110, 44, 32, 109, 101, 100, 105, 97, 110, 44, 32, 99,
     104, 97, 110, 103, 101, 95, 112, 101, 114, 99, 101, 110, 116, 32, 1080, 32, 107, 101,
     121, 95, 109, 101, 116, 114, 105, 99, 115, 95, 99, 104, 97, 110, 103, 101, 95, 112,
     101, 114, 99, 101, 110, 116, 10, 45, 32, 102, 97, 99, 116, 111, 114, 115, 58, 32, 1086,
     1073, 1098, 1077, 1082, 1090, 32, 1089, 32, 1080, 1085, 1092, 1086, 1088, 1084, 1072,
     1094, 1080, 1077, 1081, 32, 1086, 32, 1092, 1072, 1082, 1090, 1086, 1088, 1072, 1093,
     44, 32, 1074, 1083, 1080, 1103, 1102, 1097, 1080, 1093, 32, 1085, 1072, 32, 1080, 1079,
     1084, 1077, 1085, 1077, 1085, 1080, 1103, 32, 1087, 1086, 1082, 1072, 1079, 1072, 1090,
     1077, 1083, 1077, 1081, 44, 32, 1074, 1082, 1083, 1102, 1095, 1072, 1102, 1097, 1080,
     1081, 32, 1087, 1086, 1083, 1103, 32, 109, 105, 115, 115, 105, 110, 103, 95, 118, 97,
     108, 117, 101, 115, 44, 32, 99, 97, 116, 101, 103, 111, 114, 105, 99, 97, 108, 95, 100,
     97, 116, 97, 32, 1080, 32, 107, 101, 121, 95, 102, 97, 99, 116, 111, 114, 115, 32, 40,
     1084, 1072, 1089, 1089, 1080, 1074, 41, 10, 45, 32, 108, 105, 110, 107, 115, 58, 32,
     1086, 1073, 1098, 1077, 1082, 1090, 32, 1089, 32, 1087, 1086, 1083, 1103, 1084, 1080,
     32, 105, 110, 116, 101, 114, 110, 97, 108, 32, 1080, 32, 101, 120, 116, 101, 114, 110,
     97, 108, 32, 40, 1084, 1072, 1089, 1089, 1080, 1074, 1099, 41, 10, 45, 32, 99, 111,
     109, 112, 108, 101, 116, 101, 100, 95, 116, 97, 115, 107, 115, 58, 32, 1084, 1072,
     1089, 1089, 1080, 1074, 32, 1074, 1099, 1087, 1086, 1083, 1085, 1077, 1085, 1085, 1099,
     1093, 32, 1079, 1072, 1076, 1072, 1095, 10, 45, 32, 112, 101, 110, 100, 105, 110, 103,
     95, 116, 97, 115, 107, 115, 58, 32, 1084, 1072, 1089, 1089, 1080, 1074, 32, 1087, 1088,
     1077, 1076, 1089, 1090, 1086, 1103, 1097, 1080, 1093, 32, 1079, 1072, 1076, 1072, 1095,
     10, 10, 1042, 1040, 1046, 1053, 1054, 58, 32, 1054, 1090, 1074, 1077, 1090, 32, 1076,
     1086, 1083, 1078, 1077, 1085, 32, 1073, 1099, 1090, 1100, 32, 1058, 1054, 1051, 1068,
     1050, 1054, 32, 1074, 32, 1092, 1086, 1088, 1084, 1072, 1090, 1077, 32, 74, 83, 79, 78,
     46, 32, 1053, 1077, 32, 1076, 1086, 1073, 1072, 1074, 1083, 1103, 1081, 32, 1085, 1080,
     1082, 1072, 1082, 1080, 1093, 32, 1087, 1086, 1103, 1089, 1085, 1077, 1085, 1080, 1081,
     44, 32, 1082, 1086, 1084, 1084, 1077, 1085, 1090, 1072, 1088, 1080, 1077, 1074, 32,
     1080, 1083, 1080, 32, 1090, 1077, 1082, 1089, 1090, 1072, 32, 1076, 1086, 32, 1080,
     1083, 1080, 32, 1087, 1086, 1089, 1083, 1077, 32, 74, 83, 79, 78, 46, 32, 1053, 1077,
     32, 1080, 1089, 1087, 1086, 1083, 1100, 1079, 1091, 1081, 32, 1084, 1072, 1088, 1082,
     1076, 1072, 1091, 1085, 45, 1092, 1086, 1088, 1084, 1072, 1090, 1080, 1088, 1086, 1074,
     1072, 1085, 1080, 1077, 32, 1076, 1083, 1103, 32, 74, 83, 79, 78, 46, 32, 1042, 1077,
     1088, 1085, 1080, 32, 1090, 1086, 1083, 1100, 1082, 1086, 32, 1095, 1080, 1089, 1090,
     1099, 1081, 32, 74, 83, 79, 78, 45, 1086, 1073, 1098, 1077, 1082, 1090, 46, 10]"

definition synthesis_intro :: pystr where
  "synthesis_intro =
    [10, 1071, 32, 1087, 1088, 1086, 1074, 1077, 1083, 32, 1087, 1088, 1077, 1076, 1074, 1072,
     1088, 1080, 1090, 1077, 1083, 1100, 1085, 1099, 1081, 32, 1072, 1085, 1072, 1083, 1080,
     1079, 32, 1076, 1072, 1085, 1085, 1099, 1093, 32, 1076, 1083, 1103, 32, 1084, 1072,
     1088, 1082, 1077, 1090, 1087, 1083, 1077, 1081, 1089, 1072, 32]"

definition synthesis_count :: pystr where
  "synthesis_count =
    [32, 1080, 32, 1087, 1086, 1083, 1091, 1095, 1080, 1083, 32, 1089, 1083, 1077, 1076, 1091,
     1102, 1097, 1080, 1077, 32, 1088, 1077, 1079, 1091, 1083, 1100, 1090, 1072, 1090, 1099,
     32, 1087, 1086, 32]"

definition synthesis_block :: pystr where
  "synthesis_block =
    [32, 1073, 1072, 1090, 1095, 1072, 1084, 32, 1076, 1072, 1085, 1085, 1099, 1093, 58, 10, 10,
     96, 96, 96, 106, 115, 111, 110, 10]"

definition synthesis_ask :: pystr where
  "synthesis_ask =
    [10, 96, 96, 96, 10, 10, 1058, 1077, 1087, 1077, 1088, 1100, 32, 1084, 1085, 1077, 32, 1085,
     1091, 1078, 1077, 1085, 32, 1092, 1080, 1085, 1072, 1083, 1100, 1085, 1099, 1081, 32,
     1072, 1085, 1072, 1083, 1080, 1079, 44, 32, 1086, 1073, 1098, 1077, 1076, 1080, 1085,
     1103, 1102, 1097, 1080, 1081, 32, 1074, 1089, 1077, 32, 1101, 1090, 1080, 32, 1088,
     1077, 1079, 1091, 1083, 1100, 1090, 1072, 1090, 1099, 32, 1074, 32, 1077, 1076, 1080,
     1085, 1099, 1081, 32, 1086, 1090, 1095, 1077, 1090, 46, 10, 1058, 1080, 1087, 32, 1072,
     1085, 1072, 1083, 1080, 1079, 1072, 58, 32]"

definition synthesis_result :: pystr where
  "synthesis_result =
    [10, 10, 1056, 1077, 1079, 1091, 1083, 1100, 1090, 1072, 1090, 32, 1076, 1086, 1083, 1078,
     1077, 1085, 32, 1073, 1099, 1090, 1100, 32, 1074, 32, 1074, 1080, 1076, 1077, 32, 1089,
     1090, 1088, 1091, 1082, 1090, 1091, 1088, 1080, 1088, 1086, 1074, 1072, 1085, 1085,
     1086, 1075, 1086, 32, 74, 83, 79, 78, 32, 1089, 32, 1087, 1086, 1083, 1103, 1084, 1080,
     58]"

definition system_trends_task :: pystr where
  "system_trends_task =
    [10, 1058, 1099, 32, 45, 32, 1086, 1087, 1099, 1090, 1085, 1099, 1081, 32, 1072, 1085, 1072,
     1083, 1080, 1090, 1080, 1082, 32, 1076, 1072, 1085, 1085, 1099, 1093, 32, 1084, 1072,
     1088, 1082, 1077, 1090, 1087, 1083, 1077, 1081, 1089, 1086, 1074, 46, 32, 1058, 1074,
     1086, 1103, 32, 1079, 1072, 1076, 1072, 1095, 1072, 32, 45, 32, 1072, 1085, 1072, 1083,
     1080, 1079, 1080, 1088, 1086, 1074, 1072, 1090, 1100, 32, 1090, 1088, 1077, 1085, 1076,
     1099, 32, 1080, 32, 1076, 1080, 1085, 1072, 1084, 1080, 1082, 1091, 32, 1087, 1086,
     1082, 1072, 1079, 1072, 1090, 1077, 1083, 1077, 1081, 46, 10, 1058, 1099, 32, 1076,
     1086, 1083, 1078, 1077, 1085, 32, 1074, 1099, 1103, 1074, 1083, 1103, 1090, 1100, 32,
     1079, 1072, 1082, 1086, 1085, 1086, 1084, 1077, 1088, 1085, 1086, 1089, 1090, 1080, 44,
     32, 1090, 1088, 1077, 1085, 1076, 1099, 32, 1080, 32, 1072, 1085, 1086, 1084, 1072,
     1083, 1080, 1080, 32, 1074, 32, 1076, 1072, 1085, 1085, 1099, 1093, 44, 32, 1072, 32,
     1090, 1072, 1082, 1078, 1077, 32, 1087, 1088, 1077, 1076, 1083, 1072, 1075, 1072, 1090,
     1100, 32, 1088, 1077, 1082, 1086, 1084, 1077, 1085, 1076, 1072, 1094, 1080, 1080, 32,
     1087, 1086, 32, 1091, 1083, 1091, 1095, 1096, 1077, 1085, 1080, 1102, 32, 1087, 1086,
     1082, 1072, 1079, 1072, 1090, 1077, 1083, 1077, 1081, 46]"

definition system_competitors_task :: pystr where
  "system_competitors_task =
    [10, 1058, 1099, 32, 45, 32, 1086, 1087, 1099, 1090, 1085, 1099, 1081, 32, 1072, 1085, 1072,
     1083, 1080, 1090, 1080, 1082, 32, 1076, 1072, 1085, 1085, 1099, 1093, 32, 1084, 1072,
     1088, 1082, 1077, 1090, 1087, 1083, 1077, 1081, 1089, 1086, 1074, 46, 32, 1058, 1074,
     1086, 1103, 32, 1079, 1072, 1076, 1072, 1095, 1072, 32, 45, 32, 1072, 1085, 1072, 1083,
     1080, 1079, 1080, 1088, 1086, 1074, 1072, 1090, 1100, 32, 1082, 1086, 1085, 1082, 1091,
     1088, 1077, 1085, 1090, 1086, 1074, 32, 1080, 32, 1080, 1093, 32, 1087, 1086, 1082,
     1072, 1079, 1072, 1090, 1077, 1083, 1080, 46, 10, 1058, 1099, 32, 1076, 1086, 1083,
     1078, 1077, 1085, 32, 1074, 1099, 1103, 1074, 1083, 1103, 1090, 1100, 32, 1089, 1080,
     1083, 1100, 1085, 1099, 1077, 32, 1080, 32, 1089, 1083, 1072, 1073, 1099, 1077, 32,
     1089, 1090, 1086, 1088, 1086, 1085, 1099, 32, 1082, 1086, 1085, 1082, 1091, 1088, 1077,
     1085, 1090, 1086, 1074, 44, 32, 1072, 32, 1090, 1072, 1082, 1078, 1077, 32, 1087, 1088,
     1077, 1076, 1083, 1072, 1075, 1072, 1090, 1100, 32, 1088, 1077, 1082, 1086, 1084, 1077,
     1085, 1076, 1072, 1094, 1080, 1080, 32, 1087, 1086, 32, 1091, 1083, 1091, 1095, 1096,
     1077, 1085, 1080, 1102, 32, 1082, 1086, 1085, 1082, 1091, 1088, 1077, 1085, 1090, 1086,
     1089, 1087, 1086, 1089, 1086, 1073, 1085, 1086, 1089, 1090, 1080, 46]"

definition system_metrics_task :: pystr where
  "system_metrics_task =
    [10, 1058, 1099, 32, 45, 32, 1086, 1087, 1099, 1090, 1085, 1099, 1081, 32, 1072, 1085, 1072,
     1083, 1080, 1090, 1080, 1082, 32, 1076, 1072, 1085, 1085, 1099, 1093, 32, 1084, 1072,
     1088, 1082, 1077, 1090, 1087, 1083, 1077, 1081, 1089, 1086, 1074, 46, 32, 1058, 1074,
     1086, 1103, 32, 1079, 1072, 1076, 1072, 1095, 1072, 32, 45, 32, 1072, 1085, 1072, 1083,
     1080, 1079, 1080, 1088, 1086, 1074, 1072, 1090, 1100, 32, 1084, 1077, 1090, 1088, 1080,
     1082, 1080, 32, 1080, 32, 1087, 1086, 1082, 1072, 1079, 1072, 1090, 1077, 1083, 1080,
     46, 10, 1058, 1099, 32, 1076, 1086, 1083, 1078, 1077, 1085, 32, 1074, 1099, 1103, 1074,
     1083, 1103, 1090, 1100, 32, 1079, 1072, 1082, 1086, 1085, 1086, 1084, 1077, 1088, 1085,
     1086, 1089, 1090, 1080, 44, 32, 1090, 1088, 1077, 1085, 1076, 1099, 32, 1080, 32, 1072,
     1085, 1086, 1084, 1072, 1083, 1080, 1080, 32, 1074, 32, 1076, 1072, 1085, 1085, 1099,
     1093, 44, 32, 1072, 32, 1090, 1072, 1082, 1078, 1077, 32, 1087, 1088, 1077, 1076, 1083,
     1072, 1075, 1072, 1090, 1100, 32, 1088, 1077, 1082, 1086, 1084, 1077, 1085, 1076, 1072,
     1094, 1080, 1080, 32, 1087, 1086, 32, 1091, 1083, 1091, 1095, 1096, 1077, 1085, 1080,
     1102, 32, 1087, 1086, 1082, 1072, 1079, 1072, 1090, 1077, 1083, 1077, 1081, 46]"

definition system_rules :: pystr where
  "system_rules =
    [10, 10, 1058, 1074, 1086, 1081, 32, 1072, 1085, 1072, 1083, 1080, 1079, 32, 1076, 1086,
     1083, 1078, 1077, 1085, 32, 1073, 1099, 1090, 1100, 32, 1089, 1090, 1088, 1091, 1082,
     1090, 1091, 1088, 1080, 1088, 1086, 1074, 1072, 1085, 1085, 1099, 1084, 44, 32, 1080,
     1085, 1092, 1086, 1088, 1084, 1072, 1090, 1080, 1074, 1085, 1099, 1084, 32, 1080, 32,
     1087, 1086, 1083, 1077, 1079, 1085, 1099, 1084, 32, 1076, 1083, 1103, 32, 1087, 1088,
     1080, 1085, 1103, 1090, 1080, 1103, 32, 1088, 1077, 1096, 1077, 1085, 1080, 1081, 46,
     10, 1048, 1089, 1087, 1086, 1083, 1100, 1079, 1091, 1081, 32, 1090, 1086, 1083, 1100,
     1082, 1086, 32, 1092, 1072, 1082, 1090, 1099, 32, 1080, 1079, 32, 1087, 1088, 1077,
     1076, 1086, 1089, 1090, 1072, 1074, 1083, 1077, 1085, 1085, 1099, 1093, 32, 1076, 1072,
     1085, 1085, 1099, 1093, 44, 32, 1085, 1077, 32, 1076, 1086, 1073, 1072, 1074, 1083,
     1103, 1081, 32, 1080, 1085, 1092, 1086, 1088, 1084, 1072, 1094, 1080, 1102, 44, 32,
     1082, 1086, 1090, 1086, 1088, 1086, 1081, 32, 1085, 1077, 1090, 32, 1074, 32, 1076,
     1072, 1085, 1085, 1099, 1093, 46, 10, 10, 1056, 1077, 1079, 1091, 1083, 1100, 1090,
     1072, 1090, 32, 1076, 1086, 1083, 1078, 1077, 1085, 32, 1073, 1099, 1090, 1100, 32,
     1074, 32, 1074, 1080, 1076, 1077, 32, 1089, 1090, 1088, 1091, 1082, 1090, 1091, 1088,
     1080, 1088, 1086, 1074, 1072, 1085, 1085, 1086, 1075, 1086, 32, 74, 83, 79, 78, 32,
     1089, 32, 1087, 1086, 1083, 1103, 1084, 1080, 58, 10, 45, 32, 116, 105, 116, 108, 101,
     58, 32, 1079, 1072, 1075, 1086, 1083, 1086, 1074, 1086, 1082, 32, 1072, 1085, 1072,
     1083, 1080, 1079, 1072, 10, 45, 32, 115, 117, 109, 109, 97, 114, 121, 58, 32, 1084,
     1072, 1082, 1089, 1080, 1084, 1072, 1083, 1100, 1085, 1086, 1077, 32, 1087, 1086, 1076,
     1088, 1086, 1073, 1085, 1086, 32, 1089, 1086, 32, 1074, 1089, 1077, 1081, 32, 1094,
     1077, 1087, 1086, 1095, 1082, 1086, 1081, 32, 1080, 32, 1088, 1072, 1079, 1084, 1099,
     1096, 1083, 1077, 1085, 1080, 1103, 1084, 1080, 32, 1088, 1077, 1079, 1102, 1084, 1077,
     32, 1072, 1085, 1072, 1083, 1080, 1079, 1072, 10, 45, 32, 112, 101, 114, 105, 111, 100,
     95, 100, 97, 116, 97, 58, 32, 1086, 1073, 1098, 1077, 1082, 1090, 32, 1089, 32, 1087,
     1086, 1083, 1103, 1084, 1080, 32, 115, 116, 97, 114, 116, 95, 100, 97, 116, 101, 32,
     1080, 32, 101, 110, 100, 95, 100, 97, 116, 101, 44, 32, 1089, 1086, 1076, 1077, 1088,
     1078, 1072, 1097, 1080, 1084, 1080, 32, 1076, 1072, 1090, 1099, 32, 1085, 1072, 1095,
     1072, 1083, 1072, 32, 1080, 32, 1082, 1086, 1085, 1094, 1072, 32, 1087, 1077, 1088,
     1080, 1086, 1076, 1072, 32, 1072, 1085, 1072, 1083, 1080, 1079, 1072, 32, 1074, 32,
     1092, 1086, 1088, 1084, 1072, 1090, 1077, 32, 34, 68, 68, 46, 77, 77, 34, 10, 45, 32,
     100, 121, 110, 97, 109, 105, 99, 115, 58, 32, 1086, 1073, 1098, 1077, 1082, 1090, 32,
     1089, 32, 1080, 1085, 1092, 1086, 1088, 1084, 1072, 1094, 1080, 1077, 1081, 32, 1086,
     32, 1076, 1080, 1085, 1072, 1084, 1080, 1082, 1077, 32, 1087, 1086, 1082, 1072, 1079,
     1072, 1090, 1077, 1083, 1077, 1081, 44, 32, 1074, 1082, 1083, 1102, 1095, 1072, 1102,
     1097, 1080, 1081, 32, 1087, 1086, 1083, 1103, 32, 116, 111, 116, 97, 108, 95, 114, 111,
     119, 115, 44, 32, 116, 111, 116, 97, 108, 95, 99, 111, 108, 117, 109, 110, 115, 44, 32,
     109, 101, 97, 110, 44, 32, 109, 101, 100, 105, 97, 110, 44, 32, 99, 104, 97, 110, 103,
     101, 95, 112, 101, 114, 99, 101, 110, 116, 32, 1080, 32, 107, 101, 121, 95, 109, 101,
     116, 114, 105, 99, 115, 95, 99, 104, 97, 110, 103, 101, 95, 112, 101, 114, 99, 101,
     110, 116, 10, 45, 32, 102, 97, 99, 116, 111, 114, 115, 58, 32, 1086, 1073, 1098, 1077,
     1082, 1090, 32, 1089, 32, 1080, 1085, 1092, 1086, 1088, 1084, 1072, 1094, 1080, 1077,
     1081, 32, 1086, 32, 1092, 1072, 1082, 1090, 1086, 1088, 1072, 1093, 44, 32, 1074, 1083,
     1080, 1103, 1102, 1097, 1080, 1093, 32, 1085, 1072, 32, 1080, 1079, 1084, 1077, 1085,
     1077, 1085, 1080, 1103, 32, 1087, 1086, 1082, 1072, 1079, 1072, 1090, 1077, 1083, 1077,
     1081, 44, 32, 1074, 1082, 1083, 1102, 1095, 1072, 1102, 1097, 1080, 1081, 32, 1087,
     1086, 1083, 1103, 32, 109, 105, 115, 115, 105, 110, 103, 95, 118, 97, 108, 117, 101,
     115, 44, 32, 99, 97, 116, 101, 103, 111, 114, 105, 99, 97, 108, 95, 100, 97, 116, 97,
     32, 1080, 32, 107, 101, 121, 95, 102, 97, 99, 116, 111, 114, 115, 32, 40, 1084, 1072,
     1089, 1089, 1080, 1074, 41, 10, 45, 32, 108, 105, 110, 107, 115, 58, 32, 1086, 1073,
     1098, 1077, 1082, 1090, 32, 1089, 32, 1087, 1086, 1083, 1103, 1084, 1080, 32, 105, 110,
     116, 101, 114, 110, 97, 108, 32, 1080, 32, 101, 120, 116, 101, 114, 110, 97, 108, 32,
     40, 1084, 1072, 1089, 1089, 1080, 1074, 1099, 41, 10, 45, 32, 99, 111, 109, 112, 108,
     101, 116, 101, 100, 95, 116, 97, 115, 107, 115, 58, 32, 1084, 1072, 1089, 1089, 1080,
     1074, 32, 1074, 1099, 1087, 1086, 1083, 1085, 1077, 1085, 1085, 1099, 1093, 32, 1079,
     1072, 1076, 1072, 1095, 10, 45, 32, 112, 101, 110, 100, 105, 110, 103, 95, 116, 97,
     115, 107, 115, 58, 32, 1084, 1072, 1089, 1089, 1080, 1074, 32, 1087, 1088, 1077, 1076,
     1089, 1090, 1086, 1103, 1097, 1080, 1093, 32, 1079, 1072, 1076, 1072, 1095, 10, 10,
     1042, 1040, 1046, 1053, 1054, 58, 32, 1054, 1090, 1074, 1077, 1090, 32, 1076, 1086,
     1083, 1078, 1077, 1085, 32, 1073, 1099, 1090, 1100, 32, 1058, 1054, 1051, 1068, 1050,
     1054, 32, 1074, 32, 1092, 1086, 1088, 1084, 1072, 1090, 1077, 32, 74, 83, 79, 78, 46,
     32, 1053, 1077, 32, 1076, 1086, 1073, 1072, 1074, 1083, 1103, 1081, 32, 1085, 1080,
     1082, 1072, 1082, 1080, 1093, 32, 1087, 1086, 1103, 1089, 1085, 1077, 1085, 1080, 1081,
     44, 32, 1082, 1086, 1084, 1084, 1077, 1085, 1090, 1072, 1088, 1080, 1077, 1074, 32,
     1080, 1083, 1080, 32, 1090, 1077, 1082, 1089, 1090, 1072, 32, 1076, 1086, 32, 1080,
     1083, 1080, 32, 1087, 1086, 1089, 1083, 1077, 32, 74, 83, 79, 78, 46, 32, 1053, 1077,
     32, 1080, 1089, 1087, 1086, 1083, 1100, 1079, 1091, 1081, 32, 1084, 1072, 1088, 1082,
     1076, 1072, 1091, 1085, 45, 1092, 1086, 1088, 1084, 1072, 1090, 1080, 1088, 1086, 1074,
     1072, 1085, 1080, 1077, 32, 1076, 1083, 1103, 32, 74, 83, 79, 78, 46, 32, 1042, 1077,
     1088, 1085, 1080, 32, 1090, 1086, 1083, 1100, 1082, 1086, 32, 1095, 1080, 1089, 1090,
     1099, 1081, 32, 74, 83, 79, 78, 45, 1086, 1073, 1098, 1077, 1082, 1090]"

definition system_trends_end :: pystr where
  "system_trends_end =
    [44, 32, 1082, 1086, 1090, 1086, 1088, 1099, 1081, 32, 1089, 1086, 1076, 1077, 1088, 1078,
     1080, 1090, 32, 1074, 32, 1089, 1077, 1073, 1077, 32, 1086, 1090, 1095, 1077, 1090, 32,
     1084, 1072, 1082, 1089, 1080, 1084, 1072, 1083, 1100, 1085, 1086, 32, 1087, 1086, 1076,
     1088, 1086, 1073, 1085, 1099, 1081, 32, 1073, 1080, 1079, 1085, 1077, 1089, 45, 1072,
     1085, 1072, 1083, 1080, 1090, 1080, 1082, 1072, 46, 10]"

definition system_end :: pystr where
  "system_end =
    [46, 10]"

text \<open>The default of \<^verbatim>\<open>marketplace or ...\<close>: "unknown marketplace".\<close>

definition unknown_marketplace :: pystr where
  "unknown_marketplace =
    [1085, 1077, 1080, 1079, 1074, 1077, 1089, 1090, 1085, 1099, 1081, 32, 1084, 1072, 1088,
     1082, 1077, 1090, 1087, 1083, 1077, 1081, 1089]"

section \<open>ModelCompatibilityChecker and the provider call\<close>

fun contains :: "pystr \<Rightarrow> pystr \<Rightarrow> bool" where
  "contains sub [] = (sub = [])"
| "contains sub (x # xs) = (take (length sub) (x # xs) = sub \<or> contains sub xs)"

definition JSON_FORMAT_SUPPORTED_MODELS :: "pystr list" where
  "JSON_FORMAT_SUPPORTED_MODELS =
     [ascii ''gpt-4-turbo'',
      ascii ''gpt-4-0125-preview'',
      ascii ''ft:gpt-4.1-2025-04-14:expovision:expovision:BQ4JVN7C'',
      ascii ''gpt-4-1106-preview'',
      ascii ''gpt-4-vision-preview'',
      ascii ''gpt-3.5-turbo-0125'',
      ascii ''gpt-3.5-turbo-1106'']"

definition supports_json_response_format :: "pystr \<Rightarrow> bool" where
  "supports_json_response_format model =
     list_ex (\<lambda>supported_model. contains supported_model model) JSON_FORMAT_SUPPORTED_MODELS"

text \<open>
  The request of \<^verbatim>\<open>chat.completions.create\<close>, and the provider: \<open>api n request\<close> is what the
  \<open>n\<close>-th call of the run does with the request.
\<close>

record request =
  req_model :: pystr
  req_messages :: "message list"
  req_temperature :: real
  req_max_tokens :: nat
  req_json_object :: bool

type_synonym provider = "nat \<Rightarrow> request \<Rightarrow> pyexc + response"

definition make_request :: "pystr \<Rightarrow> message list \<Rightarrow> nat \<Rightarrow> request" where
  "make_request model messages max_tokens =
     \<lparr>req_model = model, req_messages = messages, req_temperature = 7 / 10,
      req_max_tokens = max_tokens, req_json_object = supports_json_response_format model\<rparr>"

definition make_messages :: "pystr \<Rightarrow> pystr \<Rightarrow> message list" where
  "make_messages system_prompt user_prompt =
     [[(ascii ''role'', Some (ascii ''system'')), (ascii ''content'', Some system_prompt)],
      [(ascii ''role'', Some (ascii ''user'')), (ascii ''content'', Some user_prompt)]]"

text \<open>
  \<^verbatim>\<open>handle_empty_response(execute_with_retry, call_api)\<close> with the default strategies: each
  attempt of the guard runs \<^verbatim>\<open>execute_with_retry\<close> afresh.
\<close>

definition guarded_call ::
  "provider \<Rightarrow> request \<Rightarrow> nat \<Rightarrow> real list \<Rightarrow> (bool \<times> response option) attempt_result" where
  "guarded_call api req calls slept =
     default_guard (\<lambda>c s. default_retry (\<lambda>n. api n req) c s) calls slept"

section \<open>The repair cascade of the analyzers\<close>

text \<open>
  The same block ends \<^verbatim>\<open>analyze_batch\<close> and \<^verbatim>\<open>synthesize_final_analysis\<close>: parse the
  content; else parse what \<^verbatim>\<open>extract_json_from_text\<close> finds; else repair the span from the
  first \<^verbatim>\<open>{\<close> to the last \<^verbatim>\<open>}\<close> and parse that; else the fallback response. The first
  two clauses are \<^verbatim>\<open>except json.JSONDecodeError\<close> and let every other exception of
  \<^verbatim>\<open>json.loads\<close> through; the third is \<^verbatim>\<open>except Exception as e2\<close>, and its fallback
  carries \<^verbatim>\<open>str(e2)\<close>. \<open>Inl\<close> is an exception that leaves the block (it reaches the outer
  \<^verbatim>\<open>except Exception\<close> of the analyzer). \<open>exc_message\<close> is \<^verbatim>\<open>str(e)\<close>; the errors of
  \<^verbatim>\<open>json.loads\<close> and of \<^verbatim>\<open>float\<close> carry their message.
\<close>

definition failed_to_fix :: "pystr \<Rightarrow> pystr" where
  "failed_to_fix msg = ascii ''Failed to fix JSON: '' @ msg"

fun exc_message :: "pyerror \<Rightarrow> pystr" where
  "exc_message (JSONDecodeError msg) = msg"
| "exc_message (ValueError msg) = msg"
| "exc_message (RecursionError msg) = msg"
| "exc_message _ = []"

definition parse_extracted :: "lib \<Rightarrow> pystr \<Rightarrow> pyerror + pyval option" where
  "parse_extracted L raw_content =
     (case extract_json_from_text L raw_content of
        None \<Rightarrow> Inr None
      | Some json_str \<Rightarrow>
          if json_str \<noteq> [] then
            (case loads L json_str of
               Inr result \<Rightarrow> Inr (Some result)
             | Inl e2 \<Rightarrow> if is_JSONDecodeError e2 then Inr None else Inl e2)
          else Inr None)"

definition repair_span :: "lib \<Rightarrow> pystr \<Rightarrow> pystr \<Rightarrow> pyerror + pyval" where
  "repair_span L current_date raw_content =
     (case (find_char lbrace raw_content, rfind_char rbrace raw_content) of
        (Some start_idx, Some end_idx) \<Rightarrow>
          loads L (fix_json_string L (slice start_idx (end_idx + 1) raw_content))
      | _ \<Rightarrow>
          (case create_fallback_response L current_date raw_content
                  (ascii ''Could not find JSON in response'') of
             Inr response \<Rightarrow> Inr (PDict response)
           | Inl e \<Rightarrow> Inl e))"

definition parse_response :: "lib \<Rightarrow> pystr \<Rightarrow> pystr \<Rightarrow> pyerror + pyval" where
  "parse_response L current_date raw_content =
     (case loads L raw_content of
        Inr result \<Rightarrow> Inr result
      | Inl e \<Rightarrow>
          if \<not> is_JSONDecodeError e then Inl e
          else
            (case parse_extracted L raw_content of
               Inl e2 \<Rightarrow> Inl e2
             | Inr (Some result) \<Rightarrow> Inr result
             | Inr None \<Rightarrow>
                 (case repair_span L current_date raw_content of
                    Inr result \<Rightarrow> Inr result
                  | Inl e2 \<Rightarrow>
                      (case create_fallback_response L current_date raw_content
                              (failed_to_fix (exc_message e2)) of
                         Inr response \<Rightarrow> Inr (PDict response)
                       | Inl e3 \<Rightarrow> Inl e3))))"

text \<open>
  From the guarded call to the result, inside the \<^verbatim>\<open>try\<close> of the analyzer: every
  \<^verbatim>\<open>Exception\<close> ends in the default response; only an exception that
  \<^verbatim>\<open>except Exception\<close> does not catch leaves it. \<^verbatim>\<open>response.choices[0]\<close> raises
  \<^verbatim>\<open>IndexError\<close> on no choices, and \<^verbatim>\<open>raw_content[:100]\<close> raises \<^verbatim>\<open>TypeError\<close> on \<^verbatim>\<open>None\<close>.
\<close>

definition call_and_parse ::
  "lib \<Rightarrow> provider \<Rightarrow> pystr \<Rightarrow> request \<Rightarrow> pystr \<Rightarrow> nat \<Rightarrow> real list \<Rightarrow> pyval attempt_result"
  where
  "call_and_parse L api current_date req analysis_type calls slept =
     (case guarded_call api req calls slept of
        (Inl e, calls', slept') \<Rightarrow>
          if is_Exception e
          then (Inr (PDict (generate_default_response current_date analysis_type)), calls', slept')
          else (Inl e, calls', slept')
      | (Inr (success, response), calls', slept') \<Rightarrow>
          (let default_response = PDict (generate_default_response current_date analysis_type)
           in if \<not> success then (Inr default_response, calls', slept')
              else
                (case response of
                   None \<Rightarrow> (Inr default_response, calls', slept')
                 | Some [] \<Rightarrow> (Inr default_response, calls', slept')
                 | Some (None # _) \<Rightarrow> (Inr default_response, calls', slept')
                 | Some (Some raw_content # _) \<Rightarrow>
                     if raw_content = [] \<or> isspace raw_content
                     then (Inr default_response, calls', slept')
                     else
                       (case parse_response L current_date raw_content of
                          Inr result \<Rightarrow> (Inr result, calls', slept')
                        | Inl e \<Rightarrow> (Inr default_response, calls', slept')))))"

section \<open>TwoStageAnalyzer.analyze_batch\<close>

definition marketplace_name :: "pystr option \<Rightarrow> pystr" where
  "marketplace_name marketplace =
     (case marketplace of
        None \<Rightarrow> unknown_marketplace
      | Some m \<Rightarrow> if m = [] then unknown_marketplace else m)"

definition batch_prompt ::
  "lib \<Rightarrow> bool \<Rightarrow> pystr option \<Rightarrow> pystr \<Rightarrow> pydict \<Rightarrow> pyerror + pystr" where
  "batch_prompt L summary_variant marketplace analysis_type batch =
     (case dumps L False (Some 2) (PDict batch) of
        Inl e \<Rightarrow> Inl e
      | Inr batch_json \<Rightarrow>
          Inr ((if summary_variant then prompt_summary_intro else prompt_data_intro)
               @ marketplace_name marketplace @ prompt_analysis_type @ analysis_type
               @ (if summary_variant then prompt_summary_block else prompt_data_block)
               @ batch_json
               @ (if summary_variant then prompt_summary_ask else prompt_data_ask)
               @ prompt_result_fields))"

text \<open>
  The shrinking branch mutates the batch in place. \<open>py_len\<close> is \<^verbatim>\<open>len\<close>, \<open>None\<close> where it
  raises \<^verbatim>\<open>TypeError\<close>. Sorting the metrics raises when \<^verbatim>\<open>key_metrics\<close> is not a dict
  (\<^verbatim>\<open>AttributeError\<close>) or a metric has no usable \<^verbatim>\<open>change_percent\<close> (the model writes
  \<^verbatim>\<open>AttributeError\<close> for both). The result is the exception, if any, and the batch as the
  statements executed so far have left it.
\<close>

fun py_len :: "pyval \<Rightarrow> nat option" where
  "py_len (PStr s) = Some (length s)"
| "py_len (PList xs) = Some (length xs)"
| "py_len (PDict d) = Some (length d)"
| "py_len _ = None"

definition shrink_batch :: "lib \<Rightarrow> pydict \<Rightarrow> pyerror option \<times> pydict" where
  "shrink_batch L batch =
     (let batch = (if has_key batch (ascii ''data'') then dict_del batch (ascii ''data'')
                   else batch);
          batch = foldl (\<lambda>b field. if has_key b field then dict_del b field else b) batch
                    [ascii ''time_series'', ascii ''categorical_data'']
      in case dict_get batch (ascii ''key_metrics'') of
           None \<Rightarrow> (None, batch)
         | Some key_metrics \<Rightarrow>
             (case py_len key_metrics of
                None \<Rightarrow> (Some TypeError, batch)
              | Some n \<Rightarrow>
                  if n > 3 then
                    (case key_metrics of
                       PDict items \<Rightarrow>
                         (case sorted_by_abs_change L items of
                            None \<Rightarrow> (Some AttributeError, batch)
                          | Some sorted_metrics \<Rightarrow>
                              (None, dict_set batch (ascii ''key_metrics'')
                                       (PDict (take 3 sorted_metrics))))
                     | _ \<Rightarrow> (Some AttributeError, batch))
                  else (None, batch)))"

text \<open>
  The statements of \<open>analyze_batch\<close> before its \<^verbatim>\<open>try\<close>: the prompt, its token count and,
  over 3500 tokens, the shrinking of the batch and the second prompt with its token
  count. An exception of the serialiser, of the tokenizer or of the shrinking is not
  caught and leaves \<open>analyze_batch\<close>. The result is the messages to send, or that exception,
  and the batch object as these statements leave it.
\<close>

definition counted_messages ::
  "lib \<Rightarrow> bool \<Rightarrow> pystr \<Rightarrow> pystr option \<Rightarrow> pystr \<Rightarrow> pydict
    \<Rightarrow> pyerror + message list \<times> nat" where
  "counted_messages L summary_variant system_prompt marketplace analysis_type batch =
     (case batch_prompt L summary_variant marketplace analysis_type batch of
        Inl e \<Rightarrow> Inl e
      | Inr user_prompt \<Rightarrow>
          (case count_messages_tokens L (make_messages system_prompt user_prompt) of
             Inl e \<Rightarrow> Inl e
           | Inr tokens \<Rightarrow> Inr (make_messages system_prompt user_prompt, tokens)))"

definition prepare_batch ::
  "lib \<Rightarrow> pydict \<Rightarrow> pystr \<Rightarrow> pystr option \<Rightarrow> pystr \<Rightarrow> (pyerror + message list) \<times> pydict"
  where
  "prepare_batch L batch system_prompt marketplace analysis_type =
     (case counted_messages L False system_prompt marketplace analysis_type batch of
        Inl e \<Rightarrow> (Inl e, batch)
      | Inr (messages, tokens) \<Rightarrow>
          if tokens > 3500 then
            (case shrink_batch L batch of
               (Some e, batch') \<Rightarrow> (Inl e, batch')
             | (None, batch') \<Rightarrow>
                 (case counted_messages L True system_prompt marketplace analysis_type
                         batch' of
                    Inl e \<Rightarrow> (Inl e, batch')
                  | Inr (messages', tokens') \<Rightarrow> (Inr messages', batch')))
          else (Inr messages, batch))"

text \<open>
  The result of \<open>analyze_batch\<close>: what it returns or raises, the batch object as it leaves it,
  and the provider calls and delays so far.
\<close>

type_synonym analysis = "(pyexc + pyval) \<times> pydict \<times> nat \<times> real list"

definition gpt35 :: pystr where
  "gpt35 = ascii ''gpt-3.5-turbo''"

definition analyze_batch ::
  "lib \<Rightarrow> provider \<Rightarrow> pystr \<Rightarrow> pydict \<Rightarrow> pystr \<Rightarrow> pystr option \<Rightarrow> pystr \<Rightarrow> nat \<Rightarrow> real list
    \<Rightarrow> analysis" where
  "analyze_batch L api current_date batch system_prompt marketplace analysis_type calls slept =
     (case prepare_batch L batch system_prompt marketplace analysis_type of
        (Inl e, batch') \<Rightarrow> (Inl (Error e), batch', calls, slept)
      | (Inr messages, batch') \<Rightarrow>
          (case call_and_parse L api current_date (make_request gpt35 messages 2000)
                  analysis_type calls slept of
             (result, calls', slept') \<Rightarrow> (result, batch', calls', slept')))"

section \<open>TwoStageAnalyzer.synthesize_final_analysis\<close>

text \<open>\<^verbatim>\<open>str(n)\<close> of a natural number, in decimal.\<close>

fun decimal :: "nat \<Rightarrow> pystr" where
  "decimal n = (if n < 10 then [48 + n] else decimal (n div 10) @ [48 + n mod 10])"

declare decimal.simps [simp del]

text \<open>
  The default title of a batch result, "Results of the analysis of batch " followed by the
  number of the batch.
\<close>

definition batch_title_prefix :: pystr where
  "batch_title_prefix =
    [1056, 1077, 1079, 1091, 1083, 1100, 1090, 1072, 1090, 1099, 32, 1072, 1085, 1072, 1083,
     1080, 1079, 1072, 32, 1073, 1072, 1090, 1095, 1072, 32]"

text \<open>
  One round of the first loop. A falsy result is skipped (\<open>Inr None\<close>); \<^verbatim>\<open>result.get\<close>
  raises \<^verbatim>\<open>AttributeError\<close> when the result is not a dict (the model may answer with any
  JSON value). The loop stands before the \<^verbatim>\<open>try\<close>, so the exception leaves the method.
\<close>

definition copy_if_present :: "pydict \<Rightarrow> pystr \<Rightarrow> pydict \<Rightarrow> pydict" where
  "copy_if_present result key normalized_result =
     (case dict_get result key of
        None \<Rightarrow> normalized_result
      | Some v \<Rightarrow> if truthy v then dict_set normalized_result key v else normalized_result)"

definition normalize_result :: "nat \<Rightarrow> pyval \<Rightarrow> pyerror + pydict option" where
  "normalize_result i result =
     (if \<not> truthy result then Inr None
      else
        (case result of
           PDict r \<Rightarrow>
             Inr (Some
               (foldl (\<lambda>normalized_result key. copy_if_present r key normalized_result)
                  [(ascii ''batch_index'', PInt (int i)),
                   (ascii ''title'',
                      get_default r (ascii ''title'') (PStr (batch_title_prefix @ decimal (i + 1)))),
                   (ascii ''summary'', get_default r (ascii ''summary'') (PStr []))]
                  [ascii ''period_data'', ascii ''dynamics'', ascii ''factors'',
                   ascii ''completed_tasks'', ascii ''pending_tasks'']))
         | _ \<Rightarrow> Inl AttributeError))"

fun normalize_results :: "nat \<Rightarrow> pyval list \<Rightarrow> pydict list \<Rightarrow> pyerror + pydict list" where
  "normalize_results i [] normalized_results = Inr normalized_results"
| "normalize_results i (result # batch_results) normalized_results =
     (case normalize_result i result of
        Inl e \<Rightarrow> Inl e
      | Inr None \<Rightarrow> normalize_results (i + 1) batch_results normalized_results
      | Inr (Some normalized_result) \<Rightarrow>
          normalize_results (i + 1) batch_results (normalized_results @ [normalized_result]))"

text \<open>
  The truncation when the prompt exceeds 3000 tokens. \<^verbatim>\<open>len(result["summary"])\<close> raises
  \<^verbatim>\<open>TypeError\<close> on a value without length, and \<^verbatim>\<open>result["summary"][:200] + "..."\<close> raises
  it on a value that is not a string.
\<close>

definition shorten_summary :: "pydict \<Rightarrow> pyerror + pydict" where
  "shorten_summary result =
     (case dict_get result (ascii ''summary'') of
        None \<Rightarrow> Inr result
      | Some v \<Rightarrow>
          (case py_len v of
             None \<Rightarrow> Inl TypeError
           | Some n \<Rightarrow>
               if n > 200 then
                 (case v of
                    PStr s \<Rightarrow> Inr (dict_set result (ascii ''summary'')
                                     (PStr (take 200 s @ ascii ''...'')))
                  | _ \<Rightarrow> Inl TypeError)
               else Inr result))"

definition collapse_field :: "lib \<Rightarrow> pystr \<Rightarrow> pyval \<Rightarrow> pydict \<Rightarrow> pyerror + pydict" where
  "collapse_field L key placeholder result =
     (case dict_get result key of
        None \<Rightarrow> Inr result
      | Some v \<Rightarrow>
          (case dumps L True None v of
             Inl e \<Rightarrow> Inl e
           | Inr text \<Rightarrow>
               Inr (if length text > 100 then dict_set result key placeholder else result)))"

definition truncate_result :: "lib \<Rightarrow> pydict \<Rightarrow> pyerror + pydict" where
  "truncate_result L result =
     (case shorten_summary result of
        Inl e \<Rightarrow> Inl e
      | Inr result \<Rightarrow>
          (case collapse_field L (ascii ''period_data'')
                  (PDict [(ascii ''start_date'', PStr (ascii ''01.01'')),
                          (ascii ''end_date'', PStr (ascii ''31.12''))])
                  result of
             Inl e \<Rightarrow> Inl e
           | Inr result \<Rightarrow>
               (case collapse_field L (ascii ''dynamics'') default_dynamics result of
                  Inl e \<Rightarrow> Inl e
                | Inr result \<Rightarrow>
                    collapse_field L (ascii ''factors'')
                      (PDict [(ascii ''missing_values'', PStr []),
                              (ascii ''categorical_data'', PStr []),
                              (ascii ''key_factors'', PList [])])
                      result)))"

fun truncate_results :: "lib \<Rightarrow> pydict list \<Rightarrow> pyerror + pydict list" where
  "truncate_results L [] = Inr []"
| "truncate_results L (result # results) =
     (case truncate_result L result of
        Inl e \<Rightarrow> Inl e
      | Inr result' \<Rightarrow>
          (case truncate_results L results of
             Inl e \<Rightarrow> Inl e
           | Inr results' \<Rightarrow> Inr (result' # results')))"

definition synthesis_prompt ::
  "lib \<Rightarrow> pystr option \<Rightarrow> pystr \<Rightarrow> pydict list \<Rightarrow> pyerror + pystr" where
  "synthesis_prompt L marketplace analysis_type normalized_results =
     (case dumps L False (Some 2) (PList (map PDict normalized_results)) of
        Inl e \<Rightarrow> Inl e
      | Inr results_json \<Rightarrow>
          Inr (synthesis_intro @ marketplace_name marketplace @ synthesis_count
               @ decimal (length normalized_results) @ synthesis_block
               @ results_json
               @ synthesis_ask @ analysis_type @ synthesis_result @ prompt_result_fields))"

definition counted_synthesis ::
  "lib \<Rightarrow> pystr \<Rightarrow> pystr option \<Rightarrow> pystr \<Rightarrow> pydict list \<Rightarrow> pyerror + message list \<times> nat"
  where
  "counted_synthesis L system_prompt marketplace analysis_type normalized_results =
     (case synthesis_prompt L marketplace analysis_type normalized_results of
        Inl e \<Rightarrow> Inl e
      | Inr user_prompt \<Rightarrow>
          (case count_messages_tokens L (make_messages system_prompt user_prompt) of
             Inl e \<Rightarrow> Inl e
           | Inr tokens \<Rightarrow> Inr (make_messages system_prompt user_prompt, tokens)))"

definition gpt4_tuned :: pystr where
  "gpt4_tuned = ascii ''ft:gpt-4.1-2025-04-14:expovision:expovision:BQ4JVN7C''"

text \<open>
  All that precedes the \<^verbatim>\<open>try\<close> of \<open>synthesize_final_analysis\<close> (the first loop, the
  prompt, its token count, the truncation and the second prompt) raises to the caller.
\<close>

definition synthesize_final_analysis ::
  "lib \<Rightarrow> provider \<Rightarrow> pystr \<Rightarrow> pyval list \<Rightarrow> pystr \<Rightarrow> pystr option \<Rightarrow> pystr \<Rightarrow> nat
    \<Rightarrow> real list \<Rightarrow> pyval attempt_result" where
  "synthesize_final_analysis L api current_date batch_results system_prompt marketplace
       analysis_type calls slept =
     (case normalize_results 0 batch_results [] of
        Inl e \<Rightarrow> (Inl (Error e), calls, slept)
      | Inr normalized_results \<Rightarrow>
          if normalized_results = []
          then (Inr (PDict (generate_default_response current_date analysis_type)), calls, slept)
          else
            (case counted_synthesis L system_prompt marketplace analysis_type
                    normalized_results of
               Inl e \<Rightarrow> (Inl (Error e), calls, slept)
             | Inr (messages, tokens) \<Rightarrow>
                 if tokens > 3000 then
                   (case truncate_results L
                           (take (min 2 (length normalized_results)) normalized_results) of
                      Inl e \<Rightarrow> (Inl (Error e), calls, slept)
                    | Inr truncated \<Rightarrow>
                        (case counted_synthesis L system_prompt marketplace analysis_type
                                truncated of
                           Inl e \<Rightarrow> (Inl (Error e), calls, slept)
                         | Inr (messages', tokens') \<Rightarrow>
                             call_and_parse L api current_date
                               (make_request gpt4_tuned messages' 4000)
                               analysis_type calls slept))
                 else
                   call_and_parse L api current_date (make_request gpt4_tuned messages 4000)
                     analysis_type calls slept))"

section \<open>TwoStageAnalyzer.analyze_data\<close>

definition system_prompt_for :: "pystr \<Rightarrow> pystr" where
  "system_prompt_for analysis_type =
     (if analysis_type = ascii ''trends''
      then system_trends_task @ system_rules @ system_trends_end
      else if analysis_type = ascii ''competitors''
      then system_competitors_task @ system_rules @ system_end
      else system_metrics_task @ system_rules @ system_end)"

text \<open>
  The loop over the batches. \<open>dataset\<close> is the current content of the caller's dataset
  object: a batch of origin \<open>Original\<close> is that object, so \<open>analyze_batch\<close> reads it and
  leaves its changes in it; a \<open>Created\<close> batch is an object of its own.
\<close>

fun analyze_batches ::
  "lib \<Rightarrow> provider \<Rightarrow> pystr \<Rightarrow> pystr \<Rightarrow> pystr option \<Rightarrow> pystr \<Rightarrow> batch list \<Rightarrow> pydict
    \<Rightarrow> pyval list \<Rightarrow> nat \<Rightarrow> real list \<Rightarrow> (pyexc + pyval list) \<times> pydict \<times> nat \<times> real list"
  where
  "analyze_batches L api current_date system_prompt marketplace analysis_type [] dataset
       batch_results calls slept = (Inr batch_results, dataset, calls, slept)"
| "analyze_batches L api current_date system_prompt marketplace analysis_type
       ((origin, b) # batches) dataset batch_results calls slept =
     (case analyze_batch L api current_date (if origin = Original then dataset else b)
             system_prompt marketplace analysis_type calls slept of
        (Inl e, b', calls', slept') \<Rightarrow>
          (Inl e, (if origin = Original then b' else dataset), calls', slept')
      | (Inr result, b', calls', slept') \<Rightarrow>
          analyze_batches L api current_date system_prompt marketplace analysis_type batches
            (if origin = Original then b' else dataset) (batch_results @ [result])
            calls' slept')"

text \<open>
  The caller's dataset after the consolidation: the merge of \<open>consolidate_data\<close> writes
  \<^verbatim>\<open>batch_index\<close> and \<^verbatim>\<open>merged_from\<close> into the batch objects, the caller's one among them.
\<close>

definition dataset_of :: "batch list \<Rightarrow> pydict \<Rightarrow> pydict" where
  "dataset_of batches data =
     (case filter (\<lambda>b. fst b = Original) batches of [] \<Rightarrow> data | b # _ \<Rightarrow> snd b)"

text \<open>
  \<open>analyze_data\<close> returns its result (or the exception that \<^verbatim>\<open>except Exception\<close> lets
  through), and the model returns with it the caller's dataset object as the run leaves
  it. \<open>max_api_calls\<close> is the parameter of the constructor (3 by default); the budget of a
  batch is the default 3000 of \<^verbatim>\<open>ConsolidatedDataProcessor\<close>.
\<close>

definition analyze_data ::
  "lib \<Rightarrow> provider \<Rightarrow> pystr \<Rightarrow> int \<Rightarrow> pydict \<Rightarrow> pystr option \<Rightarrow> pystr \<Rightarrow> nat \<Rightarrow> real list
    \<Rightarrow> analysis" where
  "analyze_data L api current_date max_api_calls data marketplace analysis_type calls slept =
     (let system_prompt = system_prompt_for analysis_type;
          default_response = PDict (generate_default_response current_date analysis_type);
          batches = consolidate_data L max_api_calls 3000 data
      in case analyze_batches L api current_date system_prompt marketplace analysis_type
                batches (dataset_of batches data) [] calls slept of
           (Inl e, dataset, calls', slept') \<Rightarrow>
             if is_Exception e then (Inr default_response, dataset, calls', slept')
             else (Inl e, dataset, calls', slept')
         | (Inr batch_results, dataset, calls', slept') \<Rightarrow>
             (case synthesize_final_analysis L api current_date batch_results system_prompt
                     marketplace analysis_type calls' slept' of
                (Inl e, calls'', slept'') \<Rightarrow>
                  if is_Exception e then (Inr default_response, dataset, calls'', slept'')
                  else (Inl e, dataset, calls'', slept'')
              | (Inr final_result, calls'', slept'') \<Rightarrow>
                  (Inr final_result, dataset, calls'', slept'')))"

section \<open>A library stand-in and sample datasets\<close>

text \<open>
  The theorems hold for every library. Where a property is shown at a concrete input, the
  library is instantiated with \<open>plain_lib\<close>: one token per code point, a stable descending
  insertion sort (what Python's sort gives when no key is NaN), a serialiser that
  writes \<^verbatim>\<open>{}\<close> for every value, a parser that rejects every text, regular expressions
  that never match, columns of numbers typed
  as numeric and columns of strings as objects, and no statistics.
\<close>

fun float_less :: "pyfloat \<Rightarrow> pyfloat \<Rightarrow> bool" where
  "float_less (Fin a) (Fin b) = (a < b)"
| "float_less _ _ = False"

fun insert_desc :: "(pystr \<times> pyval) \<times> pyfloat \<Rightarrow> ((pystr \<times> pyval) \<times> pyfloat) list
    \<Rightarrow> ((pystr \<times> pyval) \<times> pyfloat) list" where
  "insert_desc x [] = [x]"
| "insert_desc x (y # ys) =
     (if float_less (snd y) (snd x) then x # y # ys else y # insert_desc x ys)"

definition stable_descending ::
  "((pystr \<times> pyval) \<times> pyfloat) list \<Rightarrow> (pystr \<times> pyval) list" where
  "stable_descending keyed = map fst (foldl (\<lambda>acc x. insert_desc x acc) [] keyed)"

definition plain_lib :: lib where
  "plain_lib =
     \<lparr>encode = (\<lambda>text. Inr text),
      dumps = (\<lambda>ensure_ascii indent v. Inr (ascii ''{}'')),
      loads = (\<lambda>text. Inl (JSONDecodeError [])),
      sorted_reverse = stable_descending,
      float_of_str = (\<lambda>text. Inl []),
      re_search = (\<lambda>p text. None),
      re_findall = (\<lambda>p text. []),
      re_findall2 = (\<lambda>p text. []),
      re_sub = (\<lambda>p text. text),
      number_dtype = list_all (\<lambda>v. case v of PInt _ \<Rightarrow> True | PFloat _ \<Rightarrow> True | _ \<Rightarrow> False),
      object_dtype = list_all (\<lambda>v. case v of PStr _ \<Rightarrow> True | _ \<Rightarrow> False),
      col_mean = (\<lambda>cells. NaN),
      col_median = (\<lambda>cells. NaN),
      col_min = (\<lambda>cells. NaN),
      col_max = (\<lambda>cells. NaN),
      nunique = length,
      value_counts = (\<lambda>cells. []),
      nlargest_var = (\<lambda>n cols. take n (map fst cols)),
      time_series_of = (\<lambda>df. []),
      other_frame = (\<lambda>v. None)\<rparr>"

text \<open>Revenue 100, 110, 121 in three rows; and five rows of one numeric column.\<close>

definition revenue_records :: "pydict list" where
  "revenue_records =
     [[(ascii ''revenue'', PInt 100)], [(ascii ''revenue'', PInt 110)],
      [(ascii ''revenue'', PInt 121)]]"

definition revenue_data :: pydict where
  "revenue_data = [(ascii ''data'', PList (map PDict revenue_records))]"

definition five_records :: "pydict list" where
  "five_records = map (\<lambda>i. [(ascii ''x'', PInt i)]) [1, 2, 3, 4, 5]"

definition five_rows :: pydict where
  "five_rows = [(ascii ''data'', PList (map PDict five_records))]"

text \<open>A dataset without rows.\<close>

definition empty_data :: pydict where
  "empty_data = [(ascii ''data'', PList [])]"

text \<open>
  A library whose serialiser writes 4000 characters for every value, as for a large
  dataset; and a provider that fails on every call.
\<close>

definition wide_lib :: lib where
  "wide_lib = plain_lib\<lparr>dumps := (\<lambda>ensure_ascii indent v. Inr (replicate 4000 120))\<rparr>"

definition failing_api :: provider where
  "failing_api = (\<lambda>n req. Inl (ProviderError n))"

text \<open>
  A library whose tokenizer refuses every text, as tiktoken refuses a text that holds a
  special token.
\<close>

definition refusing_lib :: lib where
  "refusing_lib = plain_lib\<lparr>encode := (\<lambda>text. Inl (ValueError (ascii ''special token'')))\<rparr>"

text \<open>
  A response in prose, "Dynamics: mean   x: ." in Russian, whose dynamics section holds a
  mean line with the number \<^verbatim>\<open>.\<close>; and a library that finds in it what the patterns of
  \<^verbatim>\<open>create_fallback_response\<close> find: the section, the mean line \<^verbatim>\<open>("x", ".")\<close>, and no
  float in \<^verbatim>\<open>.\<close>.
\<close>

definition dotted_text :: pystr where
  "dotted_text =
     [1044, 1080, 1085, 1072, 1084, 1080, 1082, 1072, 58, 32, 1089, 1088, 1077, 1076, 1085,
      1077, 1077, 32, 32, 32, 120, 58, 32, 46]"

definition dotted_lib :: lib where
  "dotted_lib = plain_lib
     \<lparr>float_of_str := (\<lambda>text. Inl (ascii ''could not convert string to float'')),
      re_search := (\<lambda>p text. if p = DynamicsSection \<and> text = dotted_text
                               then Some (drop 9 dotted_text) else None),
      re_findall2 := (\<lambda>p text. if p = MeanLine \<and> text = drop 10 dotted_text
                                 then [(ascii ''x'', ascii ''.'')] else [])\<rparr>"

text \<open>
  A library whose serialiser refuses a summary (a dict that has \<^verbatim>\<open>rows_count\<close>), as
  \<^verbatim>\<open>json.dumps\<close> refuses a dict that holds a value of a type it does not know.
\<close>

definition picky_lib :: lib where
  "picky_lib =
     plain_lib\<lparr>dumps := (\<lambda>ensure_ascii indent v.
        case v of
          PDict d \<Rightarrow> if has_key d (ascii ''rows_count'') then Inl TypeError
                     else Inr (ascii ''{}'')
        | _ \<Rightarrow> Inr (ascii ''{}''))\<rparr>"

text \<open>
  A library whose parser knows the text \<^verbatim>\<open>{"a":1}\<close>, exceeds the recursion limit on a
  thousand or more \<^verbatim>\<open>[\<close>, and rejects every other text as malformed. \<open>single_quoted\<close>
  is \<^verbatim>\<open>{'a':1}\<close>, which the repair turns into \<open>double_quoted\<close>.
\<close>

definition double_quoted :: pystr where
  "double_quoted = [123, 34, 97, 34, 58, 49, 125]"

definition single_quoted :: pystr where
  "single_quoted = [123, 39, 97, 39, 58, 49, 125]"

definition quoting_lib :: lib where
  "quoting_lib =
     plain_lib\<lparr>loads := (\<lambda>text.
        if text = double_quoted then Inr (PDict [(ascii ''a'', PInt 1)])
        else if 1000 \<le> length text \<and> set text \<subseteq> {91}
        then Inl (RecursionError (ascii ''maximum recursion depth exceeded''))
        else Inl (JSONDecodeError (ascii ''Expecting value'')))\<rparr>"

text \<open>A batch with rows and four metrics, of changes 1, 2, 3 and 4 percent.\<close>

definition metric_with_change :: "int \<Rightarrow> pyval" where
  "metric_with_change c = PDict [(ascii ''change_percent'', PInt c)]"

definition metrics_batch :: pydict where
  "metrics_batch =
     [(ascii ''data'', PList (map PDict revenue_records)),
      (ascii ''key_metrics'', PDict
         [(ascii ''a'', metric_with_change 1), (ascii ''b'', metric_with_change 2),
          (ascii ''c'', metric_with_change 3), (ascii ''d'', metric_with_change 4)])]"


section \<open>Shapes of digests\<close>

text \<open>
  The smallest digest has exactly the three entries \<^verbatim>\<open>rows_count\<close>, \<^verbatim>\<open>columns_count\<close> and
  \<^verbatim>\<open>columns\<close>, in this order.
\<close>

definition minimal_form :: "pydict \<Rightarrow> bool" where
  "minimal_form digest =
     (map fst digest = [ascii ''rows_count'', ascii ''columns_count'', ascii ''columns''])"

text \<open>A digest is within the budget when its serialisation is counted, and at most the budget.\<close>

definition within_budget :: "lib \<Rightarrow> int \<Rightarrow> pydict \<Rightarrow> bool" where
  "within_budget L max_tokens digest =
     (case summary_tokens L digest of
        Inl e \<Rightarrow> False
      | Inr tokens \<Rightarrow> int tokens \<le> max_tokens)"

text \<open>
  What a batch carries: the rows under \<^verbatim>\<open>"data"\<close> (none when the key is absent), the
  number under \<^verbatim>\<open>"rows_count"\<close>, and whether it records \<^verbatim>\<open>"merged_from"\<close>.
\<close>

definition batch_rows :: "pydict \<Rightarrow> pyval list" where
  "batch_rows b = (case dict_get b (ascii ''data'') of Some (PList xs) \<Rightarrow> xs | _ \<Rightarrow> [])"

definition rows_count_of :: "pydict \<Rightarrow> int" where
  "rows_count_of b = (case dict_get b (ascii ''rows_count'') of Some (PInt n) \<Rightarrow> n | _ \<Rightarrow> 0)"

definition is_merged :: "batch \<Rightarrow> bool" where
  "is_merged b = has_key (snd b) (ascii ''merged_from'')"

definition non_merged :: "batch list \<Rightarrow> batch list" where
  "non_merged batches = filter (\<lambda>b. \<not> is_merged b) batches"

text \<open>
  The rows a batch stands for: the rows it carries under \<^verbatim>\<open>"data"\<close> when it has the key,
  the number under \<^verbatim>\<open>"rows_count"\<close> when it is a digest.
\<close>

definition row_weight :: "batch \<Rightarrow> int" where
  "row_weight b =
     (if has_key (snd b) (ascii ''data'') then int (length (batch_rows (snd b)))
      else rows_count_of (snd b))"

text \<open>
  A batch whose \<^verbatim>\<open>key_metrics\<close>, when present, is what the digests carry: a dict of metrics,
  each a dict whose \<^verbatim>\<open>change_percent\<close>, when present, is a number.
\<close>

definition metrics_well_formed :: "pydict \<Rightarrow> bool" where
  "metrics_well_formed batch =
     (case dict_get batch (ascii ''key_metrics'') of
        None \<Rightarrow> True
      | Some (PDict items) \<Rightarrow> list_all (\<lambda>(k, v). abs_change v \<noteq> None) items
      | Some _ \<Rightarrow> False)"

text \<open>
  A sealed batch of the token-limit split has no \<^verbatim>\<open>merged_from\<close>, and it carries no rows
  when the run is \<open>quiet\<close>: the serialiser and the tokenizer raise on no dict.
\<close>

definition sealed :: "bool \<Rightarrow> pydict \<Rightarrow> bool" where
  "sealed quiet b =
     (dict_get b (ascii ''merged_from'') = None \<and>
      (quiet \<longrightarrow> dict_get b (ascii ''data'') = None))"

section \<open>Properties of the default response\<close>

lemma ascii_neq_simps [simp]:
  "ascii ''trends'' \<noteq> ascii ''competitors''"
  by (simp add: ascii_def)

lemma default_body_shape:
  "map fst (default_body d t s a) =
     [ascii ''title'', ascii ''summary'', ascii ''period_data'', ascii ''dynamics'',
      ascii ''factors'', ascii ''links'', ascii ''completed_tasks'', ascii ''pending_tasks'']"
  by (simp add: default_body_def)

lemma default_body_title: "dict_get (default_body d t s a) (ascii ''title'') = Some (PStr t)"
  by (simp add: default_body_def dict_get_def)

lemma default_body_summary: "dict_get (default_body d t s a) (ascii ''summary'') = Some (PStr s)"
  by (simp add: default_body_def dict_get_def ascii_def)

lemma default_body_dynamics:
  "dict_get (default_body d t s a) (ascii ''dynamics'') = Some default_dynamics"
  by (simp add: default_body_def dict_get_def ascii_def)

lemma default_dynamics_zero:
  "default_dynamics = PDict dyn \<Longrightarrow>
     dict_get dyn (ascii ''total_rows'') = Some (PInt 0) \<and>
     dict_get dyn (ascii ''total_columns'') = Some (PInt 0) \<and>
     dict_get dyn (ascii ''key_metrics_change_percent'') = Some (PInt 0)"
  by (auto simp: default_dynamics_def dict_get_def ascii_def)

lemma generate_default_response_cases:
  "generate_default_response d ty = default_body d title_trends summary_trends attempt_trends \<or>
   generate_default_response d ty =
     default_body d title_competitors summary_competitors attempt_competitors \<or>
   generate_default_response d ty = default_body d title_metrics summary_metrics attempt_metrics"
  by (simp add: generate_default_response_def)

lemma default_titles_nonempty:
  "title_trends \<noteq> []" "title_competitors \<noteq> []" "title_metrics \<noteq> []"
  "summary_trends \<noteq> []" "summary_competitors \<noteq> []" "summary_metrics \<noteq> []"
  by (simp_all add: title_trends_def title_competitors_def title_metrics_def
      summary_trends_def summary_competitors_def summary_metrics_def)

text \<open>
  Claim C10. For every \<open>analysis_type\<close> string, also one that is none of "trends",
  "competitors" and "metrics", and whatever the date, \<open>generate_default_response\<close> returns a
  dict with exactly the keys title, summary, period_data, dynamics, factors, links,
  completed_tasks and pending_tasks; title and summary are non-empty strings; and dynamics has
  total_rows = 0, total_columns = 0 and key_metrics_change_percent = 0. The function takes no
  data, so this holds regardless of the data analysed.
\<close>

theorem generate_default_response_complete:
  "map fst (generate_default_response current_date analysis_type) =
     [ascii ''title'', ascii ''summary'', ascii ''period_data'', ascii ''dynamics'',
      ascii ''factors'', ascii ''links'', ascii ''completed_tasks'', ascii ''pending_tasks''] \<and>
   (\<exists>title summary dyn.
      dict_get (generate_default_response current_date analysis_type) (ascii ''title'')
        = Some (PStr title) \<and> title \<noteq> [] \<and>
      dict_get (generate_default_response current_date analysis_type) (ascii ''summary'')
        = Some (PStr summary) \<and> summary \<noteq> [] \<and>
      dict_get (generate_default_response current_date analysis_type) (ascii ''dynamics'')
        = Some (PDict dyn) \<and>
      dict_get dyn (ascii ''total_rows'') = Some (PInt 0) \<and>
      dict_get dyn (ascii ''total_columns'') = Some (PInt 0) \<and>
      dict_get dyn (ascii ''key_metrics_change_percent'') = Some (PInt 0))"
proof -
  obtain dyn where dyn: "default_dynamics = PDict dyn"
    by (simp add: default_dynamics_def)
  note z = default_dynamics_zero [OF dyn]
  from generate_default_response_cases [of current_date analysis_type]
  consider (t) "generate_default_response current_date analysis_type =
        default_body current_date title_trends summary_trends attempt_trends"
    | (c) "generate_default_response current_date analysis_type =
        default_body current_date title_competitors summary_competitors attempt_competitors"
    | (m) "generate_default_response current_date analysis_type =
        default_body current_date title_metrics summary_metrics attempt_metrics"
    by blast
  then show ?thesis
  proof cases
    case t
    show ?thesis
      unfolding t
      using z dyn default_titles_nonempty
      by (auto simp: default_body_shape default_body_title default_body_summary
          default_body_dynamics)
  next
    case c
    show ?thesis
      unfolding c
      using z dyn default_titles_nonempty
      by (auto simp: default_body_shape default_body_title default_body_summary
          default_body_dynamics)
  next
    case m
    show ?thesis
      unfolding m
      using z dyn default_titles_nonempty
      by (auto simp: default_body_shape default_body_title default_body_summary
          default_body_dynamics)
  qed
qed

section \<open>The retry bound\<close>

lemma retry_loop_calls_bound:
  "retries \<le> max_retries + 1 \<Longrightarrow>
   fst (snd (retry_loop max_retries bf func retries delay le calls slept))
     \<le> calls + nat (max_retries + 1 - retries)"
proof (induction max_retries bf func retries delay le calls slept rule: retry_loop.induct)
  case (1 max_retries bf func retries delay le calls slept)
  show ?case
  proof (cases "retries \<le> max_retries")
    case False
    then show ?thesis
      by (simp add: retry_loop.simps [of max_retries bf func retries] split: option.splits)
  next
    case True
    show ?thesis
    proof (cases "func calls")
      case (Inr v)
      with True show ?thesis
        by (simp add: retry_loop.simps [of max_retries bf func retries])
    next
      case (Inl e)
      show ?thesis
      proof (cases "is_Exception e \<and> \<not> retries + 1 > max_retries")
        case False
        with True Inl show ?thesis
          by (auto simp: retry_loop.simps [of max_retries bf func retries])
      next
        case c: True
        have "fst (snd (retry_loop max_retries bf func (retries + 1) (delay * bf) (Some e)
                 (calls + 1) (slept @ [delay])))
              \<le> (calls + 1) + nat (max_retries + 1 - (retries + 1))"
          using "1.IH" [OF True Inl] c by simp
        moreover have "(calls + 1) + nat (max_retries + 1 - (retries + 1))
            = calls + nat (max_retries + 1 - retries)"
          using True by linarith
        ultimately have "fst (snd (retry_loop max_retries bf func (retries + 1) (delay * bf)
                 (Some e) (calls + 1) (slept @ [delay])))
              \<le> calls + nat (max_retries + 1 - retries)"
          by simp
        moreover have "retry_loop max_retries bf func retries delay le calls slept
            = retry_loop max_retries bf func (retries + 1) (delay * bf) (Some e) (calls + 1)
                (slept @ [delay])"
          using True Inl c by (simp add: retry_loop.simps [of max_retries bf func retries])
        ultimately show ?thesis
          by simp
      qed
    qed
  qed
qed

lemma retry_loop_all_fail:
  "retries \<le> max_retries \<Longrightarrow>
   (\<forall>k < nat (max_retries + 1 - retries). \<exists>e. func (calls + k) = Inl e \<and> is_Exception e) \<Longrightarrow>
   \<exists>e slept'. retry_loop max_retries bf func retries delay le calls slept
       = (Inl e, calls + nat (max_retries + 1 - retries), slept') \<and>
     func (calls + nat (max_retries - retries)) = Inl e"
proof (induction max_retries bf func retries delay le calls slept rule: retry_loop.induct)
  case (1 max_retries bf func retries delay le calls slept)
  from "1.prems" have le: "retries \<le> max_retries" by simp
  from "1.prems" obtain e where e: "func calls = Inl e" "is_Exception e"
  proof -
    from le have "0 < nat (max_retries + 1 - retries)" by simp
    with "1.prems"(2) have "\<exists>e. func (calls + 0) = Inl e \<and> is_Exception e" by blast
    then show ?thesis using that by auto
  qed
  show ?case
  proof (cases "retries + 1 > max_retries")
    case True
    with le have "retries = max_retries" by simp
    with e show ?thesis
      by (simp add: retry_loop.simps [of max_retries bf func max_retries])
  next
    case False
    have a: "\<forall>k<nat (max_retries + 1 - (retries + 1)). \<exists>e. func (calls + 1 + k) = Inl e \<and> is_Exception e"
    proof (intro allI impI)
      fix k assume "k < nat (max_retries + 1 - (retries + 1))"
      then have "Suc k < nat (max_retries + 1 - retries)" by linarith
      with "1.prems"(2) have "\<exists>e. func (calls + Suc k) = Inl e \<and> is_Exception e"
        by blast
      then show "\<exists>e. func (calls + 1 + k) = Inl e \<and> is_Exception e"
        by simp
    qed
    from False have b: "retries + 1 \<le> max_retries" by simp
    from "1.IH" [OF le e(1) _ False b a] e(2)
    obtain e' slept' where r:
      "retry_loop max_retries bf func (retries + 1) (delay * bf) (Some e) (calls + 1) (slept @ [delay])
        = (Inl e', calls + 1 + nat (max_retries + 1 - (retries + 1)), slept')"
      "func (calls + 1 + nat (max_retries - (retries + 1))) = Inl e'"
      by auto
    have n1: "calls + 1 + nat (max_retries + 1 - (retries + 1)) = calls + nat (max_retries + 1 - retries)"
      using b by linarith
    have n2: "calls + 1 + nat (max_retries - (retries + 1)) = calls + nat (max_retries - retries)"
      using b by linarith
    have "retry_loop max_retries bf func retries delay le calls slept
        = retry_loop max_retries bf func (retries + 1) (delay * bf) (Some e) (calls + 1)
            (slept @ [delay])"
      using le e False by (simp add: retry_loop.simps [of max_retries bf func retries])
    with r show ?thesis
      unfolding n1 n2 by simp
  qed
qed


lemma retry_loop_raises_late:
  "retries \<le> max_retries \<Longrightarrow>
   retry_loop max_retries bf func retries delay le calls slept = (Inl e, calls', slept') \<Longrightarrow>
   is_Exception e \<Longrightarrow>
   calls' = calls + nat (max_retries + 1 - retries) \<and>
   (\<forall>k < nat (max_retries + 1 - retries). \<exists>e'. func (calls + k) = Inl e' \<and> is_Exception e')"
proof (induction max_retries bf func retries delay le calls slept rule: retry_loop.induct)
  case (1 max_retries bf func retries delay le calls slept)
  note le = "1.prems"(1) and res = "1.prems"(2) and ex = "1.prems"(3)
  show ?case
  proof (cases "func calls")
    case (Inr v)
    with le res show ?thesis
      by (simp add: retry_loop.simps [of max_retries bf func retries])
  next
    case (Inl e0)
    show ?thesis
    proof (cases "is_Exception e0")
      case False
      with le res Inl ex show ?thesis
        by (auto simp: retry_loop.simps [of max_retries bf func retries])
    next
      case e0: True
      show ?thesis
      proof (cases "retries + 1 > max_retries")
        case True
        with le have eq: "retries = max_retries" by simp
        from res Inl e0 have "calls' = calls + 1"
          by (simp add: eq retry_loop.simps [of max_retries bf func max_retries])
        with Inl e0 eq show ?thesis by simp
      next
        case False
        then have b: "retries + 1 \<le> max_retries" by simp
        have step: "retry_loop max_retries bf func retries delay le calls slept
            = retry_loop max_retries bf func (retries + 1) (delay * bf) (Some e0) (calls + 1)
                (slept @ [delay])"
          using le Inl e0 False by (simp add: retry_loop.simps [of max_retries bf func retries])
        from "1.IH" [OF le Inl _ False b res [unfolded step] ex] e0
        have ih: "calls' = calls + 1 + nat (max_retries + 1 - (retries + 1))"
          "\<forall>k<nat (max_retries + 1 - (retries + 1)).
              \<exists>e'. func (calls + 1 + k) = Inl e' \<and> is_Exception e'"
          by auto
        have n1: "calls + 1 + nat (max_retries + 1 - (retries + 1))
            = calls + nat (max_retries + 1 - retries)"
          using b by linarith
        have "\<exists>e'. func (calls + k) = Inl e' \<and> is_Exception e'"
          if k: "k < nat (max_retries + 1 - retries)" for k
        proof (cases k)
          case 0
          with Inl e0 show ?thesis by simp
        next
          case (Suc j)
          with k have "j < nat (max_retries + 1 - (retries + 1))" by linarith
          with ih(2) have "\<exists>e'. func (calls + 1 + j) = Inl e' \<and> is_Exception e'" by blast
          with Suc show ?thesis by simp
        qed
        with ih(1) n1 show ?thesis by simp
      qed
    qed
  qed
qed

text \<open>
  Claim C5. For every \<open>max_retries \<ge> 0\<close>, \<open>execute_with_retry\<close> invokes the operation at most
  \<open>max_retries + 1\<close> times. When every one of these attempts raises (an \<^verbatim>\<open>Exception\<close>), the
  exception of the last attempt is propagated after exactly \<open>max_retries + 1\<close> invocations; and
  an \<^verbatim>\<open>Exception\<close> is propagated only then: after exactly \<open>max_retries + 1\<close> invocations that
  have all raised. With \<open>max_retries = 3\<close> that is 4 invocations (see the witness).
\<close>

theorem execute_with_retry_bound:
  assumes "0 \<le> max_retries"
  shows
    "fst (snd (execute_with_retry max_retries initial_delay backoff_factor func calls slept))
       \<le> calls + (nat max_retries + 1) \<and>
     ((\<forall>k \<le> nat max_retries. \<exists>e. func (calls + k) = Inl e \<and> is_Exception e) \<longrightarrow>
        (\<exists>e slept'.
           execute_with_retry max_retries initial_delay backoff_factor func calls slept
             = (Inl e, calls + (nat max_retries + 1), slept') \<and>
           func (calls + nat max_retries) = Inl e)) \<and>
     (\<forall>e calls' slept'.
        execute_with_retry max_retries initial_delay backoff_factor func calls slept
          = (Inl e, calls', slept') \<and> is_Exception e \<longrightarrow>
        calls' = calls + (nat max_retries + 1) \<and>
        (\<forall>k \<le> nat max_retries. \<exists>e'. func (calls + k) = Inl e' \<and> is_Exception e'))"
proof -
  have n: "nat (max_retries + 1 - 0) = nat max_retries + 1"
    using assms by simp
  have m: "nat (max_retries - 0) = nat max_retries"
    by simp
  have lt: "k < nat max_retries + 1 \<longleftrightarrow> k \<le> nat max_retries" for k
    by auto
  from assms have a: "(0::int) \<le> max_retries + 1" by simp
  let ?run = "execute_with_retry max_retries initial_delay backoff_factor func calls slept"
  have run: "?run = retry_loop max_retries backoff_factor func 0 initial_delay None calls slept"
    by (simp add: execute_with_retry_def)
  have c1: "fst (snd ?run) \<le> calls + (nat max_retries + 1)"
    using retry_loop_calls_bound [OF a, of backoff_factor func initial_delay None calls slept]
    unfolding run n .
  have c2: "\<exists>e slept'. ?run = (Inl e, calls + (nat max_retries + 1), slept') \<and>
              func (calls + nat max_retries) = Inl e"
    if "\<forall>k \<le> nat max_retries. \<exists>e. func (calls + k) = Inl e \<and> is_Exception e"
    using retry_loop_all_fail [OF assms, of func calls backoff_factor initial_delay None slept]
      that
    unfolding run n m lt by blast
  have c3: "calls' = calls + (nat max_retries + 1) \<and>
        (\<forall>k \<le> nat max_retries. \<exists>e'. func (calls + k) = Inl e' \<and> is_Exception e')"
    if "?run = (Inl e, calls', slept') \<and> is_Exception e" for e calls' slept'
    using retry_loop_raises_late [OF assms, of backoff_factor func initial_delay None calls slept
        e calls' slept'] that
    unfolding run n lt by blast
  from c1 c2 c3 show ?thesis
    by blast
qed

theorem execute_with_retry_bound_witness:
  "(0::int) \<le> 3 \<and>
   fst (snd (execute_with_retry 3 1 2 (\<lambda>n. Inl (ProviderError n) :: pyexc + unit) 0 [])) \<le> 4 \<and>
   (\<exists>slept'. execute_with_retry 3 1 2 (\<lambda>n. Inl (ProviderError n) :: pyexc + unit) 0 []
      = (Inl (ProviderError 3), 4, slept'))"
  using execute_with_retry_bound [of 3 1 2 "\<lambda>n. Inl (ProviderError n) :: pyexc + unit" 0 "[]"]
  by simp

lemma retry_always_failing_run:
  "execute_with_retry 3 1 2 (\<lambda>n. Inl (ProviderError n) :: pyexc + unit) 0 [] = (Inl (ProviderError 3), 4, [1,2,4])"
  by (simp add: execute_with_retry_def retry_loop.simps)


section \<open>Dicts and frames\<close>

lemma ascii_eq_iff [simp]: "ascii s = ascii t \<longleftrightarrow> s = t"
  unfolding ascii_def by (simp add: inj_map_eq_map inj_def)

lemma dict_get_set: "dict_get (dict_set d k v) k' = (if k' = k then Some v else dict_get d k')"
  by (simp add: dict_get_def dict_set_def update_conv')

lemma dict_get_del: "dict_get (dict_del d k) k' = (if k' = k then None else dict_get d k')"
  by (simp add: dict_get_def dict_del_def delete_conv')

lemma dict_get_Nil: "dict_get [] k = None"
  by (simp add: dict_get_def)

lemma dict_get_Cons: "dict_get ((k, v) # d) k' = (if k' = k then Some v else dict_get d k')"
  by (simp add: dict_get_def)

lemma has_key_get: "has_key d k \<longleftrightarrow> dict_get d k \<noteq> None"
  by (simp add: has_key_def dict_get_def)

lemma key_metrics_fold:
  "dict_get (foldl (\<lambda>key_metrics col.
              if list_all isna (column df col) then key_metrics
              else dict_set key_metrics col (PDict (metric_of L df col))) acc cols) c = Some m \<Longrightarrow>
   dict_get acc c = Some m \<or> m = PDict (metric_of L df c)"
proof (induction cols arbitrary: acc)
  case Nil
  then show ?case by simp
next
  case (Cons a cols)
  from Cons.IH [OF Cons.prems [simplified]]
  show ?case
    by (auto simp: dict_get_set split: if_splits)
qed

lemma key_metrics_of_entry:
  "dict_get (key_metrics_of L df) c = Some m \<Longrightarrow> m = PDict (metric_of L df c)"
  unfolding key_metrics_of_def
  by (drule key_metrics_fold) (simp add: dict_get_def)

lemma metric_of_change:
  "dict_get (metric_of L df c) (ascii ''change_percent'') = Some (change_percent df c)"
  by (simp add: metric_of_def dict_get_def)

lemma set_union_keys: "set (union_keys records) = (\<Union>r \<in> set records. fst ` set r)"
  by (auto simp: union_keys_def)

lemma cell_fill_row:
  "(c \<notin> set cols \<Longrightarrow> map_of r c = None) \<Longrightarrow> cell (fill_row cols r) c = cell r c"
proof -
  assume a: "c \<notin> set cols \<Longrightarrow> map_of r c = None"
  have "map_of (fill_row cols r) c =
      (if c \<in> set cols then Some (case map_of r c of None \<Rightarrow> PNone | Some v \<Rightarrow> v) else None)"
    unfolding fill_row_def by (induction cols) auto
  with a show ?thesis
    by (auto simp: cell_def split: option.splits)
qed

lemma cell_frame_row:
  assumes "r \<in> set records"
  shows "cell (fill_row (union_keys records) r) c = cell r c"
proof (rule cell_fill_row)
  assume "c \<notin> set (union_keys records)"
  with assms have "c \<notin> fst ` set r"
    by (auto simp: set_union_keys)
  then show "map_of r c = None"
    by (simp add: map_of_eq_None_iff)
qed

lemma as_records_dicts [simp]: "as_records (PList (map PDict records)) = Some records"
  by (simp add: as_records.simps list_all_iff comp_def)

lemma column_frame:
  "column (frame_of_records records) c = map (\<lambda>r. cell r c) records"
  by (simp add: column_def frame_of_records_def cell_frame_row)



section \<open>The change in percent of a key metric\<close>


lemma revenue_key_metrics:
  "extract_key_metrics plain_lib revenue_data
   = [(ascii ''revenue'', PDict
        [(ascii ''mean'', PFloat NaN), (ascii ''median'', PFloat NaN), (ascii ''min'', PFloat NaN),
         (ascii ''max'', PFloat NaN), (ascii ''last_value'', PFloat (Fin 121)),
         (ascii ''first_value'', PFloat (Fin 100)), (ascii ''change_percent'', PFloat (Fin 21))])]"
  by (simp add: extract_key_metrics_def data_rows_def dict_get_def DataFrame_def
      frame_of_records_def union_keys_def fill_row_def df_empty_def key_metrics_of_def
      numeric_cols_def plain_lib_def column_def cell_def dict_set_def metric_of_def
      change_percent_def df_len_def as_records.simps revenue_data_def revenue_records_def)



section \<open>The reductions of normalize_data\<close>

lemma second_reduction_minimal:
  "second_reduction L s = Some s' \<Longrightarrow> minimal_form s'"
  by (auto simp: second_reduction_def minimal_form_def has_key_def Let_def
      split: option.splits)

lemma reduce_summary_result:
  "reduce_summary L max_tokens s = Inr s' \<Longrightarrow>
     within_budget L max_tokens s' \<or> minimal_form s'"
  by (auto simp: reduce_summary_def within_budget_def second_reduction_minimal
      split: if_splits option.splits sum.splits)

lemma reduce_summary_steps:
  "reduce_summary L max_tokens s = Inr s' \<Longrightarrow>
     s' = s \<or> first_reduction L s = Some s' \<or>
     (\<exists>s1. first_reduction L s = Some s1 \<and> second_reduction L s1 = Some s')"
  by (auto simp: reduce_summary_def split: if_splits option.splits sum.splits)

lemma abs_change_metric: "abs_change (PDict (metric_of L df c)) \<noteq> None"
proof -
  have "dict_get (metric_of L df c) (ascii ''change_percent'') = Some (change_percent df c)"
    by (rule metric_of_change)
  moreover have "(\<exists>f. change_percent df c = PFloat f) \<or> change_percent df c = PInt 0"
    by (simp add: change_percent_def Let_def)
  ultimately show ?thesis
    by (auto split: pyfloat.splits)
qed

lemma set_dict_set: "set (dict_set d k v) \<subseteq> insert (k, v) (set d)"
  unfolding dict_set_def by (induction d) auto

lemma key_metrics_fold_values:
  "\<forall>v \<in> snd ` set acc. \<exists>c. v = PDict (metric_of L df c) \<Longrightarrow>
   \<forall>v \<in> snd ` set (foldl (\<lambda>key_metrics col.
              if list_all isna (column df col) then key_metrics
              else dict_set key_metrics col (PDict (metric_of L df col))) acc cols).
     \<exists>c. v = PDict (metric_of L df c)"
proof (induction cols arbitrary: acc)
  case Nil
  then show ?case by simp
next
  case (Cons a cols)
  show ?case
  proof (cases "list_all isna (column df a)")
    case True
    with Cons.IH [OF Cons.prems] show ?thesis by simp
  next
    case False
    have "\<forall>v \<in> snd ` set (dict_set acc a (PDict (metric_of L df a))).
            \<exists>c. v = PDict (metric_of L df c)"
      using Cons.prems set_dict_set [of acc a "PDict (metric_of L df a)"]
      by fastforce
    from Cons.IH [OF this] False show ?thesis by simp
  qed
qed

lemma extract_key_metrics_values:
  "(k, v) \<in> set (extract_key_metrics L data) \<Longrightarrow> abs_change v \<noteq> None"
proof -
  assume a: "(k, v) \<in> set (extract_key_metrics L data)"
  then obtain df where "(k, v) \<in> set (key_metrics_of L df)"
    by (auto simp: extract_key_metrics_def split: option.splits if_splits)
  then have "v \<in> snd ` set (key_metrics_of L df)"
    by force
  with key_metrics_fold_values [of "[]" L df "numeric_cols L df 5"]
  obtain c where "v = PDict (metric_of L df c)"
    by (auto simp: key_metrics_of_def)
  then show ?thesis
    using abs_change_metric by simp
qed

lemma sorted_key_metrics: "sorted_by_abs_change L' (extract_key_metrics L data) \<noteq> None"
  using extract_key_metrics_values [of _ _ L data]
  by (auto simp: sorted_by_abs_change_def list_all_iff)


lemma add_if_small_get:
  assumes "add_if_small L key extracted s = Inr s'" and "k \<noteq> key"
  shows "dict_get s' k = dict_get s k"
  using assms by (auto simp: add_if_small_def dict_get_set split: if_splits sum.splits)

lemma summary_of_get:
  assumes "k \<noteq> ascii ''time_series''" and "k \<noteq> ascii ''categorical_data''"
  shows "dict_get (summary_of L data df) k =
     dict_get [(ascii ''rows_count'', PInt (int (df_len df))),
               (ascii ''columns_count'', PInt (int (length (columns df)))),
               (ascii ''columns'',
                  PList (map PStr (if length (columns df) > 20 then take 20 (columns df)
                                   else columns df))),
               (ascii ''missing_values'', PDict (missing_values_of df)),
               (ascii ''key_metrics'', PDict (extract_key_metrics L data))] k"
  using assms
  by (auto simp: summary_of_def Let_def add_if_small_get split: sum.splits)

lemma summary_of_entries:
  "dict_get (summary_of L data df) (ascii ''rows_count'') = Some (PInt (int (df_len df)))"
  "\<exists>cols. dict_get (summary_of L data df) (ascii ''columns'') = Some (PList cols)"
  "dict_get (summary_of L data df) (ascii ''key_metrics'')
     = Some (PDict (extract_key_metrics L data))"
  by (simp_all add: summary_of_get, simp_all add: dict_get_def)

lemma summarize_data_cases:
  "summarize_data L data = [] \<or>
   (\<exists>v df. data_rows data = Some v \<and> DataFrame L v = Some df \<and> \<not> df_empty df \<and>
      summarize_data L data = summary_of L data df)"
  by (auto simp: summarize_data_def split: option.splits)

lemma first_reduction_summary:
  assumes "dict_get s (ascii ''key_metrics'') = Some (PDict (extract_key_metrics L data))"
  shows "\<exists>km. first_reduction L' s =
     Some (dict_set (dict_del (dict_del s (ascii ''time_series'')) (ascii ''categorical_data''))
       (ascii ''key_metrics'') (PDict km))"
proof -
  obtain sorted_metrics where
    "sorted_by_abs_change L' (extract_key_metrics L data) = Some sorted_metrics"
    using sorted_key_metrics [of L' L data] by auto
  with assms show ?thesis
    by (auto simp: first_reduction_def Let_def dict_get_del)
qed

lemma second_reduction_total:
  assumes "dict_get s (ascii ''columns'') = Some (PList cols)"
  shows "second_reduction L s \<noteq> None"
  using assms
  by (simp add: second_reduction_def get_default_def has_key_def Let_def)

text \<open>
  On a summary the reductions themselves raise nothing: an exception of the \<^verbatim>\<open>try\<close> block
  is one of the serialiser or the tokenizer, on the summary or on its first reduction.
\<close>

lemma reduce_summary_raises:
  assumes "dict_get s (ascii ''key_metrics'') = Some (PDict (extract_key_metrics L data))"
    and "dict_get s (ascii ''columns'') = Some (PList cols)"
    and "reduce_summary L max_tokens s = Inl e"
  shows "summary_tokens L s = Inl e \<or>
     (\<exists>s1. first_reduction L s = Some s1 \<and> summary_tokens L s1 = Inl e)"
proof -
  from first_reduction_summary [OF assms(1)] obtain km where
    f: "first_reduction L s =
     Some (dict_set (dict_del (dict_del s (ascii ''time_series'')) (ascii ''categorical_data''))
       (ascii ''key_metrics'') (PDict km))"
    by blast
  have "dict_get (dict_set (dict_del (dict_del s (ascii ''time_series''))
          (ascii ''categorical_data'')) (ascii ''key_metrics'') (PDict km)) (ascii ''columns'')
        = Some (PList cols)"
    using assms(2) by (simp add: dict_get_set dict_get_del)
  from second_reduction_total [OF this, of L] f assms(3) show ?thesis
    by (auto simp: reduce_summary_def split: sum.splits if_splits option.splits)
qed

lemma normalize_data_empty_summary:
  "summarize_data L data = [] \<Longrightarrow> normalize_data L max_tokens data = data"
  by (simp add: normalize_data_def)

lemma normalize_data_raised:
  assumes "summarize_data L data \<noteq> []"
    and "reduce_summary L max_tokens (summarize_data L data) = Inl e"
  shows "normalize_data L max_tokens data = data \<and>
     (summary_tokens L (summarize_data L data) = Inl e \<or>
      (\<exists>s1. first_reduction L (summarize_data L data) = Some s1 \<and>
            summary_tokens L s1 = Inl e))"
proof -
  from assms(1) summarize_data_cases [of L data] obtain df where
    s: "summarize_data L data = summary_of L data df"
    by auto
  from summary_of_entries(2) [of L data df] obtain cols where
    c: "dict_get (summary_of L data df) (ascii ''columns'') = Some (PList cols)"
    by blast
  from reduce_summary_raises [OF summary_of_entries(3) c] assms s show ?thesis
    by (simp add: normalize_data_def)
qed

lemma normalize_data_reduced:
  assumes "summarize_data L data \<noteq> []"
    and "reduce_summary L max_tokens (summarize_data L data) = Inr s'"
  shows "normalize_data L max_tokens data = s'"
  using assms by (simp add: normalize_data_def)

lemma plain_lib_simps [simp]:
  "encode plain_lib = (\<lambda>text. Inr text)"
  "dumps plain_lib = (\<lambda>ensure_ascii indent v. Inr (ascii ''{}''))"
  "loads plain_lib = (\<lambda>text. Inl (JSONDecodeError []))"
  "sorted_reverse plain_lib = stable_descending"
  "float_of_str plain_lib = (\<lambda>text. Inl [])"
  "re_search plain_lib = (\<lambda>p text. None)"
  "re_findall plain_lib = (\<lambda>p text. [])"
  "re_findall2 plain_lib = (\<lambda>p text. [])"
  "re_sub plain_lib = (\<lambda>p text. text)"
  "number_dtype plain_lib =
     list_all (\<lambda>v. case v of PInt _ \<Rightarrow> True | PFloat _ \<Rightarrow> True | _ \<Rightarrow> False)"
  "object_dtype plain_lib = list_all (\<lambda>v. case v of PStr _ \<Rightarrow> True | _ \<Rightarrow> False)"
  "nunique plain_lib = length"
  "value_counts plain_lib = (\<lambda>cells. [])"
  "nlargest_var plain_lib = (\<lambda>n cols. take n (map fst cols))"
  "time_series_of plain_lib = (\<lambda>df. [])"
  "other_frame plain_lib = (\<lambda>v. None)"
  by (simp_all add: plain_lib_def)

lemma refusing_lib_simps [simp]:
  "encode refusing_lib = (\<lambda>text. Inl (ValueError (ascii ''special token'')))"
  "dumps refusing_lib = (\<lambda>ensure_ascii indent v. Inr (ascii ''{}''))"
  "number_dtype refusing_lib = number_dtype plain_lib"
  "object_dtype refusing_lib = object_dtype plain_lib"
  "nunique refusing_lib = length"
  "value_counts refusing_lib = (\<lambda>cells. [])"
  "nlargest_var refusing_lib = (\<lambda>n cols. take n (map fst cols))"
  "time_series_of refusing_lib = (\<lambda>df. [])"
  "other_frame refusing_lib = (\<lambda>v. None)"
  by (simp_all add: refusing_lib_def)

lemma plain_tokens [simp]: "summary_tokens plain_lib s = Inr 2"
  by (simp add: summary_tokens_def count_tokens_def ascii_def)

lemma refusing_tokens [simp]:
  "summary_tokens refusing_lib s = Inl (ValueError (ascii ''special token''))"
  by (simp add: summary_tokens_def count_tokens_def ascii_def)

lemma revenue_frame:
  "data_rows revenue_data = Some (PList (map PDict revenue_records))"
  "DataFrame L (PList (map PDict revenue_records)) = Some (frame_of_records revenue_records)"
  "frame_of_records revenue_records =
     \<lparr>columns = [ascii ''revenue''], rows = revenue_records\<rparr>"
proof -
  show "data_rows revenue_data = Some (PList (map PDict revenue_records))"
    by (simp add: data_rows_def revenue_data_def dict_get_def revenue_records_def)
  show "DataFrame L (PList (map PDict revenue_records)) = Some (frame_of_records revenue_records)"
    by (simp add: DataFrame_def)
  show "frame_of_records revenue_records =
     \<lparr>columns = [ascii ''revenue''], rows = revenue_records\<rparr>"
    by (simp add: frame_of_records_def union_keys_def fill_row_def revenue_records_def)
qed

lemma revenue_summary:
  "summarize_data plain_lib revenue_data =
     [(ascii ''rows_count'', PInt 3), (ascii ''columns_count'', PInt 1),
      (ascii ''columns'', PList [PStr (ascii ''revenue'')]),
      (ascii ''missing_values'', PDict []),
      (ascii ''key_metrics'', PDict (extract_key_metrics plain_lib revenue_data))]"
  by (simp add: summarize_data_def revenue_frame df_empty_def summary_of_def add_if_small_def
        extract_time_series_def extract_categorical_data_def missing_values_of_def
        df_len_def column_def cell_def categorical_of_def)
     (simp add: revenue_records_def)

lemma summary_of_nonempty: "summary_of L data df \<noteq> []"
  using summary_of_entries(1) [of L data df] by (auto simp: dict_get_Nil)

lemma revenue_summary_refusing:
  "summarize_data refusing_lib revenue_data \<noteq> []"
  by (simp add: summarize_data_def revenue_frame df_empty_def summary_of_nonempty)
     (simp add: revenue_records_def)

lemma revenue_reduced:
  "reduce_summary plain_lib 0 (summarize_data plain_lib revenue_data) =
     Inr [(ascii ''rows_count'', PInt 3), (ascii ''columns_count'', PInt 1),
          (ascii ''columns'', PList [PStr (ascii ''revenue'')])]"
proof -
  let ?s = "summarize_data plain_lib revenue_data"
  have k: "dict_get ?s (ascii ''key_metrics'')
      = Some (PDict (extract_key_metrics plain_lib revenue_data))"
    by (simp add: revenue_summary dict_get_def)
  from first_reduction_summary [OF k] obtain km where
    f: "first_reduction plain_lib ?s =
        Some (dict_set (dict_del (dict_del ?s (ascii ''time_series''))
          (ascii ''categorical_data'')) (ascii ''key_metrics'') (PDict km))"
    by blast
  show ?thesis
    unfolding reduce_summary_def f
    by (simp add: second_reduction_def get_default_def dict_get_set dict_get_del has_key_get
          Let_def revenue_summary dict_get_Cons dict_get_Nil)
qed

lemma revenue_normalized:
  "normalize_data plain_lib 0 revenue_data =
     [(ascii ''rows_count'', PInt 3), (ascii ''columns_count'', PInt 1),
      (ascii ''columns'', PList [PStr (ascii ''revenue'')])]"
proof -
  have "summarize_data plain_lib revenue_data \<noteq> []"
    by (simp add: revenue_summary)
  then show ?thesis
    using revenue_reduced by (rule normalize_data_reduced)
qed




text \<open>
  Claim C7 says that the second reduction keeps \<open>key_metrics\<close>, cut to the three metrics of
  largest absolute change with \<open>mean\<close> and \<open>change_percent\<close> only. The code rebinds
  \<^verbatim>\<open>summary\<close> to the dict of three entries before it tests \<^verbatim>\<open>"key_metrics" in summary\<close>, so
  the test is never true (\<open>second_reduction_minimal\<close>). At the revenue dataset with budget 0
  the summary has the metric of the revenue column, and the digest returned has none.
\<close>

theorem collapse_drops_key_metrics:
  "dict_get (summarize_data plain_lib revenue_data) (ascii ''key_metrics'') =
     Some (PDict [(ascii ''revenue'', PDict
        [(ascii ''mean'', PFloat NaN), (ascii ''median'', PFloat NaN), (ascii ''min'', PFloat NaN),
         (ascii ''max'', PFloat NaN), (ascii ''last_value'', PFloat (Fin 121)),
         (ascii ''first_value'', PFloat (Fin 100)), (ascii ''change_percent'', PFloat (Fin 21))])]) \<and>
   normalize_data plain_lib 0 revenue_data =
     [(ascii ''rows_count'', PInt 3), (ascii ''columns_count'', PInt 1),
      (ascii ''columns'', PList [PStr (ascii ''revenue'')])] \<and>
   \<not> has_key (normalize_data plain_lib 0 revenue_data) (ascii ''key_metrics'')"
  by (simp add: revenue_normalized revenue_summary revenue_key_metrics dict_get_Cons
      dict_get_Nil has_key_get)


section \<open>The batches of the consolidation\<close>

lemma first_reduction_get:
  assumes "first_reduction L s = Some s1" and "k \<noteq> ascii ''key_metrics''"
  shows "dict_get s1 k =
     (if k = ascii ''time_series'' \<or> k = ascii ''categorical_data'' then None else dict_get s k)"
  using assms
  by (auto simp: first_reduction_def Let_def dict_get_set dict_get_del
      split: option.splits pyval.splits)

lemma second_reduction_get:
  assumes "second_reduction L s1 = Some s'"
  shows "dict_get s' (ascii ''rows_count'') = Some (get_default s1 (ascii ''rows_count'') (PInt 0))"
    and "k \<notin> {ascii ''rows_count'', ascii ''columns_count'', ascii ''columns''}
           \<Longrightarrow> dict_get s' k = None"
  using assms
  by (auto simp: second_reduction_def Let_def has_key_get dict_get_Cons dict_get_Nil
      split: option.splits)

lemma reduce_summary_rows_count:
  assumes "reduce_summary L max_tokens s = Inr s'"
    and "dict_get s (ascii ''rows_count'') = Some x"
  shows "dict_get s' (ascii ''rows_count'') = Some x"
proof -
  from reduce_summary_steps [OF assms(1)]
  consider "s' = s" | "first_reduction L s = Some s'"
    | s1 where "first_reduction L s = Some s1" "second_reduction L s1 = Some s'"
    by blast
  then show ?thesis
  proof cases
    case 1
    with assms(2) show ?thesis by simp
  next
    case 2
    from first_reduction_get [OF 2, of "ascii ''rows_count''"] assms(2)
    show ?thesis by simp
  next
    case 3
    from first_reduction_get [OF 3(1), of "ascii ''rows_count''"] assms(2)
    have "dict_get s1 (ascii ''rows_count'') = Some x" by simp
    with second_reduction_get(1) [OF 3(2)] show ?thesis
      by (simp add: get_default_def)
  qed
qed

lemma reduce_summary_absent:
  assumes "reduce_summary L max_tokens s = Inr s'"
    and "dict_get s k = None"
    and "k \<notin> {ascii ''rows_count'', ascii ''columns_count'', ascii ''columns'',
               ascii ''key_metrics''}"
  shows "dict_get s' k = None"
proof -
  from assms(3) have k: "k \<noteq> ascii ''key_metrics''"
    and k3: "k \<notin> {ascii ''rows_count'', ascii ''columns_count'', ascii ''columns''}"
    by auto
  from reduce_summary_steps [OF assms(1)]
  consider "s' = s" | "first_reduction L s = Some s'"
    | s1 where "first_reduction L s = Some s1" "second_reduction L s1 = Some s'"
    by blast
  then show ?thesis
  proof cases
    case 1
    with assms(2) show ?thesis by simp
  next
    case 2
    from first_reduction_get [OF 2 k] assms(2) show ?thesis by simp
  next
    case 3
    from second_reduction_get(2) [OF 3(2) k3] show ?thesis .
  qed
qed

lemma summary_of_absent:
  assumes "k \<notin> {ascii ''rows_count'', ascii ''columns_count'', ascii ''columns'',
               ascii ''missing_values'', ascii ''key_metrics'', ascii ''time_series'',
               ascii ''categorical_data''}"
  shows "dict_get (summary_of L data df) k = None"
  using assms
  by (simp add: summary_of_get dict_get_Cons dict_get_Nil)

lemma map_fst_fill_row [simp]: "map fst (fill_row cols r) = cols"
  by (simp add: fill_row_def comp_def)

lemma union_keys_nonempty:
  assumes "r \<in> set records" and "r \<noteq> []"
  shows "union_keys records \<noteq> []"
proof -
  from assms(2) obtain kv where "kv \<in> set r" by (cases r) auto
  with assms(1) have "fst kv \<in> set (union_keys records)"
    by (auto simp: set_union_keys)
  then show ?thesis by auto
qed

lemma row_weight_raw:
  "row_weight (x, batch_data current_batch cols n) = int (length current_batch)"
  by (simp add: row_weight_def batch_data_def has_key_get batch_rows_def dict_get_Cons)

lemma row_weight_digest:
  "dict_get b (ascii ''data'') = None \<Longrightarrow> row_weight (x, b) = rows_count_of b"
  by (simp add: row_weight_def has_key_get)

text \<open>
  A sealed batch: its rows all have the frame's columns. It is the digest of its rows, or,
  when the serialiser or the tokenizer raised in \<open>normalize_data\<close>, the batch with its
  rows.
\<close>

lemma sealed_batch:
  assumes "current_batch \<noteq> []" and "cols \<noteq> []"
    and "\<forall>r \<in> set current_batch. map fst r = cols"
  shows "row_weight (x, normalize_data L max_tokens (batch_data current_batch cols n))
           = int (length current_batch)"
    and "dict_get (normalize_data L max_tokens (batch_data current_batch cols n))
           (ascii ''merged_from'') = None"
    and "\<forall>d. \<exists>t. summary_tokens L d = Inr t \<Longrightarrow>
         dict_get (normalize_data L max_tokens (batch_data current_batch cols n))
           (ascii ''data'') = None"
proof -
  let ?data = "batch_data current_batch cols n"
  let ?df = "frame_of_records current_batch"
  have rows: "data_rows ?data = Some (PList (map PDict current_batch))"
    using assms(1) by (simp add: data_rows_def batch_data_def dict_get_Cons)
  have df: "DataFrame L (PList (map PDict current_batch)) = Some ?df"
    by (simp add: DataFrame_def)
  from assms(1) obtain r where r: "r \<in> set current_batch"
    by (cases current_batch) auto
  with assms(2,3) have "r \<noteq> []"
    by auto
  with r have "union_keys current_batch \<noteq> []"
    by (rule union_keys_nonempty)
  with assms(1) have ne: "\<not> df_empty ?df"
    by (simp add: df_empty_def frame_of_records_def)
  have s: "summarize_data L ?data = summary_of L ?data ?df"
    by (simp add: summarize_data_def rows df ne)
  have sne: "summarize_data L ?data \<noteq> []"
    unfolding s by (rule summary_of_nonempty)
  have len: "df_len ?df = length current_batch"
    by (simp add: df_len_def frame_of_records_def)
  have m: "dict_get ?data (ascii ''merged_from'') = None"
    by (simp add: batch_data_def dict_get_Cons dict_get_Nil)
  show "row_weight (x, normalize_data L max_tokens ?data) = int (length current_batch)"
  proof (cases "reduce_summary L max_tokens (summarize_data L ?data)")
    case (Inl e)
    from normalize_data_raised [OF sne Inl] show ?thesis
      by (simp add: row_weight_raw)
  next
    case (Inr s')
    note red = Inr [unfolded s]
    have "dict_get s' (ascii ''data'') = None"
      by (rule reduce_summary_absent [OF red summary_of_absent]) simp_all
    moreover from reduce_summary_rows_count [OF red summary_of_entries(1)]
    have "rows_count_of s' = int (length current_batch)"
      by (simp add: rows_count_of_def len)
    ultimately show ?thesis
      using normalize_data_reduced [OF sne Inr] by (simp add: row_weight_digest)
  qed
  show "dict_get (normalize_data L max_tokens ?data) (ascii ''merged_from'') = None"
  proof (cases "reduce_summary L max_tokens (summarize_data L ?data)")
    case (Inl e)
    from normalize_data_raised [OF sne Inl] m show ?thesis
      by simp
  next
    case (Inr s')
    note red = Inr [unfolded s]
    have "dict_get s' (ascii ''merged_from'') = None"
      by (rule reduce_summary_absent [OF red summary_of_absent]) simp_all
    then show ?thesis
      using normalize_data_reduced [OF sne Inr] by simp
  qed
  show "dict_get (normalize_data L max_tokens ?data) (ascii ''data'') = None"
    if t: "\<forall>d. \<exists>t. summary_tokens L d = Inr t"
  proof (cases "reduce_summary L max_tokens (summarize_data L ?data)")
    case (Inl e)
    from normalize_data_raised [OF sne Inl] t show ?thesis
      by (metis Inl_Inr_False)
  next
    case (Inr s')
    note red = Inr [unfolded s]
    have "dict_get s' (ascii ''data'') = None"
      by (rule reduce_summary_absent [OF red summary_of_absent]) simp_all
    then show ?thesis
      using normalize_data_reduced [OF sne Inr] by simp
  qed
qed

lemma token_limit_loop_counts:
  assumes "cols \<noteq> []"
    and "\<forall>r \<in> set remaining \<union> set current_batch. map fst r = cols"
    and "list_all (sealed (\<forall>d. \<exists>t. summary_tokens L d = Inr t)) batches"
    and "token_limit_loop L max_tokens cols remaining batches current_batch tokens
           = Inr result"
  shows "(\<Sum>b\<leftarrow>result. row_weight (Created, b))
         = (\<Sum>b\<leftarrow>batches. row_weight (Created, b)) + int (length current_batch)
             + int (length remaining) \<and>
         list_all (sealed (\<forall>d. \<exists>t. summary_tokens L d = Inr t)) result"
  using assms(2,3,4)
proof (induction remaining arbitrary: batches current_batch tokens)
  case Nil
  show ?case
  proof (cases "current_batch = []")
    case True
    with Nil show ?thesis by auto
  next
    case False
    from sealed_batch [OF False assms(1), where L = L and max_tokens = max_tokens
        and n = "length batches"] Nil
    show ?thesis by (auto simp: False sealed_def)
  qed
next
  case (Cons row remaining)
  from Cons.prems(3) obtain rt where rt: "row_tokens L row = Inr rt"
    by (cases "row_tokens L row") auto
  show ?case
  proof (cases "int (tokens + rt) > max_tokens \<and> current_batch \<noteq> []")
    case True
    then have ne: "current_batch \<noteq> []" by simp
    let ?b = "normalize_data L max_tokens (batch_data current_batch cols (length batches))"
    from sealed_batch [OF ne assms(1), where L = L and max_tokens = max_tokens
        and n = "length batches"] Cons.prems(1)
    have b: "row_weight (Created, ?b) = int (length current_batch)" "sealed (\<forall>d. \<exists>t. summary_tokens L d = Inr t) ?b"
      by (simp_all add: sealed_def)
    have 1: "\<forall>r \<in> set remaining \<union> set [row]. map fst r = cols"
      using Cons.prems(1) by auto
    have 2: "list_all (sealed (\<forall>d. \<exists>t. summary_tokens L d = Inr t)) (batches @ [?b])"
      using Cons.prems(2) b(2) by simp
    have 3: "token_limit_loop L max_tokens cols remaining (batches @ [?b]) [row] rt
        = Inr result"
      using Cons.prems(3) rt True by simp
    from Cons.IH [OF 1 2 3] b(1) show ?thesis by simp
  next
    case False
    have 1: "\<forall>r \<in> set remaining \<union> set (current_batch @ [row]). map fst r = cols"
      using Cons.prems(1) by auto
    have 3: "token_limit_loop L max_tokens cols remaining batches (current_batch @ [row])
        (tokens + rt) = Inr result"
      using Cons.prems(3) rt False by auto
    from Cons.IH [OF 1 Cons.prems(2) 3]
    show ?thesis by auto
  qed
qed

lemma token_limit_loop_raises:
  assumes "\<forall>d. \<exists>t. summary_tokens L d = Inr t"
  shows "\<exists>result. token_limit_loop L max_tokens cols remaining batches current_batch tokens
           = Inr result"
proof (induction remaining arbitrary: batches current_batch tokens)
  case Nil
  show ?case by simp
next
  case (Cons row remaining)
  from assms obtain rt where "row_tokens L row = Inr rt"
    unfolding row_tokens_def summary_tokens_def by blast
  with Cons.IH show ?case
    by simp
qed

lemma record_frame_split:
  assumes "data_rows data = Some (PList (map PDict records))"
    and "union_keys records \<noteq> []"
  shows "consolidate_data_by_token_limit L max_tokens data =
     (case token_limit_loop L max_tokens (union_keys records)
             (map (fill_row (union_keys records)) records) [] [] 0 of
        Inl e \<Rightarrow> [(Original, data)]
      | Inr batches \<Rightarrow> map (Pair Created) batches)"
proof -
  from assms(1) have "records \<noteq> []"
    by (auto simp: data_rows_def split: option.splits if_splits)
  with assms(2) have "\<not> df_empty (frame_of_records records)"
    by (simp add: df_empty_def frame_of_records_def)
  then show ?thesis
    by (simp add: consolidate_data_by_token_limit_def assms(1) DataFrame_def
        frame_of_records_def)
qed

lemma row_weight_dataset:
  assumes "data_rows data = Some (PList (map PDict records))"
  shows "row_weight (x, data) = int (length records)"
  using assms
  by (auto simp: row_weight_def data_rows_def has_key_get batch_rows_def
      split: option.splits if_splits)

lemma token_limit_split_counts:
  assumes "data_rows data = Some (PList (map PDict records))"
    and "union_keys records \<noteq> []"
  shows "(\<Sum>b\<leftarrow>consolidate_data_by_token_limit L max_tokens data. row_weight b)
           = int (length records)"
    and "consolidate_data_by_token_limit L max_tokens data = [(Original, data)] \<or>
         list_all (\<lambda>b. fst b = Created \<and> sealed (\<forall>d. \<exists>t. summary_tokens L d = Inr t) (snd b))
           (consolidate_data_by_token_limit L max_tokens data)"
    and "\<forall>d. \<exists>t. summary_tokens L d = Inr t \<Longrightarrow>
         list_all (\<lambda>b. fst b = Created \<and> sealed (\<forall>d. \<exists>t. summary_tokens L d = Inr t) (snd b))
           (consolidate_data_by_token_limit L max_tokens data)"
proof -
  let ?cols = "union_keys records"
  let ?rows = "map (fill_row ?cols) records"
  let ?loop = "token_limit_loop L max_tokens ?cols ?rows [] [] 0"
  have r: "\<forall>r \<in> set ?rows \<union> set []. map fst r = ?cols"
    by simp
  have c: "(\<Sum>b\<leftarrow>result. row_weight (Created, b)) = int (length records) \<and>
      list_all (sealed (\<forall>d. \<exists>t. summary_tokens L d = Inr t)) result" if "?loop = Inr result" for result
    using token_limit_loop_counts [OF assms(2) r _ that] by simp
  show "(\<Sum>b\<leftarrow>consolidate_data_by_token_limit L max_tokens data. row_weight b)
           = int (length records)"
    unfolding record_frame_split [OF assms]
    using c row_weight_dataset [OF assms(1)]
    by (cases ?loop) (simp_all add: comp_def)
  show d: "consolidate_data_by_token_limit L max_tokens data = [(Original, data)] \<or>
         list_all (\<lambda>b. fst b = Created \<and> sealed (\<forall>d. \<exists>t. summary_tokens L d = Inr t) (snd b))
           (consolidate_data_by_token_limit L max_tokens data)"
    unfolding record_frame_split [OF assms]
    using c by (cases ?loop) (simp_all add: list_all_iff)
  show "list_all (\<lambda>b. fst b = Created \<and> sealed (\<forall>d. \<exists>t. summary_tokens L d = Inr t) (snd b))
           (consolidate_data_by_token_limit L max_tokens data)"
    if "\<forall>d. \<exists>t. summary_tokens L d = Inr t"
    unfolding record_frame_split [OF assms]
    using c token_limit_loop_raises [OF that, of max_tokens ?cols ?rows "[]" "[]" 0]
    by (auto simp: list_all_iff)
qed

lemma is_merged_mark: "is_merged (mark_merged b c i sz n)"
  by (simp add: is_merged_def mark_merged_def has_key_get dict_get_set)

lemma merge_loop_all_merged:
  "list_all is_merged merged \<Longrightarrow> list_all is_merged (merge_loop batches sz i merged)"
proof (induction batches sz i merged rule: merge_loop.induct)
  case (1 batches sz i merged)
  show ?case
  proof (cases "i < length batches \<and> 0 < sz")
    case True
    with "1.IH" [OF True] "1.prems" show ?thesis
      by (subst merge_loop.simps) (simp add: is_merged_mark)
  next
    case False
    with "1.prems" show ?thesis
      by (subst merge_loop.simps) auto
  qed
qed

lemma ceil_div_step:
  fixes sz d :: nat
  assumes "0 < sz" and "0 < d"
  shows "(d + sz - 1) div sz = 1 + (d - sz + sz - 1) div sz"
proof -
  have l: "d + sz - 1 = (d - 1) + sz"
    using assms by simp
  have lhs: "(d + sz - 1) div sz = (d - 1) div sz + 1"
    unfolding l using assms(1) by simp
  show ?thesis
  proof (cases "sz \<le> d")
    case True
    then have "d - sz + sz - 1 = d - 1" by simp
    with lhs show ?thesis by simp
  next
    case False
    then have "d - sz + sz - 1 = sz - 1" "(d - 1) div sz = 0"
      using assms by simp_all
    moreover have "(sz - 1) div sz = 0"
      using assms(1) by simp
    ultimately show ?thesis
      using lhs by simp
  qed
qed

lemma merge_loop_length:
  "0 < sz \<Longrightarrow>
   length (merge_loop batches sz i merged)
     = length merged + (length batches - i + sz - 1) div sz"
proof (induction batches sz i merged rule: merge_loop.induct)
  case (1 batches sz i merged)
  show ?case
  proof (cases "i < length batches")
    case True
    have step: "merge_loop batches sz i merged =
        merge_loop batches sz (i + sz)
          (merged @ [mark_merged (batches ! i) (length merged) i sz (length batches)])"
      using True "1.prems" by (subst merge_loop.simps) simp
    have ih: "length (merge_loop batches sz (i + sz)
          (merged @ [mark_merged (batches ! i) (length merged) i sz (length batches)]))
        = length merged + 1 + (length batches - (i + sz) + sz - 1) div sz"
      using "1.IH" True "1.prems" by simp
    have "length batches - (i + sz) = (length batches - i) - sz"
      by simp
    moreover have "0 < length batches - i"
      using True by simp
    ultimately have "(length batches - i + sz - 1) div sz
        = 1 + (length batches - (i + sz) + sz - 1) div sz"
      using ceil_div_step [OF "1.prems", of "length batches - i"] by simp
    with step ih show ?thesis by simp
  next
    case False
    then show ?thesis
      using "1.prems" by (subst merge_loop.simps) auto
  qed
qed


section \<open>Row counts, and the number of batches\<close>

lemma consolidate_data_records:
  assumes "data_rows data = Some (PList (map PDict records))"
    and "union_keys records \<noteq> []"
    and "int (length records) > max_api_calls"
  shows "consolidate_data L max_api_calls max_tokens data =
     (if int (length (consolidate_data_by_token_limit L max_tokens data)) > max_api_calls then
        (if max_api_calls = 0 then [(Original, data)]
         else merge_loop (consolidate_data_by_token_limit L max_tokens data)
                (nat (max 1 (int (length (consolidate_data_by_token_limit L max_tokens data))
                               div max_api_calls))) 0 [])
      else consolidate_data_by_token_limit L max_tokens data)"
proof -
  from assms(1) have "records \<noteq> []"
    by (auto simp: data_rows_def split: option.splits if_splits)
  with assms(2) have "\<not> df_empty (frame_of_records records)"
    by (simp add: df_empty_def frame_of_records_def)
  moreover have "df_len (frame_of_records records) = length records"
    by (simp add: df_len_def frame_of_records_def)
  ultimately show ?thesis
    using assms(3)
    by (simp add: consolidate_data_def assms(1) DataFrame_def Let_def)
qed

lemma five_rows_frame:
  "data_rows five_rows = Some (PList (map PDict five_records))"
  "union_keys five_records = [ascii ''x'']"
  "map (fill_row [ascii ''x'']) five_records = five_records"
  by (simp_all add: data_rows_def five_rows_def dict_get_Cons five_records_def union_keys_def
      fill_row_def)

lemma wide_row_tokens [simp]: "row_tokens wide_lib r = Inr 4000"
  by (simp add: row_tokens_def count_tokens_def wide_lib_def)

lemma plain_row_tokens [simp]: "row_tokens plain_lib r = Inr 2"
  by (simp add: row_tokens_def count_tokens_def ascii_def)

lemma refusing_row_tokens [simp]:
  "row_tokens refusing_lib r = Inl (ValueError (ascii ''special token''))"
  by (simp add: row_tokens_def count_tokens_def ascii_def)

lemma picky_lib_simps [simp]:
  "encode picky_lib = (\<lambda>text. Inr text)"
  "dumps picky_lib = (\<lambda>ensure_ascii indent v.
        case v of
          PDict d \<Rightarrow> if has_key d (ascii ''rows_count'') then Inl TypeError
                     else Inr (ascii ''{}'')
        | _ \<Rightarrow> Inr (ascii ''{}''))"
  by (simp_all add: picky_lib_def)

lemma five_rows_refused:
  "consolidate_data_by_token_limit refusing_lib 3000 five_rows = [(Original, five_rows)]"
  using five_rows_frame
  by (simp add: record_frame_split [of five_rows five_records])
     (simp add: five_records_def)

lemma five_rows_raw_batch:
  "consolidate_data_by_token_limit picky_lib 3000 five_rows =
     [(Created, batch_data five_records [ascii ''x''] 0)]"
proof -
  let ?b = "batch_data five_records [ascii ''x''] 0"
  have t: "row_tokens picky_lib r = Inr 2" if "r \<in> set five_records" for r
    using that
    by (auto simp: row_tokens_def count_tokens_def ascii_def five_records_def has_key_get
        dict_get_Cons dict_get_Nil)
  have l: "token_limit_loop picky_lib 3000 [ascii ''x''] five_records [] [] 0
      = Inr [normalize_data picky_lib 3000 ?b]"
    by (simp add: five_records_def row_tokens_def count_tokens_def has_key_get
        dict_get_Cons dict_get_Nil)
       (simp add: ascii_def)
  have s: "summarize_data picky_lib ?b \<noteq> []"
    by (simp add: summarize_data_def data_rows_def batch_data_def dict_get_Cons DataFrame_def
        df_empty_def frame_of_records_def summary_of_nonempty)
       (simp add: five_records_def union_keys_def)
  have "\<exists>cols. dict_get (summarize_data picky_lib ?b) (ascii ''rows_count'') = Some cols"
    using s summarize_data_cases [of picky_lib ?b] summary_of_entries(1)
    by auto
  then have "reduce_summary picky_lib 3000 (summarize_data picky_lib ?b) = Inl TypeError"
    by (auto simp: reduce_summary_def summary_tokens_def has_key_get)
  with s have "normalize_data picky_lib 3000 ?b = ?b"
    by (simp add: normalize_data_def)
  with l five_rows_frame show ?thesis
    by (simp add: record_frame_split [of five_rows five_records])
qed


lemma five_rows_one_batch:
  "length (consolidate_data_by_token_limit plain_lib 3000 five_rows) = 1"
  using five_rows_frame
  by (simp add: record_frame_split [of five_rows five_records])
     (simp add: five_records_def)

lemma five_rows_five_batches:
  "length (consolidate_data_by_token_limit wide_lib 3000 five_rows) = 5"
  using five_rows_frame
  by (simp add: record_frame_split [of five_rows five_records])
     (simp add: five_records_def)


lemma split_nonempty:
  assumes "data_rows data = Some (PList (map PDict records))"
    and "union_keys records \<noteq> []"
  shows "consolidate_data_by_token_limit L max_tokens data \<noteq> []"
proof
  assume "consolidate_data_by_token_limit L max_tokens data = []"
  with token_limit_split_counts(1) [OF assms, of L max_tokens] have "records = []"
    by simp
  with assms(2) show False
    by (simp add: union_keys_def)
qed

lemma sealed_plain:
  assumes "\<forall>d. \<exists>t. summary_tokens L d = Inr t" and "sealed (\<forall>d. \<exists>t. summary_tokens L d = Inr t) (snd b)"
  shows "\<not> has_key (snd b) (ascii ''data'') \<and> batch_rows (snd b) = [] \<and> \<not> is_merged b \<and>
     row_weight b = rows_count_of (snd b)"
  using assms
  by (simp add: sealed_def batch_rows_def has_key_get is_merged_def row_weight_def)

lemma split_batches_plain:
  assumes "data_rows data = Some (PList (map PDict records))"
    and "union_keys records \<noteq> []"
    and "\<forall>d. \<exists>t. summary_tokens L d = Inr t"
  shows "list_all (\<lambda>b. fst b = Created \<and> \<not> has_key (snd b) (ascii ''data'') \<and>
                     batch_rows (snd b) = [] \<and> \<not> is_merged b)
           (consolidate_data_by_token_limit L max_tokens data)"
    and "(\<Sum>b\<leftarrow>consolidate_data_by_token_limit L max_tokens data. rows_count_of (snd b))
           = int (length records)"
proof -
  let ?split = "consolidate_data_by_token_limit L max_tokens data"
  note s = token_limit_split_counts(3) [OF assms, of max_tokens]
  from s show "list_all (\<lambda>b. fst b = Created \<and> \<not> has_key (snd b) (ascii ''data'') \<and>
                     batch_rows (snd b) = [] \<and> \<not> is_merged b) ?split"
    using sealed_plain [OF assms(3)] by (simp add: list_all_iff)
  from s have "\<forall>b \<in> set ?split. row_weight b = rows_count_of (snd b)"
    using sealed_plain [OF assms(3)] by (simp add: list_all_iff)
  then have "(\<Sum>b\<leftarrow>?split. rows_count_of (snd b)) = (\<Sum>b\<leftarrow>?split. row_weight b)"
    by (intro arg_cong [where f = sum_list] map_cong) simp_all
  with token_limit_split_counts(1) [OF assms(1,2), of L max_tokens]
  show "(\<Sum>b\<leftarrow>?split. rows_count_of (snd b)) = int (length records)"
    by simp
qed

lemma split_batches_created:
  assumes "data_rows data = Some (PList (map PDict records))"
    and "union_keys records \<noteq> []"
  shows "consolidate_data_by_token_limit L max_tokens data = [(Original, data)] \<or>
     list_all (\<lambda>b. fst b = Created \<and> \<not> is_merged b)
       (consolidate_data_by_token_limit L max_tokens data)"
  using token_limit_split_counts(2) [OF assms, of L max_tokens]
  by (auto simp: list_all_iff sealed_def is_merged_def has_key_get)




text \<open>
  Claim C4 says that \<open>consolidate_data\<close> returns at most \<open>max_api_calls\<close> batches. The merge
  takes groups of \<open>max 1 (n div max_api_calls)\<close> batches, which leaves
  \<open>n\<close> divided by that size, rounded up, batches (\<open>merge_loop_length\<close>). With the
  defaults \<open>max_api_calls = 3\<close> and 3000 tokens for a batch, five rows of 4000 tokens each
  are split into five batches; the group size is 1 and five batches are returned, each
  recording \<open>merged_from\<close>.
\<close>

theorem consolidate_exceeds_max_api_calls:
  "length (consolidate_data_by_token_limit wide_lib 3000 five_rows) = 5 \<and>
   length (consolidate_data wide_lib 3 3000 five_rows) = 5 \<and>
   list_all is_merged (consolidate_data wide_lib 3 3000 five_rows)"
proof -
  have h1: "data_rows five_rows = Some (PList (map PDict five_records))"
    by (rule five_rows_frame)
  have h2: "union_keys five_records \<noteq> []"
    by (simp add: five_rows_frame)
  have h3: "int (length five_records) > 3"
    by (simp add: five_records_def)
  have c: "consolidate_data wide_lib 3 3000 five_rows
      = merge_loop (consolidate_data_by_token_limit wide_lib 3000 five_rows) 1 0 []"
    using consolidate_data_records [OF h1 h2 h3, of wide_lib 3000] five_rows_five_batches
    by simp
  have "list_all is_merged (merge_loop (consolidate_data_by_token_limit wide_lib 3000 five_rows) 1 0 [])"
    by (rule merge_loop_all_merged) simp
  with c five_rows_five_batches
    merge_loop_length [of 1 "consolidate_data_by_token_limit wide_lib 3000 five_rows" 0 "[]"]
  show ?thesis
    by simp
qed


section \<open>The repair of responses\<close>

lemma has_key_set: "has_key (dict_set d k v) k' \<longleftrightarrow> k' = k \<or> has_key d k'"
  by (simp add: has_key_get dict_get_set)

lemma has_key_set_in: "has_key (set_in r k1 k2 v) k \<longleftrightarrow> has_key r k"
  by (cases "k = k1")
     (auto simp: set_in_def has_key_get dict_get_set split: option.splits pyval.splits)

lemma has_key_set_in3: "has_key (set_in3 r k1 k2 k3 v) k \<longleftrightarrow> has_key r k"
  by (cases "k = k1")
     (auto simp: set_in3_def has_key_get dict_get_set split: option.splits pyval.splits)

lemma has_key_with_title: "has_key r k \<Longrightarrow> has_key (with_title L raw r) k"
  by (simp add: with_title_def has_key_set split: option.splits)

lemma has_key_with_summary: "has_key r k \<Longrightarrow> has_key (with_summary L raw r) k"
  by (simp add: with_summary_def has_key_set split: option.splits)

lemma has_key_with_period: "has_key r k \<Longrightarrow> has_key (with_period L raw r) k"
  by (simp add: with_period_def has_key_set_in Let_def split: option.splits)

lemma has_key_with_factors: "has_key r k \<Longrightarrow> has_key (with_factors L raw r) k"
  by (simp add: with_factors_def has_key_set_in Let_def split: option.splits)

lemma has_key_with_tasks: "has_key r k \<Longrightarrow> has_key (with_tasks L p key raw r) k"
  by (simp add: with_tasks_def has_key_set split: option.splits)

lemma store_floats_result:
  "store_floats L field matches r = Inr r' \<Longrightarrow> has_key r k \<Longrightarrow> has_key r' k"
  "store_floats L field matches r = Inl e \<Longrightarrow> \<exists>msg. e = ValueError msg"
proof (induction matches arbitrary: r)
  case Nil
  { case 1 then show ?case by simp }
  { case 2 then show ?case by simp }
next
  case (Cons m matches)
  { case 1
    obtain metric v where m: "m = (metric, v)" by (cases m)
    from 1 Cons.IH(1) show ?case
      by (auto simp: m has_key_set_in3 split: sum.splits) }
  { case 2
    obtain metric v where m: "m = (metric, v)" by (cases m)
    from 2 Cons.IH(2) show ?case
      by (auto simp: m split: sum.splits) }
qed

lemma with_key_metrics_change_result:
  "with_key_metrics_change L t r = Inr r' \<Longrightarrow> has_key r k \<Longrightarrow> has_key r' k"
  "with_key_metrics_change L t r = Inl e \<Longrightarrow> \<exists>msg. e = ValueError msg"
  by (auto simp: with_key_metrics_change_def has_key_set_in split: option.splits sum.splits)

lemma with_dynamics_result:
  "with_dynamics L raw r = Inr r' \<Longrightarrow> has_key r k \<Longrightarrow> has_key r' k"
  "with_dynamics L raw r = Inl e \<Longrightarrow>
     (\<exists>msg. e = ValueError msg) \<and> re_search L DynamicsSection raw \<noteq> None"
  by (auto simp: with_dynamics_def Let_def split: option.splits sum.splits
      dest: store_floats_result with_key_metrics_change_result)

lemma base_response_keys:
  "has_key (base_response cd raw err) (ascii ''title'')"
  "has_key (base_response cd raw err) (ascii ''summary'')"
  by (simp_all add: base_response_def Let_def has_key_set, simp_all add: has_key_def)

lemma create_fallback_response_result:
  "case create_fallback_response L cd raw err of
     Inr response \<Rightarrow> has_key response (ascii ''title'') \<and> has_key response (ascii ''summary'')
   | Inl e \<Rightarrow> (\<exists>msg. e = ValueError msg) \<and> raw \<noteq> [] \<and> re_search L DynamicsSection raw \<noteq> None"
proof (cases "raw = []")
  case True
  then show ?thesis
    by (simp add: create_fallback_response_def base_response_keys)
next
  case False
  let ?r = "with_period L raw (with_summary L raw (with_title L raw (base_response cd raw err)))"
  have k: "has_key ?r (ascii ''title'')" "has_key ?r (ascii ''summary'')"
    by (simp_all add: has_key_with_period has_key_with_summary has_key_with_title
        base_response_keys)
  show ?thesis
  proof (cases "with_dynamics L raw ?r")
    case (Inl e)
    with with_dynamics_result(2) [OF Inl] False show ?thesis
      by (simp add: create_fallback_response_def Let_def)
  next
    case (Inr r')
    from with_dynamics_result(1) [OF Inr] k
    have "has_key r' (ascii ''title'')" "has_key r' (ascii ''summary'')"
      by simp_all
    with Inr False show ?thesis
      by (simp add: create_fallback_response_def Let_def has_key_with_tasks
          has_key_with_factors)
  qed
qed

lemma fix_single_quoted: "fix_json_string quoting_lib single_quoted = double_quoted"
proof -
  have r: "re_sub quoting_lib = (\<lambda>p text. text)"
    by (simp add: quoting_lib_def)
  have 1: "str_replace [squote] [dquote] single_quoted = double_quoted"
    by (simp add: str_replace.simps single_quoted_def double_quoted_def squote_def dquote_def)
  have 2: "str_replace [backslash] new double_quoted = double_quoted" for new
    by (simp add: str_replace.simps double_quoted_def backslash_def)
  have 3: "str_replace [backslash, c] new double_quoted = double_quoted" for c new
    by (simp add: str_replace.simps double_quoted_def backslash_def)
  have 4: "str_replace [backslash, backslash, backslash, backslash] new double_quoted
      = double_quoted" for new
    by (simp add: str_replace.simps double_quoted_def backslash_def)
  have "single_quoted \<noteq> []"
    by (simp add: single_quoted_def)
  then show ?thesis
    by (simp add: fix_json_string_def r 1 2 3 4 Let_def)
qed

lemma quoting_loads:
  "loads quoting_lib double_quoted = Inr (PDict [(ascii ''a'', PInt 1)])"
  "loads quoting_lib single_quoted = Inl (JSONDecodeError (ascii ''Expecting value''))"
  "loads quoting_lib (ascii ''prose'') = Inl (JSONDecodeError (ascii ''Expecting value''))"
  "loads quoting_lib (replicate 1000 91)
     = Inl (RecursionError (ascii ''maximum recursion depth exceeded''))"
proof -
  show "loads quoting_lib double_quoted = Inr (PDict [(ascii ''a'', PInt 1)])"
    by (simp add: quoting_lib_def)
  show "loads quoting_lib single_quoted = Inl (JSONDecodeError (ascii ''Expecting value''))"
    by (simp add: quoting_lib_def single_quoted_def double_quoted_def)
  show "loads quoting_lib (ascii ''prose'') = Inl (JSONDecodeError (ascii ''Expecting value''))"
    by (simp add: quoting_lib_def double_quoted_def ascii_def)
  have "replicate 1000 (91 :: nat) \<noteq> double_quoted"
  proof
    assume "replicate 1000 (91 :: nat) = double_quoted"
    then have "length (replicate 1000 (91 :: nat)) = length double_quoted"
      by simp
    then show False
      by (simp add: double_quoted_def)
  qed
  then show "loads quoting_lib (replicate 1000 91)
     = Inl (RecursionError (ascii ''maximum recursion depth exceeded''))"
    by (simp add: quoting_lib_def)
qed




text \<open>
  The exception does occur: on the prose of \<open>dotted_text\<close> the dynamics section is found,
  its mean line carries the number \<^verbatim>\<open>.\<close>, and \<^verbatim>\<open>float\<close> raises.
\<close>

lemma fallback_value_error:
  "create_fallback_response dotted_lib current_date dotted_text error_message
     = Inl (ValueError (ascii ''could not convert string to float''))"
proof -
  have s: "strip (drop 9 dotted_text) = drop 10 dotted_text"
    by (simp add: strip_def dotted_text_def is_whitespace_def)
  have r: "re_search dotted_lib p dotted_text
      = (if p = DynamicsSection then Some (drop 9 dotted_text) else None)" for p
    by (simp add: dotted_lib_def)
  have t: "with_title dotted_lib dotted_text x = x"
    "with_summary dotted_lib dotted_text x = x"
    "with_period dotted_lib dotted_text x = x" for x
    by (simp_all add: with_title_def with_summary_def with_period_def r)
  have "with_dynamics dotted_lib dotted_text x
      = Inl (ValueError (ascii ''could not convert string to float''))" for x
    by (simp add: with_dynamics_def r s Let_def) (simp add: dotted_lib_def)
  then show ?thesis
    by (simp add: create_fallback_response_def Let_def t) (simp add: dotted_text_def)
qed

section \<open>Degradation to the default response\<close>

lemma default_retry_all_fail:
  assumes "\<forall>n. \<exists>e. func n = Inl e \<and> is_Exception e"
  shows "\<exists>e slept'. default_retry func calls slept = (Inl e, calls + 4, slept') \<and> is_Exception e"
proof -
  have "(0::int) \<le> 3" by simp
  from retry_loop_all_fail [OF this, of func calls 2 1 None slept] assms
  obtain e slept' where
    "retry_loop 3 2 func 0 1 None calls slept = (Inl e, calls + 4, slept')"
    "func (calls + 3) = Inl e"
    by auto
  moreover from assms obtain e' where "func (calls + 3) = Inl e'" "is_Exception e'"
    by blast
  ultimately show ?thesis
    by (auto simp: default_retry_def execute_with_retry_def)
qed

lemma guarded_call_all_fail:
  assumes "\<forall>n req. \<exists>e. api n req = Inl e \<and> is_Exception e"
  shows "\<exists>slept'. guarded_call api req calls slept = (Inr (False, None), calls + 12, slept')"
proof -
  let ?g = "\<lambda>c s. default_retry (\<lambda>n. api n req) c s"
  have f: "\<forall>n. \<exists>e. (\<lambda>n. api n req) n = Inl e \<and> is_Exception e"
    using assms by simp
  from default_retry_all_fail [OF f, of calls slept]
  obtain e1 s1 where r1: "?g calls slept = (Inl e1, calls + 4, s1)" "is_Exception e1"
    by blast
  from default_retry_all_fail [OF f, of "calls + 4" "s1 @ [2]"]
  obtain e2 s2 where r2: "?g (calls + 4) (s1 @ [2]) = (Inl e2, calls + 8, s2)" "is_Exception e2"
    by auto
  from default_retry_all_fail [OF f, of "calls + 8" "s2 @ [2]"]
  obtain e3 s3 where r3: "?g (calls + 8) (s2 @ [2]) = (Inl e3, calls + 12, s3)" "is_Exception e3"
    by auto
  have "guard_loop 3 2 ?g 2 (calls + 8) (s2 @ [2]) = (Inr (False, None), calls + 12, s3)"
    by (subst guard_loop.simps) (simp add: r3)
  then have "guard_loop 3 2 ?g 1 (calls + 4) (s1 @ [2]) = (Inr (False, None), calls + 12, s3)"
    by (subst guard_loop.simps) (simp add: r2)
  then have "guard_loop 3 2 ?g 0 calls slept = (Inr (False, None), calls + 12, s3)"
    by (subst guard_loop.simps) (simp add: r1)
  then show ?thesis
    by (simp add: guarded_call_def default_guard_def handle_empty_response_def)
qed

lemma call_and_parse_all_fail:
  assumes "\<forall>n req. \<exists>e. api n req = Inl e \<and> is_Exception e"
  shows "\<exists>slept'. call_and_parse L api current_date req analysis_type calls slept
      = (Inr (PDict (generate_default_response current_date analysis_type)), calls + 12, slept')"
proof -
  from guarded_call_all_fail [OF assms, of req calls slept]
  obtain slept' where "guarded_call api req calls slept = (Inr (False, None), calls + 12, slept')"
    by blast
  then show ?thesis
    by (simp add: call_and_parse_def)
qed

lemma shrink_batch_key_metrics:
  "dict_get (foldl (\<lambda>b field. if has_key b field then dict_del b field else b)
       (if has_key batch (ascii ''data'') then dict_del batch (ascii ''data'') else batch)
       [ascii ''time_series'', ascii ''categorical_data'']) (ascii ''key_metrics'')
   = dict_get batch (ascii ''key_metrics'')"
  by (simp add: dict_get_del)

lemma shrink_batch_ok:
  assumes "metrics_well_formed batch"
  shows "fst (shrink_batch L batch) = None"
proof (cases "dict_get batch (ascii ''key_metrics'')")
  case None
  then show ?thesis
    unfolding shrink_batch_def Let_def shrink_batch_key_metrics by simp
next
  case (Some v)
  with assms obtain items where v: "v = PDict items"
    and wf: "list_all (\<lambda>(k, v). abs_change v \<noteq> None) items"
    by (auto simp: metrics_well_formed_def split: pyval.splits)
  from wf obtain sorted_metrics where "sorted_by_abs_change L items = Some sorted_metrics"
    by (auto simp: sorted_by_abs_change_def)
  with Some v show ?thesis
    unfolding shrink_batch_def Let_def shrink_batch_key_metrics by simp
qed

lemma count_tokens_total:
  assumes "\<forall>text. \<exists>tokens. encode L text = Inr tokens"
  shows "\<exists>n. count_tokens L text = Inr n"
proof -
  from assms obtain tokens where "encode L text = Inr tokens"
    by blast
  then show ?thesis
    by (simp add: count_tokens_def)
qed

lemma count_message_tokens_total:
  assumes "\<forall>text. \<exists>tokens. encode L text = Inr tokens"
  shows "\<exists>n. count_message_tokens L message acc = Inr n"
proof (induction message arbitrary: acc)
  case Nil
  show ?case by simp
next
  case (Cons item message)
  obtain key v where i: "item = (key, v)" by (cases item)
  show ?case
  proof (cases v)
    case None
    with Cons.IH i show ?thesis by simp
  next
    case (Some s)
    from count_tokens_total [OF assms, of s] obtain n where "count_tokens L s = Inr n"
      by blast
    with Cons.IH i Some show ?thesis by simp
  qed
qed

lemma count_messages_loop_total:
  assumes "\<forall>text. \<exists>tokens. encode L text = Inr tokens"
  shows "\<exists>n. count_messages_loop L messages acc = Inr n"
proof (induction messages arbitrary: acc)
  case Nil
  show ?case by simp
next
  case (Cons message messages)
  from count_message_tokens_total [OF assms, of message "acc + 4"]
  obtain n where "count_message_tokens L message (acc + 4) = Inr n"
    by blast
  with Cons.IH show ?case by simp
qed

lemma counted_messages_total:
  assumes "\<forall>text. \<exists>tokens. encode L text = Inr tokens"
    and "\<forall>ensure_ascii indent v. \<exists>text. dumps L ensure_ascii indent v = Inr text"
  shows "\<exists>messages tokens.
     counted_messages L variant system_prompt marketplace analysis_type batch
       = Inr (messages, tokens)"
proof -
  from assms(2) obtain batch_json where
    "dumps L False (Some 2) (PDict batch) = Inr batch_json"
    by blast
  then obtain user_prompt where
    p: "batch_prompt L variant marketplace analysis_type batch = Inr user_prompt"
    by (simp add: batch_prompt_def)
  from count_messages_loop_total [OF assms(1), of "make_messages system_prompt user_prompt" 0]
  obtain n where "count_messages_loop L (make_messages system_prompt user_prompt) 0 = Inr n"
    by blast
  with p show ?thesis
    by (simp add: counted_messages_def count_messages_tokens_def)
qed

lemma prepare_batch_total:
  assumes "\<forall>text. \<exists>tokens. encode L text = Inr tokens"
    and "\<forall>ensure_ascii indent v. \<exists>text. dumps L ensure_ascii indent v = Inr text"
    and "metrics_well_formed batch"
  shows "\<exists>messages batch'.
     prepare_batch L batch system_prompt marketplace analysis_type = (Inr messages, batch')"
proof -
  from counted_messages_total [OF assms(1,2)] obtain messages tokens where
    1: "counted_messages L False system_prompt marketplace analysis_type batch
          = Inr (messages, tokens)"
    by blast
  obtain e batch' where s: "shrink_batch L batch = (e, batch')"
    by (cases "shrink_batch L batch")
  with shrink_batch_ok [OF assms(3), of L] have e: "e = None" by simp
  from counted_messages_total [OF assms(1,2)] obtain messages' tokens' where
    2: "counted_messages L True system_prompt marketplace analysis_type batch'
          = Inr (messages', tokens')"
    by blast
  show ?thesis
    by (simp add: prepare_batch_def 1 2 s e)
qed

lemma identity_tokens:
  assumes "encode L = (\<lambda>text. Inr text)"
  shows "count_messages_tokens L (make_messages system_prompt user_prompt)
     = Inr (length system_prompt + length user_prompt + 20)"
proof -
  have "count_tokens L s = Inr (length s)" for s
    by (simp add: count_tokens_def assms)
  then show ?thesis
    by (simp add: count_messages_tokens_def make_messages_def)
       (simp add: ascii_def)
qed

lemma wide_prepare:
  "prepare_batch wide_lib batch system_prompt marketplace analysis_type =
     (case shrink_batch wide_lib batch of
        (Some e, batch') \<Rightarrow> (Inl e, batch')
      | (None, batch') \<Rightarrow>
          (Inr (make_messages system_prompt
                  (prompt_summary_intro @ marketplace_name marketplace @ prompt_analysis_type
                   @ analysis_type @ prompt_summary_block @ replicate 4000 120
                   @ prompt_summary_ask @ prompt_result_fields)),
           batch'))"
proof -
  have e: "encode wide_lib = (\<lambda>text. Inr text)"
    by (simp add: wide_lib_def)
  have d: "dumps wide_lib = (\<lambda>ensure_ascii indent v. Inr (replicate 4000 120))"
    by (simp add: wide_lib_def)
  show ?thesis
    by (simp add: prepare_batch_def counted_messages_def batch_prompt_def d
        identity_tokens [OF e] split: prod.splits option.splits)
qed

lemma plain_prepare:
  "length system_prompt + length (marketplace_name marketplace) + length analysis_type \<le> 100
   \<Longrightarrow> prepare_batch plain_lib batch system_prompt marketplace analysis_type =
     (Inr (make_messages system_prompt
             (prompt_data_intro @ marketplace_name marketplace @ prompt_analysis_type
              @ analysis_type @ prompt_data_block @ ascii ''{}''
              @ prompt_data_ask @ prompt_result_fields)),
      batch)"
proof -
  assume a: "length system_prompt + length (marketplace_name marketplace)
      + length analysis_type \<le> 100"
  have e: "encode plain_lib = (\<lambda>text. Inr text)"
    by simp
  have l: "length prompt_data_intro + length prompt_analysis_type + length prompt_data_block
      + length prompt_data_ask + length prompt_result_fields \<le> 3000"
    by (simp add: prompt_data_intro_def prompt_analysis_type_def prompt_data_block_def
        prompt_data_ask_def prompt_result_fields_def)
  show ?thesis
    using a l
    by (simp add: prepare_batch_def counted_messages_def batch_prompt_def
        identity_tokens [OF e] ascii_def)
qed

lemma metrics_batch_shrunk:
  "shrink_batch wide_lib metrics_batch =
     (None, [(ascii ''key_metrics'', PDict
         [(ascii ''d'', metric_with_change 4), (ascii ''c'', metric_with_change 3),
          (ascii ''b'', metric_with_change 2)])])"
proof -
  have s: "sorted_reverse wide_lib = stable_descending"
    by (simp add: wide_lib_def)
  have a: "ascii ''a'' \<noteq> ascii ''b''" "ascii ''data'' \<noteq> ascii ''key_metrics''"
    "ascii ''key_metrics'' \<noteq> ascii ''data''"
    "ascii ''time_series'' \<noteq> ascii ''key_metrics''"
    "ascii ''categorical_data'' \<noteq> ascii ''key_metrics''"
    by (simp_all add: ascii_def)
  show ?thesis
    by (simp add: shrink_batch_def metrics_batch_def has_key_get dict_get_Cons dict_get_Nil
        dict_del_def dict_set_def Let_def a sorted_by_abs_change_def s stable_descending_def
        metric_with_change_def AList.delete_eq AList.update.simps)
qed





section \<open>The caller's dataset\<close>

lemma analyze_batch_leaves:
  "fst (snd (analyze_batch L api current_date batch system_prompt marketplace analysis_type
       calls slept))
   = snd (prepare_batch L batch system_prompt marketplace analysis_type)"
  by (simp add: analyze_batch_def split: prod.splits sum.splits)

lemma analyze_batches_single:
  "fst (snd (analyze_batches L api current_date system_prompt marketplace analysis_type
       [(Original, b)] dataset results calls slept))
   = fst (snd (analyze_batch L api current_date dataset system_prompt marketplace
       analysis_type calls slept))"
  by (simp split: prod.splits sum.splits)

lemma analyze_data_dataset:
  "fst (snd (analyze_data L api current_date max_api_calls data marketplace analysis_type
       calls slept))
   = fst (snd (analyze_batches L api current_date (system_prompt_for analysis_type)
       marketplace analysis_type (consolidate_data L max_api_calls 3000 data)
       (dataset_of (consolidate_data L max_api_calls 3000 data) data) [] calls slept))"
  by (simp add: analyze_data_def Let_def split: prod.splits sum.splits)

lemma small_dataset_aliased:
  assumes "data_rows data = Some (PList (map PDict records))"
    and "int (length records) \<le> max_api_calls"
  shows "consolidate_data L max_api_calls max_tokens data = [(Original, data)]"
proof -
  have "df_len (frame_of_records records) = length records"
    by (simp add: df_len_def frame_of_records_def)
  with assms show ?thesis
    by (simp add: consolidate_data_def DataFrame_def)
qed

text \<open>
  Claim C8 says that the caller's dataset is never mutated in place. For a dataset with no
  more rows than \<open>max_api_calls\<close>, \<open>consolidate_data\<close> returns the dataset object itself as
  the only batch, and \<open>analyze_batch\<close> deletes \<^verbatim>\<open>"data"\<close> from it when the prompt exceeds 3500
  tokens. At the revenue dataset (three rows, \<open>max_api_calls = 3\<close>), with a serialisation
  of 4000 characters, the caller's dataset is left empty, whatever the provider answers.
\<close>

theorem analyze_data_mutates_dataset:
  "has_key revenue_data (ascii ''data'') \<and>
   fst (snd (analyze_data wide_lib api current_date 3 revenue_data marketplace analysis_type
      calls slept)) = []"
proof -
  have rows: "data_rows revenue_data = Some (PList (map PDict revenue_records))"
    by (rule revenue_frame)
  have "int (length revenue_records) \<le> 3"
    by (simp add: revenue_records_def)
  from small_dataset_aliased [OF rows this]
  have c: "consolidate_data wide_lib 3 3000 revenue_data = [(Original, revenue_data)]" .
  have s: "shrink_batch wide_lib revenue_data = (None, [])"
    by (simp add: shrink_batch_def revenue_data_def has_key_get dict_get_Cons dict_get_Nil
        dict_del_def Let_def)
  have "fst (snd (analyze_data wide_lib api current_date 3 revenue_data marketplace
      analysis_type calls slept)) = []"
    unfolding analyze_data_dataset c analyze_batches_single
    by (simp add: dataset_of_def analyze_batch_leaves wide_prepare s)
  then show ?thesis
    by (simp add: revenue_data_def has_key_get dict_get_Cons)
qed


end
